theory Spec2Isabelle
  imports Complex_Main
begin

section \<open>Numbers and columns\<close>

text \<open>
  The analytics modules compute on pandas columns of 64-bit floating point numbers.
  A cell is modelled by \<open>flt\<close>: the not-a-number marker that pandas uses for a missing
  value, the two infinities, and the finite values. Finite arithmetic is carried out in
  the reals: rounding, overflow and the sign of zero are outside this model, with one
  exception. The split index of the learned forecast is an integer read off a product of
  floats, where the rounding decides the integer; that product is computed with the
  rounding of IEEE 754 binary64 (see \<open>split_index\<close>). The special
  values follow IEEE 754 as numpy applies it (a warning, never an exception).
\<close>

datatype flt = NaN | NInf | Fin real | PInf

fun isnan :: "flt \<Rightarrow> bool" where
  "isnan NaN = True"
| "isnan _ = False"

fun fneg :: "flt \<Rightarrow> flt" where
  "fneg NaN = NaN"
| "fneg NInf = PInf"
| "fneg PInf = NInf"
| "fneg (Fin a) = Fin (- a)"

fun fadd :: "flt \<Rightarrow> flt \<Rightarrow> flt" where
  "fadd NaN _ = NaN"
| "fadd _ NaN = NaN"
| "fadd PInf NInf = NaN"
| "fadd NInf PInf = NaN"
| "fadd PInf _ = PInf"
| "fadd _ PInf = PInf"
| "fadd NInf _ = NInf"
| "fadd _ NInf = NInf"
| "fadd (Fin a) (Fin b) = Fin (a + b)"

definition fsub :: "flt \<Rightarrow> flt \<Rightarrow> flt" where
  "fsub a b = fadd a (fneg b)"

text \<open>The sign of a cell and the infinity (or not-a-number, for sign 0) of a given sign.\<close>

fun fsgn :: "flt \<Rightarrow> real" where
  "fsgn NaN = 0"
| "fsgn NInf = - 1"
| "fsgn PInf = 1"
| "fsgn (Fin a) = sgn a"

definition inf_of_sign :: "real \<Rightarrow> flt" where
  "inf_of_sign s = (if s = 0 then NaN else if 0 < s then PInf else NInf)"

fun fmul :: "flt \<Rightarrow> flt \<Rightarrow> flt" where
  "fmul NaN _ = NaN"
| "fmul _ NaN = NaN"
| "fmul (Fin a) (Fin b) = Fin (a * b)"
| "fmul a b = inf_of_sign (fsgn a * fsgn b)"

fun fdiv :: "flt \<Rightarrow> flt \<Rightarrow> flt" where
  "fdiv NaN _ = NaN"
| "fdiv _ NaN = NaN"
| "fdiv (Fin a) (Fin b) = (if b = 0 then inf_of_sign (sgn a) else Fin (a / b))"
| "fdiv (Fin a) _ = Fin 0"
| "fdiv a (Fin b) = inf_of_sign (fsgn a * (if b < 0 then - 1 else 1))"
| "fdiv _ _ = NaN"

text \<open>Comparisons: every comparison with not-a-number is false.\<close>

fun flt_less :: "flt \<Rightarrow> flt \<Rightarrow> bool" where
  "flt_less NaN _ = False"
| "flt_less _ NaN = False"
| "flt_less (Fin a) (Fin b) = (a < b)"
| "flt_less NInf NInf = False"
| "flt_less NInf _ = True"
| "flt_less PInf _ = False"
| "flt_less _ PInf = True"
| "flt_less _ NInf = False"

definition flt_le :: "flt \<Rightarrow> flt \<Rightarrow> bool" where
  "flt_le a b = (\<not> isnan a \<and> \<not> isnan b \<and> \<not> flt_less b a)"

fun fabs :: "flt \<Rightarrow> flt" where
  "fabs NaN = NaN"
| "fabs NInf = PInf"
| "fabs PInf = PInf"
| "fabs (Fin a) = Fin \<bar>a\<bar>"

fun fsqrt :: "flt \<Rightarrow> flt" where
  "fsqrt NaN = NaN"
| "fsqrt NInf = NaN"
| "fsqrt PInf = PInf"
| "fsqrt (Fin a) = (if a < 0 then NaN else Fin (sqrt a))"

fun flog :: "flt \<Rightarrow> flt" where
  "flog NaN = NaN"
| "flog NInf = NaN"
| "flog PInf = PInf"
| "flog (Fin a) = (if a < 0 then NaN else if a = 0 then NInf else Fin (ln a))"

datatype py_error = ValueError | IndexError | KeyError | ZeroDivisionError | OverflowError

section \<open>pandas column operations\<close>

text \<open>
  \<open>Series.shift(k)\<close>: the values move \<open>k\<close> rows down (up for a negative \<open>k\<close>);
  the vacated rows are not-a-number and the length is kept.
\<close>

definition pd_shift :: "int \<Rightarrow> flt list \<Rightarrow> flt list" where
  "pd_shift k xs =
     (let n = length xs in
      if 0 \<le> k then replicate (min (nat k) n) NaN @ take (n - nat k) xs
      else drop (nat (- k)) xs @ replicate (min (nat (- k)) n) NaN)"

definition pd_diff :: "flt list \<Rightarrow> flt list" where
  "pd_diff xs = map2 fsub xs (pd_shift 1 xs)"

definition fsum :: "flt list \<Rightarrow> flt" where
  "fsum xs = foldl fadd (Fin 0) xs"

definition fmean :: "flt list \<Rightarrow> flt" where
  "fmean obs = fdiv (fsum obs) (Fin (real (length obs)))"

text \<open>The sample standard deviation (one degree of freedom removed) of the observations.\<close>

definition fstd :: "flt list \<Rightarrow> flt" where
  "fstd obs =
     (let m = fmean obs;
          sq = map (\<lambda>x. fmul (fsub x m) (fsub x m)) obs
      in fsqrt (fdiv (fsum sq) (Fin (real (length obs) - 1))))"

definition observed :: "flt list \<Rightarrow> flt list" where
  "observed xs = filter (\<lambda>x. \<not> isnan x) xs"

text \<open>
  \<open>Series.mean()\<close> and \<open>Series.std()\<close> skip the missing cells; the mean of no
  observation and the deviation of fewer than two are not-a-number.
\<close>

definition pd_mean :: "flt list \<Rightarrow> flt" where
  "pd_mean xs = (let obs = observed xs in if obs = [] then NaN else fmean obs)"

definition pd_std :: "flt list \<Rightarrow> flt" where
  "pd_std xs = (let obs = observed xs in if 1 < length obs then fstd obs else NaN)"

text \<open>
  \<open>Series.rolling(w)\<close>: the window at row \<open>i\<close> holds the \<open>w\<close> rows ending at \<open>i\<close>
  (fewer at the start of the column), and a statistic is defined only when the window
  holds at least \<open>w\<close> observed cells (\<open>min_periods\<close> defaults to the window); the
  deviation also needs more than one observed cell. pandas updates the statistics from
  one window to the next; the model evaluates every window on its own, which is the same
  in exact arithmetic on finite cells. A negative window is rejected by the callers
  below, as pandas rejects it, with a \<open>ValueError\<close>.
\<close>

definition rolling_window :: "nat \<Rightarrow> flt list \<Rightarrow> nat \<Rightarrow> flt list" where
  "rolling_window w xs i = drop (Suc i - w) (take (Suc i) xs)"

definition rolling_mean :: "nat \<Rightarrow> flt list \<Rightarrow> flt list" where
  "rolling_mean w xs =
     map (\<lambda>i. let obs = observed (rolling_window w xs i)
              in if w \<le> length obs \<and> 0 < length obs then fmean obs else NaN)
         [0..<length xs]"

definition rolling_std :: "nat \<Rightarrow> flt list \<Rightarrow> flt list" where
  "rolling_std w xs =
     map (\<lambda>i. let obs = observed (rolling_window w xs i)
              in if w \<le> length obs \<and> 1 < length obs then fstd obs else NaN)
         [0..<length xs]"

text \<open>
  \<open>Series.cumprod()\<close> skips a missing cell: the row stays not-a-number and the running
  product goes on without it.
\<close>

fun cumprod_from :: "flt \<Rightarrow> flt list \<Rightarrow> flt list" where
  "cumprod_from acc [] = []"
| "cumprod_from acc (x # xs) =
     (if isnan x then NaN # cumprod_from acc xs
      else fmul acc x # cumprod_from (fmul acc x) xs)"

definition pd_cumprod :: "flt list \<Rightarrow> flt list" where
  "pd_cumprod xs = cumprod_from (Fin 1) xs"

section \<open>Python slices\<close>

text \<open>
  A slice bound \<open>i\<close> on a sequence of length \<open>n\<close>: a negative bound counts from the
  end, and every bound is clamped into \<open>0..n\<close>. \<open>None\<close> is an omitted bound.
\<close>

definition py_index :: "nat \<Rightarrow> int \<Rightarrow> nat" where
  "py_index n i = (if i < 0 then nat (max (i + int n) 0) else min (nat i) n)"

definition py_slice :: "'a list \<Rightarrow> int option \<Rightarrow> int option \<Rightarrow> 'a list" where
  "py_slice xs start stop =
     (let n = length xs;
          s = (case start of None \<Rightarrow> 0 | Some i \<Rightarrow> py_index n i);
          e = (case stop of None \<Rightarrow> n | Some j \<Rightarrow> py_index n j)
      in drop s (take e xs))"

section \<open>alternative_data.py: the lag scan\<close>

text \<open>
  A row of the merged table (\<open>ds\<close>, \<open>price\<close>, \<open>trend\<close>). The date is a day number
  and is always present: a missing date is outside the model.
\<close>

record dated =
  ds :: int

record aligned_row = dated +
  price :: flt
  trend :: flt

record corr_row =
  lag :: int
  correlation :: flt

text \<open>
  One iteration of the loop of \<open>compute_lagged_correlations\<close>. The entry \<open>[0, 1]\<close> of
  \<open>np.corrcoef(x, y)\<close> is the library's Pearson correlation and is the parameter
  \<open>corrcoef\<close>.
\<close>

definition lag_windows :: "flt list \<Rightarrow> flt list \<Rightarrow> int \<Rightarrow> flt list \<times> flt list" where
  "lag_windows prices trends l =
     (if l < 0 then
        (py_slice trends (Some (- l)) None,
         py_slice prices None (Some (int (length prices) + l)))
      else if l > 0 then
        (py_slice trends None (Some (- l)),
         py_slice prices (Some l) None)
      else (trends, prices))"

definition lag_entry ::
  "(flt list \<Rightarrow> flt list \<Rightarrow> flt) \<Rightarrow> flt list \<Rightarrow> flt list \<Rightarrow> int \<Rightarrow> corr_row" where
  "lag_entry corrcoef prices trends l =
     (let (x, y) = lag_windows prices trends l;
          corr = (if length x < 5 then NaN else corrcoef x y)
      in \<lparr>lag = l, correlation = corr\<rparr>)"

definition compute_lagged_correlations ::
  "(flt list \<Rightarrow> flt list \<Rightarrow> flt) \<Rightarrow> aligned_row list \<Rightarrow> int \<Rightarrow> corr_row list" where
  "compute_lagged_correlations corrcoef df max_lag =
     map (lag_entry corrcoef (map price df) (map trend df)) [- max_lag..max_lag]"

text \<open>
  The pairing the specification describes at lag \<open>l\<close>: the indicator up to \<open>n - l\<close>
  against the price from \<open>l\<close> on when the indicator leads, the mirror image when the
  price leads, on an overlap of \<open>n - |l|\<close> rows.
\<close>

definition spec_overlap :: "nat \<Rightarrow> int \<Rightarrow> nat" where
  "spec_overlap n l = nat (int n - \<bar>l\<bar>)"

definition spec_pairing :: "flt list \<Rightarrow> flt list \<Rightarrow> int \<Rightarrow> flt list \<times> flt list" where
  "spec_pairing prices trends l =
     (if l > 0 then (take (length trends - nat l) trends, drop (nat l) prices)
      else if l < 0 then (drop (nat (- l)) trends, take (length prices - nat (- l)) prices)
      else (trends, prices))"

section \<open>alternative_data.py: the strongest leading lag\<close>

text \<open>
  \<open>numpy.argmax\<close>: the position of the first greatest value (of the first not-a-number,
  if there is one); it raises on an empty array.
\<close>

fun argmax_from :: "nat \<Rightarrow> flt \<Rightarrow> nat \<Rightarrow> flt list \<Rightarrow> nat" where
  "argmax_from bi bv i [] = bi"
| "argmax_from bi bv i (x # xs) =
     (if flt_less bv x \<or> (isnan x \<and> \<not> isnan bv)
      then argmax_from i x (Suc i) xs
      else argmax_from bi bv (Suc i) xs)"

fun np_argmax :: "flt list \<Rightarrow> py_error + nat" where
  "np_argmax [] = Inl ValueError"
| "np_argmax (x # xs) = Inr (argmax_from 0 x 1 xs)"

definition find_best_leading_lag :: "corr_row list \<Rightarrow> py_error + corr_row option" where
  "find_best_leading_lag corr_df =
     (let leading = filter (\<lambda>r. \<not> isnan (correlation r))
                      (filter (\<lambda>r. lag r > 0) corr_df)
      in if leading = [] then Inr None
         else case np_argmax (map (\<lambda>r. fabs (correlation r)) leading) of
                Inl e \<Rightarrow> Inl e
              | Inr idx \<Rightarrow>
                  (let row = leading ! idx
                   in Inr (Some \<lparr>lag = lag row, correlation = correlation row\<rparr>)))"

text \<open>An entry that the search considers: a positive lag with a defined correlation.\<close>

definition qualifying :: "corr_row \<Rightarrow> bool" where
  "qualifying r = (lag r > 0 \<and> \<not> isnan (correlation r))"

section \<open>alternative_data.py: the backtest\<close>

record bt_row = dated +
  signal :: int
  strategy_ret :: flt
  bh_ret :: flt
  equity_strategy :: flt
  equity_bh :: flt

record bt_metrics =
  total_return_strategy :: flt
  total_return_bh :: flt
  sharpe_like :: flt
  n_trades_periods :: int
  lag_used :: int

text \<open>The columns that \<open>backtest_trend_signal\<close> adds to its copy of the table.\<close>

definition future_ret_L :: "aligned_row list \<Rightarrow> int \<Rightarrow> flt list" where
  "future_ret_L df L =
     map (\<lambda>(p_next, p). fsub (fdiv p_next p) (Fin 1))
         (zip (pd_shift (- L) (map price df)) (map price df))"

definition trend_z :: "aligned_row list \<Rightarrow> nat \<Rightarrow> flt list" where
  "trend_z df w =
     map (\<lambda>(t, m, sd). fdiv (fsub t m) sd)
         (zip (map trend df)
              (zip (rolling_mean w (map trend df)) (rolling_std w (map trend df))))"

definition trend_slope :: "aligned_row list \<Rightarrow> flt list" where
  "trend_slope df = pd_diff (map trend df)"

definition signal_col :: "aligned_row list \<Rightarrow> flt \<Rightarrow> nat \<Rightarrow> int list" where
  "signal_col df z_threshold w =
     map (\<lambda>(z, slope). if flt_less z_threshold z \<and> flt_less (Fin 0) slope then 1 else 0)
         (zip (trend_z df w) (trend_slope df))"

text \<open>
  The rows that survive \<open>dropna(subset=["future_ret_L"])\<close>, each with its date, its
  signal and its forward return.
\<close>

definition bt_kept :: "aligned_row list \<Rightarrow> int \<Rightarrow> flt \<Rightarrow> nat \<Rightarrow> (int \<times> int \<times> flt) list" where
  "bt_kept df L z_threshold w =
     filter (\<lambda>(d, s, f). \<not> isnan f)
       (zip (map ds df) (zip (signal_col df z_threshold w) (future_ret_L df L)))"

text \<open>\<open>Series.iloc[-1]\<close> raises on an empty column.\<close>

definition iloc_last :: "flt list \<Rightarrow> py_error + flt" where
  "iloc_last xs = (if xs = [] then Inl IndexError else Inr (last xs))"

definition sharpe_of :: "flt \<Rightarrow> flt \<Rightarrow> int \<Rightarrow> py_error + flt" where
  "sharpe_of avg std L =
     (if flt_less (Fin 0) std then
        (if L = 0 then Inl ZeroDivisionError
         else Inr (fmul (fdiv avg std) (fsqrt (Fin (252 / real_of_int L)))))
      else Inr NaN)"

text \<open>The return columns and equity curves computed on the surviving rows.\<close>

definition strategy_col :: "(int \<times> int \<times> flt) list \<Rightarrow> flt list" where
  "strategy_col kept = map (\<lambda>(d, s, f). fmul (Fin (real_of_int s)) f) kept"

definition bh_col :: "(int \<times> int \<times> flt) list \<Rightarrow> flt list" where
  "bh_col kept = map (\<lambda>(d, s, f). f) kept"

definition equity_of :: "flt list \<Rightarrow> flt list" where
  "equity_of rets = pd_cumprod (map (fadd (Fin 1)) rets)"

definition bt_rows :: "(int \<times> int \<times> flt) list \<Rightarrow> bt_row list" where
  "bt_rows kept =
     map (\<lambda>((d, s, f), (sr, (br, (es, eb)))).
            \<lparr>ds = d, signal = s, strategy_ret = sr, bh_ret = br,
             equity_strategy = es, equity_bh = eb\<rparr>)
         (zip kept
            (zip (strategy_col kept)
               (zip (bh_col kept)
                  (zip (equity_of (strategy_col kept)) (equity_of (bh_col kept))))))"

definition backtest_trend_signal ::
  "aligned_row list \<Rightarrow> int \<Rightarrow> flt \<Rightarrow> int \<Rightarrow> py_error + (bt_row list \<times> bt_metrics)" where
  "backtest_trend_signal df best_lag z_threshold roll_window =
     (let L = best_lag in
      if roll_window < 0 then Inl ValueError
      else
        let kept = bt_kept df L z_threshold (nat roll_window) in
        case iloc_last (equity_of (strategy_col kept)) of
          Inl e \<Rightarrow> Inl e
        | Inr last_s \<Rightarrow>
        (case iloc_last (equity_of (bh_col kept)) of
          Inl e \<Rightarrow> Inl e
        | Inr last_b \<Rightarrow>
        (case sharpe_of (pd_mean (strategy_col kept)) (pd_std (strategy_col kept)) L of
          Inl e \<Rightarrow> Inl e
        | Inr sharpe \<Rightarrow>
            Inr (bt_rows kept,
                 \<lparr>total_return_strategy = fsub last_s (Fin 1),
                  total_return_bh = fsub last_b (Fin 1),
                  sharpe_like = sharpe,
                  n_trades_periods = sum_list (map (\<lambda>(d, s, f). s) kept),
                  lag_used = L\<rparr>))))"

section \<open>volatility.py: the features\<close>

text \<open>
  The table that \<open>load_price_data\<close> hands over has the columns \<open>ds\<close> and \<open>y\<close>;
  \<open>compute_volatility_features\<close> adds the return and the four volatility columns. The
  download itself is outside the model: the function is modelled from the loaded table on.
\<close>

record price_row = dated +
  y :: flt

record vol_row = price_row +
  ret :: flt
  vol_short :: flt
  vol_long :: flt
  vol_short_ann :: flt
  vol_long_ann :: flt

text \<open>\<open>np.log(y / y.shift(1))\<close> followed by \<open>fillna(0.0)\<close>.\<close>

definition fillna_zero :: "flt \<Rightarrow> flt" where
  "fillna_zero x = (if isnan x then Fin 0 else x)"

definition log_returns :: "flt list \<Rightarrow> flt list" where
  "log_returns ys =
     map fillna_zero (map (\<lambda>(a, b). flog (fdiv a b)) (zip ys (pd_shift 1 ys)))"

definition ann_factor :: flt where
  "ann_factor = fsqrt (Fin 252)"

definition vol_rows :: "price_row list \<Rightarrow> nat \<Rightarrow> nat \<Rightarrow> vol_row list" where
  "vol_rows df ws wl =
     (let rets = log_returns (map y df);
          vs = rolling_std ws rets;
          vl = rolling_std wl rets
      in map (\<lambda>(p, r, s, l).
                \<lparr>ds = ds p, y = y p, ret = r, vol_short = s, vol_long = l,
                 vol_short_ann = fmul s ann_factor, vol_long_ann = fmul l ann_factor\<rparr>)
             (zip df (zip rets (zip vs vl))))"

text \<open>\<open>DataFrame.dropna()\<close> drops a row that has a missing cell in any column.\<close>

definition vol_row_has_nan :: "vol_row \<Rightarrow> bool" where
  "vol_row_has_nan r =
     (isnan (y r) \<or> isnan (ret r) \<or> isnan (vol_short r) \<or> isnan (vol_long r)
      \<or> isnan (vol_short_ann r) \<or> isnan (vol_long_ann r))"

definition compute_volatility_features ::
  "price_row list \<Rightarrow> int \<Rightarrow> int \<Rightarrow> py_error + vol_row list" where
  "compute_volatility_features df window_short window_long =
     (if window_short < 0 then Inl ValueError
      else if window_long < 0 then Inl ValueError
      else Inr (filter (\<lambda>r. \<not> vol_row_has_nan r)
                  (vol_rows df (nat window_short) (nat window_long))))"

section \<open>volatility.py: the forecasts\<close>

text \<open>
  The error metrics of scikit-learn reject inputs of different lengths, empty inputs and
  inputs with a cell that is not finite, each with a \<open>ValueError\<close>.
\<close>

fun is_finite :: "flt \<Rightarrow> bool" where
  "is_finite (Fin a) = True"
| "is_finite _ = False"

definition sk_accepts :: "flt list \<Rightarrow> flt list \<Rightarrow> bool" where
  "sk_accepts y_true y_pred =
     (length y_true = length y_pred \<and> y_true \<noteq> []
      \<and> list_all is_finite y_true \<and> list_all is_finite y_pred)"

definition mean_absolute_error :: "flt list \<Rightarrow> flt list \<Rightarrow> py_error + flt" where
  "mean_absolute_error y_true y_pred =
     (if sk_accepts y_true y_pred
      then Inr (fmean (map (\<lambda>(t, p). fabs (fsub p t)) (zip y_true y_pred)))
      else Inl ValueError)"

definition mean_squared_error :: "flt list \<Rightarrow> flt list \<Rightarrow> py_error + flt" where
  "mean_squared_error y_true y_pred =
     (if sk_accepts y_true y_pred
      then Inr (fmean (map (\<lambda>(t, p). fmul (fsub t p) (fsub t p)) (zip y_true y_pred)))
      else Inl ValueError)"

record vol_metrics =
  MAE :: flt
  RMSE :: flt

definition error_metrics :: "flt list \<Rightarrow> flt list \<Rightarrow> py_error + vol_metrics" where
  "error_metrics y_true y_pred =
     (case mean_absolute_error y_true y_pred of
        Inl e \<Rightarrow> Inl e
      | Inr mae \<Rightarrow>
          (case mean_squared_error y_true y_pred of
             Inl e \<Rightarrow> Inl e
           | Inr mse \<Rightarrow> Inr \<lparr>MAE = mae, RMSE = fsqrt mse\<rparr>))"

text \<open>The target of both forecasts: the absolute return \<open>horizon\<close> rows ahead.\<close>

definition realized_vol_next_col :: "vol_row list \<Rightarrow> int \<Rightarrow> flt list" where
  "realized_vol_next_col df horizon = pd_shift (- horizon) (map (\<lambda>r. fabs (ret r)) df)"

text \<open>
  \<open>naive_vol_forecast\<close>. A row of the returned table is the triple of the columns
  \<open>ds\<close>, \<open>realized_vol_next\<close> and \<open>forecast_vol\<close>. When no row is valid the function
  returns the empty table as it is (with every column) and the two undefined metrics.
\<close>

definition naive_valid :: "vol_row list \<Rightarrow> int \<Rightarrow> (int \<times> flt \<times> flt) list" where
  "naive_valid df horizon =
     filter (\<lambda>(d, r, f). \<not> isnan r \<and> \<not> isnan f)
       (zip (map ds df) (zip (realized_vol_next_col df horizon) (map vol_long_ann df)))"

definition naive_vol_forecast ::
  "vol_row list \<Rightarrow> int \<Rightarrow> py_error + ((int \<times> flt \<times> flt) list \<times> vol_metrics)" where
  "naive_vol_forecast df horizon =
     (let valid = naive_valid df horizon in
      if valid = [] then Inr ([], \<lparr>MAE = NaN, RMSE = NaN\<rparr>)
      else case error_metrics (map (\<lambda>(d, r, f). r) valid) (map (\<lambda>(d, r, f). f) valid) of
             Inl e \<Rightarrow> Inl e
           | Inr metrics \<Rightarrow> Inr (valid, metrics))"

text \<open>
  \<open>xgboost_vol_forecast\<close>. The frame gains the target and four lagged feature columns,
  and loses every row with a missing cell; a row of the feature matrix is the list of
  the four features. The regressor is a parameter: \<open>fit\<close> trains a model on a feature
  matrix and its targets, \<open>predict\<close> applies a model to a feature matrix.
\<close>

record xgb_row = vol_row +
  realized_vol_next :: flt
  lag_ret :: flt
  lag2_ret :: flt
  lag_vol_short :: flt
  lag_vol_long :: flt

record pred_row = xgb_row +
  forecast_vol_xgb :: flt

definition xgb_rows :: "vol_row list \<Rightarrow> int \<Rightarrow> xgb_row list" where
  "xgb_rows df horizon =
     map (\<lambda>(r, tgt, l1, l2, ls, ll).
            \<lparr>ds = ds r, y = y r, ret = ret r, vol_short = vol_short r, vol_long = vol_long r,
             vol_short_ann = vol_short_ann r, vol_long_ann = vol_long_ann r,
             realized_vol_next = tgt, lag_ret = l1, lag2_ret = l2,
             lag_vol_short = ls, lag_vol_long = ll\<rparr>)
         (zip df
           (zip (realized_vol_next_col df horizon)
             (zip (pd_shift 1 (map ret df))
               (zip (pd_shift 2 (map ret df))
                 (zip (pd_shift 1 (map vol_short_ann df))
                      (pd_shift 1 (map vol_long_ann df)))))))"

definition xgb_row_has_nan :: "xgb_row \<Rightarrow> bool" where
  "xgb_row_has_nan r =
     (isnan (y r) \<or> isnan (ret r) \<or> isnan (vol_short r) \<or> isnan (vol_long r)
      \<or> isnan (vol_short_ann r) \<or> isnan (vol_long_ann r)
      \<or> isnan (realized_vol_next r) \<or> isnan (lag_ret r) \<or> isnan (lag2_ret r)
      \<or> isnan (lag_vol_short r) \<or> isnan (lag_vol_long r))"

text \<open>The rows that survive \<open>dropna()\<close>, each with its position in the input table.\<close>

definition xgb_frame :: "vol_row list \<Rightarrow> int \<Rightarrow> (nat \<times> xgb_row) list" where
  "xgb_frame df horizon =
     filter (\<lambda>(t, r). \<not> xgb_row_has_nan r) (zip [0..<length df] (xgb_rows df horizon))"

definition features :: "xgb_row \<Rightarrow> flt list" where
  "features r = [lag_ret r, lag2_ret r, lag_vol_short r, lag_vol_long r]"

text \<open>
  Python's \<open>int\<close> of a float truncates towards zero; it raises \<open>ValueError\<close> on
  not-a-number and \<open>OverflowError\<close> on an infinity.
\<close>

fun py_int :: "flt \<Rightarrow> py_error + int" where
  "py_int NaN = Inl ValueError"
| "py_int PInf = Inl OverflowError"
| "py_int NInf = Inl OverflowError"
| "py_int (Fin a) = Inr (if 0 \<le> a then \<lfloor>a\<rfloor> else \<lceil>a\<rceil>)"

definition with_forecast :: "xgb_row \<Rightarrow> flt \<Rightarrow> pred_row" where
  "with_forecast r p =
     \<lparr>ds = ds r, y = y r, ret = ret r, vol_short = vol_short r, vol_long = vol_long r,
      vol_short_ann = vol_short_ann r, vol_long_ann = vol_long_ann r,
      realized_vol_next = realized_vol_next r, lag_ret = lag_ret r, lag2_ret = lag2_ret r,
      lag_vol_short = lag_vol_short r, lag_vol_long = lag_vol_long r,
      forecast_vol_xgb = p\<rparr>"

text \<open>
  A Python float is an IEEE 754 binary64 number: 53 significant bits, the least exponent
  of a unit in the last place \<open>-1074\<close>, and every result rounded to the nearest such
  number, a tie going to the even significand; a result of magnitude \<open>2 ^ 1024\<close> or
  more overflows to an infinity. \<open>to_binary64\<close> rounds a real number in this way;
  \<open>ulp_exponent x\<close> is the exponent of the unit in the last place at \<open>x\<close>.
\<close>

definition round_half_even :: "real \<Rightarrow> int" where
  "round_half_even m =
     (let f = \<lfloor>m\<rfloor>; d = m - of_int f
      in if d < 1 / 2 then f else if 1 / 2 < d then f + 1
         else if even f then f else f + 1)"

definition ulp_exponent :: "real \<Rightarrow> int" where
  "ulp_exponent x = max (\<lfloor>log 2 \<bar>x\<bar>\<rfloor> - 52) (- 1074)"

definition to_binary64 :: "real \<Rightarrow> flt" where
  "to_binary64 x =
     (if x = 0 then Fin 0
      else let u = 2 powi (ulp_exponent x);
               r = of_int (round_half_even (x / u)) * u
           in if 2 ^ 1024 \<le> \<bar>r\<bar> then inf_of_sign (sgn x) else Fin r)"

fun as_double :: "flt \<Rightarrow> flt" where
  "as_double (Fin x) = to_binary64 x"
| "as_double v = v"

text \<open>
  \<open>int(len(X) * (1 - test_size))\<close>. The argument \<open>test_size\<close> is the number the caller
  wrote (\<open>0.2\<close> by default); Python holds the binary64 number nearest to it. The
  difference \<open>1 - test_size\<close> is rounded, the length is converted to a float, and their
  product is rounded again before \<open>int\<close> truncates it.
\<close>

definition split_index :: "nat \<Rightarrow> flt \<Rightarrow> py_error + int" where
  "split_index n test_size =
     py_int (as_double (fmul (as_double (Fin (real n)))
                             (as_double (fsub (Fin 1) (as_double test_size)))))"

definition xgboost_vol_forecast ::
  "(flt list list \<Rightarrow> flt list \<Rightarrow> 'm) \<Rightarrow> ('m \<Rightarrow> flt list list \<Rightarrow> flt list) \<Rightarrow>
   vol_row list \<Rightarrow> int \<Rightarrow> flt \<Rightarrow> py_error + (pred_row list \<times> vol_metrics \<times> 'm)" where
  "xgboost_vol_forecast fit predict df horizon test_size =
     (let frame = map snd (xgb_frame df horizon);
          X = map features frame;
          yv = map realized_vol_next frame
      in case split_index (length X) test_size of
           Inl e \<Rightarrow> Inl e
         | Inr split \<Rightarrow>
             (let X_train = py_slice X None (Some split);
                  X_test = py_slice X (Some split) None;
                  y_train = py_slice yv None (Some split);
                  y_test = py_slice yv (Some split) None;
                  model = fit X_train y_train;
                  preds = predict model X_test
              in case error_metrics y_test preds of
                   Inl e \<Rightarrow> Inl e
                 | Inr metrics \<Rightarrow>
                     Inr (map (\<lambda>(r, p). with_forecast r p)
                            (zip (py_slice frame (Some split) None) preds),
                          metrics, model)))"

section \<open>Tables as objects\<close>

text \<open>
  A \<open>DataFrame\<close> is a mutable object, and a caller keeps a reference to the table it
  passes in. To speak about what an operation does to that table, the tables live in a
  store: an address is a position in the store, a table is a list of named columns, and an
  operation takes the store and the address of its argument and returns the store it
  leaves behind. The contents of the columns are those computed by the functions above;
  this section adds which object each statement of the source reads, creates or changes.
\<close>

datatype column = Floats "flt list" | Ints "int list"

type_synonym frame = "(string \<times> column) list"

type_synonym store = "frame list"

text \<open>\<open>df.copy()\<close> and every pandas call that builds a table allocate a new object.\<close>

definition df_new :: "store \<Rightarrow> frame \<Rightarrow> store \<times> nat" where
  "df_new s f = (s @ [f], length s)"

definition df_copy :: "store \<Rightarrow> nat \<Rightarrow> store \<times> nat" where
  "df_copy s a = df_new s (s ! a)"

text \<open>\<open>df[name] = values\<close> changes the object in place: it replaces or appends a column.\<close>

definition set_col :: "frame \<Rightarrow> string \<Rightarrow> column \<Rightarrow> frame" where
  "set_col f name c =
     (if name \<in> set (map fst f)
      then map (\<lambda>(k, v). if k = name then (k, c) else (k, v)) f
      else f @ [(name, c)])"

definition df_assign :: "store \<Rightarrow> nat \<Rightarrow> string \<Rightarrow> column \<Rightarrow> store" where
  "df_assign s a name c = s[a := set_col (s ! a) name c]"

text \<open>Reading columns; a missing column is a \<open>KeyError\<close>, as is a date column of floats.\<close>

definition float_col :: "frame \<Rightarrow> string \<Rightarrow> py_error + flt list" where
  "float_col f name =
     (case map_of f name of
        None \<Rightarrow> Inl KeyError
      | Some (Floats xs) \<Rightarrow> Inr xs
      | Some (Ints ks) \<Rightarrow> Inr (map (\<lambda>k. Fin (real_of_int k)) ks))"

definition int_col :: "frame \<Rightarrow> string \<Rightarrow> py_error + int list" where
  "int_col f name =
     (case map_of f name of
        Some (Ints ks) \<Rightarrow> Inr ks
      | _ \<Rightarrow> Inl KeyError)"

definition aligned_view :: "frame \<Rightarrow> py_error + aligned_row list" where
  "aligned_view f =
     (case (int_col f ''ds'', float_col f ''price'', float_col f ''trend'') of
        (Inr d, Inr p, Inr t) \<Rightarrow>
          Inr (map (\<lambda>(d, p, t). \<lparr>ds = d, price = p, trend = t\<rparr>) (zip d (zip p t)))
      | _ \<Rightarrow> Inl KeyError)"

definition price_view :: "frame \<Rightarrow> py_error + price_row list" where
  "price_view f =
     (case (int_col f ''ds'', float_col f ''y'') of
        (Inr d, Inr p) \<Rightarrow> Inr (map (\<lambda>(d, p). \<lparr>ds = d, y = p\<rparr>) (zip d p))
      | _ \<Rightarrow> Inl KeyError)"

definition vol_view :: "frame \<Rightarrow> py_error + vol_row list" where
  "vol_view f =
     (case (int_col f ''ds'', float_col f ''y'', float_col f ''ret'',
            float_col f ''vol_short'', float_col f ''vol_long'',
            float_col f ''vol_short_ann'', float_col f ''vol_long_ann'') of
        (Inr d, Inr p, Inr r, Inr s, Inr l, Inr sa, Inr la) \<Rightarrow>
          Inr (map (\<lambda>(d, p, r, s, l, sa, la).
                      \<lparr>ds = d, y = p, ret = r, vol_short = s, vol_long = l,
                       vol_short_ann = sa, vol_long_ann = la\<rparr>)
                   (zip d (zip p (zip r (zip s (zip l (zip sa la)))))))
      | _ \<Rightarrow> Inl KeyError)"

text \<open>The tables that the operations build from their rows.\<close>

definition frame_of_corr :: "corr_row list \<Rightarrow> frame" where
  "frame_of_corr rows =
     [(''lag'', Ints (map lag rows)), (''correlation'', Floats (map correlation rows))]"

definition frame_of_bt :: "bt_row list \<Rightarrow> frame" where
  "frame_of_bt rows =
     [(''ds'', Ints (map ds rows)), (''signal'', Ints (map signal rows)),
      (''strategy_ret'', Floats (map strategy_ret rows)), (''bh_ret'', Floats (map bh_ret rows)),
      (''equity_strategy'', Floats (map equity_strategy rows)),
      (''equity_bh'', Floats (map equity_bh rows))]"

definition frame_of_vol :: "'a vol_row_scheme list \<Rightarrow> frame" where
  "frame_of_vol rows =
     [(''ds'', Ints (map ds rows)), (''y'', Floats (map y rows)), (''ret'', Floats (map ret rows)),
      (''vol_short'', Floats (map vol_short rows)), (''vol_long'', Floats (map vol_long rows)),
      (''vol_short_ann'', Floats (map vol_short_ann rows)),
      (''vol_long_ann'', Floats (map vol_long_ann rows))]"

definition frame_of_naive :: "(int \<times> flt \<times> flt) list \<Rightarrow> frame" where
  "frame_of_naive rows =
     [(''ds'', Ints (map (\<lambda>(d, r, f). d) rows)),
      (''realized_vol_next'', Floats (map (\<lambda>(d, r, f). r) rows)),
      (''forecast_vol'', Floats (map (\<lambda>(d, r, f). f) rows))]"

definition frame_of_xgb :: "'a xgb_row_scheme list \<Rightarrow> frame" where
  "frame_of_xgb rows =
     frame_of_vol rows @
     [(''realized_vol_next'', Floats (map realized_vol_next rows)),
      (''lag_ret'', Floats (map lag_ret rows)), (''lag2_ret'', Floats (map lag2_ret rows)),
      (''lag_vol_short'', Floats (map lag_vol_short rows)),
      (''lag_vol_long'', Floats (map lag_vol_long rows))]"

text \<open>Keeping the rows of a table that a mask selects (\<open>dropna\<close>, \<open>iloc\<close>).\<close>

definition select_rows :: "bool list \<Rightarrow> 'a list \<Rightarrow> 'a list" where
  "select_rows keep xs = map snd (filter fst (zip keep xs))"

fun column_rows :: "bool list \<Rightarrow> column \<Rightarrow> column" where
  "column_rows keep (Floats xs) = Floats (select_rows keep xs)"
| "column_rows keep (Ints ks) = Ints (select_rows keep ks)"

definition frame_rows :: "bool list \<Rightarrow> frame \<Rightarrow> frame" where
  "frame_rows keep f = map (\<lambda>(k, c). (k, column_rows keep c)) f"

text \<open>
  \<open>compute_lagged_correlations\<close> reads two columns of its argument into fresh arrays and
  returns a new table.
\<close>

definition scan_lags_obj ::
  "(flt list \<Rightarrow> flt list \<Rightarrow> flt) \<Rightarrow> store \<Rightarrow> nat \<Rightarrow> int \<Rightarrow> store \<times> (py_error + nat)" where
  "scan_lags_obj corrcoef s a max_lag =
     (case float_col (s ! a) ''price'' of
        Inl e \<Rightarrow> (s, Inl e)
      | Inr prices \<Rightarrow>
     (case float_col (s ! a) ''trend'' of
        Inl e \<Rightarrow> (s, Inl e)
      | Inr trends \<Rightarrow>
          (let (s1, out) =
                 df_new s (frame_of_corr (map (lag_entry corrcoef prices trends)
                                              [- max_lag..max_lag]))
           in (s1, Inr out))))"

text \<open>
  \<open>backtest_trend_signal\<close> copies its argument, adds its working columns to the copy,
  builds the table of the rows with a forward return, copies that, adds the return and
  equity columns, and returns a new table of six of the columns.
\<close>

definition backtest_obj ::
  "store \<Rightarrow> nat \<Rightarrow> int \<Rightarrow> flt \<Rightarrow> int \<Rightarrow> store \<times> (py_error + nat \<times> bt_metrics)" where
  "backtest_obj s a L z w =
     (let (s1, c) = df_copy s a in
      case aligned_view (s1 ! c) of
        Inl e \<Rightarrow> (s1, Inl e)
      | Inr rows \<Rightarrow>
          (let s2 = df_assign s1 c ''future_ret_L'' (Floats (future_ret_L rows L)) in
           if w < 0 then (s2, Inl ValueError)
           else
             (let wn = nat w;
                  s3 = df_assign s2 c ''trend_mean'' (Floats (rolling_mean wn (map trend rows)));
                  s4 = df_assign s3 c ''trend_std'' (Floats (rolling_std wn (map trend rows)));
                  s5 = df_assign s4 c ''trend_z'' (Floats (trend_z rows wn));
                  s6 = df_assign s5 c ''trend_slope'' (Floats (trend_slope rows));
                  s7 = df_assign s6 c ''signal'' (Ints (replicate (length rows) 0));
                  s8 = df_assign s7 c ''signal'' (Ints (signal_col rows z wn));
                  (s9, d) = df_new s8 (frame_rows (map (\<lambda>f. \<not> isnan f) (future_ret_L rows L))
                                         (s8 ! c));
                  (s10, bt) = df_copy s9 d;
                  kept = bt_kept rows L z wn;
                  s11 = df_assign s10 bt ''strategy_ret'' (Floats (strategy_col kept));
                  s12 = df_assign s11 bt ''bh_ret'' (Floats (bh_col kept));
                  s13 = df_assign s12 bt ''equity_strategy''
                          (Floats (equity_of (strategy_col kept)));
                  s14 = df_assign s13 bt ''equity_bh'' (Floats (equity_of (bh_col kept)))
              in case backtest_trend_signal rows L z w of
                   Inl e \<Rightarrow> (s14, Inl e)
                 | Inr (out_rows, m) \<Rightarrow>
                     (let (s15, out) = df_new s14 (frame_of_bt out_rows)
                      in (s15, Inr (out, m))))))"

text \<open>
  \<open>compute_volatility_features\<close> copies the loaded table, adds the return and the
  volatility columns to the copy, and returns the new table that \<open>dropna\<close> and
  \<open>reset_index\<close> build.
\<close>

definition compute_features_obj ::
  "store \<Rightarrow> nat \<Rightarrow> int \<Rightarrow> int \<Rightarrow> store \<times> (py_error + nat)" where
  "compute_features_obj s a window_short window_long =
     (let (s1, c) = df_copy s a in
      case price_view (s1 ! c) of
        Inl e \<Rightarrow> (s1, Inl e)
      | Inr rows \<Rightarrow>
          (let rets = log_returns (map y rows);
               s2 = df_assign s1 c ''ret''
                      (Floats (map (\<lambda>(a, b). flog (fdiv a b))
                                 (zip (map y rows) (pd_shift 1 (map y rows)))));
               s3 = df_assign s2 c ''ret'' (Floats rets)
           in if window_short < 0 then (s3, Inl ValueError)
              else
                (let ws = nat window_short;
                     s4 = df_assign s3 c ''vol_short'' (Floats (rolling_std ws rets))
                 in if window_long < 0 then (s4, Inl ValueError)
                    else
                      (let wl = nat window_long;
                           full = vol_rows rows ws wl;
                           s5 = df_assign s4 c ''vol_long'' (Floats (map vol_long full));
                           s6 = df_assign s5 c ''vol_short_ann'' (Floats (map vol_short_ann full));
                           s7 = df_assign s6 c ''vol_long_ann'' (Floats (map vol_long_ann full));
                           kept = filter (\<lambda>r. \<not> vol_row_has_nan r) full;
                           (s8, d) = df_new s7 (frame_of_vol kept);
                           (s9, out) = df_new s8 (frame_of_vol kept)
                       in (s9, Inr out)))))"

text \<open>
  \<open>naive_vol_forecast\<close> copies its argument, adds the target and the forecast to the
  copy, and builds the valid table with \<open>dropna\<close> and \<open>reset_index\<close>. It returns that
  table when it is empty, and otherwise a new table of three of its columns.
\<close>

definition naive_obj ::
  "store \<Rightarrow> nat \<Rightarrow> int \<Rightarrow> store \<times> (py_error + nat \<times> vol_metrics)" where
  "naive_obj s a horizon =
     (let (s1, c) = df_copy s a in
      case vol_view (s1 ! c) of
        Inl e \<Rightarrow> (s1, Inl e)
      | Inr rows \<Rightarrow>
          (let target = realized_vol_next_col rows horizon;
               s2 = df_assign s1 c ''realized_vol_next'' (Floats target);
               s3 = df_assign s2 c ''forecast_vol'' (Floats (map vol_long_ann rows));
               keep = map (\<lambda>(r, f). \<not> isnan r \<and> \<not> isnan f)
                        (zip target (map vol_long_ann rows));
               (s4, d) = df_new s3 (frame_rows keep (s3 ! c));
               (s5, valid) = df_new s4 (s4 ! d)
           in if naive_valid rows horizon = []
              then (s5, Inr (valid, \<lparr>MAE = NaN, RMSE = NaN\<rparr>))
              else case naive_vol_forecast rows horizon of
                     Inl e \<Rightarrow> (s5, Inl e)
                   | Inr (out_rows, m) \<Rightarrow>
                       (let (s6, out) = df_new s5 (frame_of_naive out_rows)
                        in (s6, Inr (out, m)))))"

text \<open>
  \<open>xgboost_vol_forecast\<close> copies its argument, adds the target and the lagged features
  to the copy, builds the table without missing cells, takes a copy of its test rows,
  adds the predictions to that copy and returns it.
\<close>

definition frame_of_pred :: "pred_row list \<Rightarrow> frame" where
  "frame_of_pred rows =
     frame_of_xgb rows @
     [(''forecast_vol_xgb'', Floats (map forecast_vol_xgb rows))]"

definition xgboost_obj ::
  "(flt list list \<Rightarrow> flt list \<Rightarrow> 'm) \<Rightarrow> ('m \<Rightarrow> flt list list \<Rightarrow> flt list) \<Rightarrow>
   store \<Rightarrow> nat \<Rightarrow> int \<Rightarrow> flt \<Rightarrow> store \<times> (py_error + nat \<times> vol_metrics \<times> 'm)" where
  "xgboost_obj fit predict s a horizon test_size =
     (let (s1, c) = df_copy s a in
      case vol_view (s1 ! c) of
        Inl e \<Rightarrow> (s1, Inl e)
      | Inr rows \<Rightarrow>
          (let full = xgb_rows rows horizon;
               s2 = df_assign s1 c ''realized_vol_next'' (Floats (map realized_vol_next full));
               s3 = df_assign s2 c ''lag_ret'' (Floats (map lag_ret full));
               s4 = df_assign s3 c ''lag2_ret'' (Floats (map lag2_ret full));
               s5 = df_assign s4 c ''lag_vol_short'' (Floats (map lag_vol_short full));
               s6 = df_assign s5 c ''lag_vol_long'' (Floats (map lag_vol_long full));
               kept = map snd (xgb_frame rows horizon);
               (s7, d) = df_new s6 (frame_of_xgb kept);
               (s8, d') = df_new s7 (frame_of_xgb kept)
           in case xgboost_vol_forecast fit predict rows horizon test_size of
                Inl e \<Rightarrow> (s8, Inl e)
              | Inr (out_rows, m, model) \<Rightarrow>
                  (let (s9, p) = df_new s8 (frame_of_xgb out_rows);
                       (s10, out) = df_copy s9 p;
                       s11 = df_assign s10 out ''forecast_vol_xgb''
                               (Floats (map forecast_vol_xgb out_rows))
                   in (s11, Inr (out, m, model)))))"

text \<open>
  What it means for an operation to leave the tables of the caller alone: every object
  of the store before the call is still there, unchanged; and for an address to be that
  of a table created during the call.
\<close>

definition preserves :: "store \<Rightarrow> store \<Rightarrow> bool" where
  "preserves s s' = (length s \<le> length s' \<and> take (length s) s' = s)"

definition fresh_in :: "store \<Rightarrow> store \<Rightarrow> nat \<Rightarrow> bool" where
  "fresh_in s s' out = (length s \<le> out \<and> out < length s')"

section \<open>Sample tables\<close>

text \<open>Six days of a rising price with a stepwise rising indicator.\<close>

definition df6 :: "aligned_row list" where
  "df6 = [\<lparr>ds = 0, price = Fin 100, trend = Fin 1\<rparr>,
          \<lparr>ds = 1, price = Fin 101, trend = Fin 1\<rparr>,
          \<lparr>ds = 2, price = Fin 102, trend = Fin 2\<rparr>,
          \<lparr>ds = 3, price = Fin 103, trend = Fin 2\<rparr>,
          \<lparr>ds = 4, price = Fin 104, trend = Fin 3\<rparr>,
          \<lparr>ds = 5, price = Fin 105, trend = Fin 3\<rparr>]"

text \<open>A correlation table whose two strongest leading lags tie in absolute value.\<close>

definition tbl5 :: "corr_row list" where
  "tbl5 = [\<lparr>lag = - 1, correlation = Fin (9/10)\<rparr>,
           \<lparr>lag = 0, correlation = Fin (4/5)\<rparr>,
           \<lparr>lag = 1, correlation = Fin (- 1/2)\<rparr>,
           \<lparr>lag = 2, correlation = Fin (1/2)\<rparr>,
           \<lparr>lag = 3, correlation = NaN\<rparr>]"

text \<open>Six days on which the indicator climbs for three days and then stays flat.\<close>

definition df_step :: "aligned_row list" where
  "df_step = [\<lparr>ds = 0, price = Fin 100, trend = Fin 0\<rparr>,
              \<lparr>ds = 1, price = Fin 110, trend = Fin 3\<rparr>,
              \<lparr>ds = 2, price = Fin 121, trend = Fin 6\<rparr>,
              \<lparr>ds = 3, price = Fin 121, trend = Fin 6\<rparr>,
              \<lparr>ds = 4, price = Fin 121, trend = Fin 6\<rparr>,
              \<lparr>ds = 5, price = Fin 121, trend = Fin 6\<rparr>]"

text \<open>Three days of a flat price, and the feature rows of two of them.\<close>

definition flat3 :: "price_row list" where
  "flat3 = [\<lparr>ds = 0, y = Fin 100\<rparr>, \<lparr>ds = 1, y = Fin 100\<rparr>, \<lparr>ds = 2, y = Fin 100\<rparr>]"

definition feat2 :: "vol_row list" where
  "feat2 = [\<lparr>ds = 1, y = Fin 100, ret = Fin 0, vol_short = Fin 0, vol_long = Fin 0,
             vol_short_ann = Fin 0, vol_long_ann = Fin 0\<rparr>,
            \<lparr>ds = 2, y = Fin 100, ret = Fin 0, vol_short = Fin 0, vol_long = Fin 0,
             vol_short_ann = Fin 0, vol_long_ann = NaN\<rparr>]"

text \<open>
  Six feature rows with returns 0, 1/10, -1/10, 1/5, 0, 1/10 and constant volatility, and
  a regressor that predicts the mean of its training targets.
\<close>

definition feat_row :: "int \<Rightarrow> real \<Rightarrow> vol_row" where
  "feat_row d r =
     \<lparr>ds = d, y = Fin 100, ret = Fin r, vol_short = Fin (1/100), vol_long = Fin (1/100),
      vol_short_ann = Fin (1/10), vol_long_ann = Fin (1/10)\<rparr>"

definition feat6 :: "vol_row list" where
  "feat6 = [feat_row 0 0, feat_row 1 (1/10), feat_row 2 (- 1/10),
            feat_row 3 (1/5), feat_row 4 0, feat_row 5 (1/10)]"

definition mean_fit :: "flt list list \<Rightarrow> flt list \<Rightarrow> flt" where
  "mean_fit X targets = fmean targets"

definition mean_predict :: "flt \<Rightarrow> flt list list \<Rightarrow> flt list" where
  "mean_predict model X = map (\<lambda>x. model) X"

text \<open>
  Eight feature rows, of which the learned evaluation keeps five, and a regressor whose
  model is the number of rows it was trained on and whose predictions are all 0.
\<close>

definition feat8 :: "vol_row list" where
  "feat8 = [feat_row 0 0, feat_row 1 (1/10), feat_row 2 (- 1/10), feat_row 3 (1/5),
            feat_row 4 0, feat_row 5 (1/10), feat_row 6 (- 1/5), feat_row 7 (1/10)]"

definition count_fit :: "flt list list \<Rightarrow> flt list \<Rightarrow> nat" where
  "count_fit X targets = length targets"

definition count_predict :: "nat \<Rightarrow> flt list list \<Rightarrow> flt list" where
  "count_predict model X = map (\<lambda>x. Fin 0) X"

text \<open>A store that holds the six-day table, the flat prices and the six feature rows.\<close>

definition store3 :: store where
  "store3 =
     [[(''ds'', Ints (map ds df_step)), (''price'', Floats (map price df_step)),
       (''trend'', Floats (map trend df_step))],
      [(''ds'', Ints (map ds flat3)), (''y'', Floats (map y flat3))],
      frame_of_vol feat6]"

section \<open>Properties of the lag scan\<close>

lemma py_slice_from: "0 \<le> i \<Longrightarrow> py_slice xs (Some i) None = drop (nat i) xs"
  by (simp add: py_slice_def py_index_def min_def Let_def)

lemma py_slice_to_neg: "0 < l \<Longrightarrow> py_slice xs None (Some (- l)) = take (length xs - nat l) xs"
proof -
  assume l: "0 < l"
  have "nat (max (- l + int (length xs)) 0) = length xs - nat l"
    using l by (simp add: max_def nat_diff_distrib')
  with l show ?thesis by (simp add: py_slice_def py_index_def Let_def)
qed

lemma py_slice_to_nonneg: "0 \<le> j \<Longrightarrow> py_slice xs None (Some j) = take (nat j) xs"
  by (simp add: py_slice_def py_index_def min_def Let_def)

lemma lag_windows_length:
  "length prices = length trends \<Longrightarrow> length (fst (lag_windows prices trends l)) = spec_overlap (length trends) l"
  by (auto simp: lag_windows_def py_slice_to_neg py_slice_from spec_overlap_def)

lemma lag_windows_paired:
  assumes "length prices = length trends" "5 \<le> spec_overlap (length trends) l"
  shows "lag_windows prices trends l = spec_pairing prices trends l"
proof -
  consider "l < 0" | "l = 0" | "0 < l" by linarith
  then show ?thesis
  proof cases
    case 1
    then have "0 \<le> int (length prices) + l" using assms by (simp add: spec_overlap_def)
    then have "py_slice prices None (Some (int (length prices) + l)) = take (nat (int (length prices) + l)) prices"
      by (rule py_slice_to_nonneg)
    moreover have "nat (int (length prices) + l) = length prices - nat (- l)" using 1 by linarith
    ultimately show ?thesis using 1 by (simp add: lag_windows_def spec_pairing_def py_slice_from)
  next
    case 2 then show ?thesis by (simp add: lag_windows_def spec_pairing_def)
  next
    case 3 then show ?thesis by (simp add: lag_windows_def spec_pairing_def py_slice_from py_slice_to_neg)
  qed
qed

lemma lag_entry_eq:
  assumes "length prices = length trends"
  shows "lag_entry cc prices trends l =
    \<lparr>lag = l, correlation = (if spec_overlap (length trends) l < 5 then NaN
        else cc (fst (spec_pairing prices trends l)) (snd (spec_pairing prices trends l)))\<rparr>"
proof (cases "spec_overlap (length trends) l < 5")
  case True
  with lag_windows_length[OF assms, of l] show ?thesis
    by (auto simp add: lag_entry_def split: prod.splits)
next
  case False
  then have "lag_windows prices trends l = spec_pairing prices trends l"
    using lag_windows_paired[OF assms] by simp
  moreover have "length (fst (spec_pairing prices trends l)) = spec_overlap (length trends) l"
    using lag_windows_length[OF assms, of l] calculation by simp
  ultimately show ?thesis using False
    by (auto simp add: lag_entry_def split: prod.splits)
qed

lemma paired_lengths:
  "length prices = length trends \<Longrightarrow>
   length (fst (spec_pairing prices trends l)) = spec_overlap (length trends) l \<and>
   length (snd (spec_pairing prices trends l)) = spec_overlap (length trends) l"
  by (auto simp: spec_pairing_def spec_overlap_def)

lemma clc_length: "0 \<le> m \<Longrightarrow> length (compute_lagged_correlations cc df m) = nat (2 * m + 1)"
  by (simp add: compute_lagged_correlations_def)

lemma lag_lag_entry: "lag (lag_entry cc ps ts l) = l"
  by (simp add: lag_entry_def split: prod.splits)

lemma clc_lags: "map lag (compute_lagged_correlations cc df m) = [- m..m]"
  by (simp add: compute_lagged_correlations_def lag_lag_entry o_def)
   
lemma sorted_upto_strict: "sorted_wrt (<) [a..b::int]"
  by (simp add: sorted_wrt_iff_nth_less)

lemma clc_nth:
  assumes "- m \<le> k" "k \<le> m"
  shows "compute_lagged_correlations cc df m ! nat (k + m) = lag_entry cc (map price df) (map trend df) k"
  using assms by (simp add: compute_lagged_correlations_def nth_upto)

text \<open>
  C1. For every table and every \<open>max_lag \<ge> 0\<close> the scan returns \<open>2 * max_lag + 1\<close>
  entries whose lags run strictly increasing from \<open>- max_lag\<close> to \<open>max_lag\<close>. The entry
  for lag \<open>l\<close> is not-a-number when the overlap \<open>n - |l|\<close> has fewer than 5 rows, and
  otherwise the library correlation of the two equally long windows the specification
  names: the indicator up to \<open>n - l\<close> against the price from \<open>l\<close> on for a positive lag,
  the mirror image for a negative lag, the whole columns at lag 0.
\<close>

theorem scanLags_table:
  assumes "0 \<le> max_lag"
  shows "length (compute_lagged_correlations cc df max_lag) = nat (2 * max_lag + 1)
       \<and> map lag (compute_lagged_correlations cc df max_lag) = [- max_lag..max_lag]
       \<and> sorted_wrt (<) (map lag (compute_lagged_correlations cc df max_lag))
       \<and> (\<forall>l \<in> {- max_lag..max_lag}.
            compute_lagged_correlations cc df max_lag ! nat (l + max_lag) =
              \<lparr>lag = l,
               correlation =
                 (if spec_overlap (length df) l < 5 then NaN
                  else cc (fst (spec_pairing (map price df) (map trend df) l))
                          (snd (spec_pairing (map price df) (map trend df) l)))\<rparr>
          \<and> length (fst (spec_pairing (map price df) (map trend df) l)) = spec_overlap (length df) l
          \<and> length (snd (spec_pairing (map price df) (map trend df) l)) = spec_overlap (length df) l)"
proof -
  let ?t = "compute_lagged_correlations cc df max_lag"
  have 1: "length ?t = nat (2 * max_lag + 1)" using assms by (rule clc_length)
  have 2: "map lag ?t = [- max_lag..max_lag]" by (rule clc_lags)
  have 3: "sorted_wrt (<) (map lag ?t)" unfolding 2 by (rule sorted_wrt_upto)
  have 4: "?t ! nat (l + max_lag) =
              \<lparr>lag = l,
               correlation =
                 (if spec_overlap (length df) l < 5 then NaN
                  else cc (fst (spec_pairing (map price df) (map trend df) l))
                          (snd (spec_pairing (map price df) (map trend df) l)))\<rparr>"
    if "l \<in> {- max_lag..max_lag}" for l
    using that clc_nth[of max_lag l cc df] lag_entry_eq[of "map price df" "map trend df" cc l]
    by simp
  have 5: "length (fst (spec_pairing (map price df) (map trend df) l)) = spec_overlap (length df) l
          \<and> length (snd (spec_pairing (map price df) (map trend df) l)) = spec_overlap (length df) l" for l
    using paired_lengths[of "map price df" "map trend df" l] by simp
  show ?thesis using 1 2 3 4 5 by blast
qed

theorem scanLags_table_witness:
  "(0::int) \<le> 2
   \<and> length (compute_lagged_correlations (\<lambda>x y. Fin (real (length y))) df6 2) = 5
   \<and> compute_lagged_correlations (\<lambda>x y. Fin (real (length y))) df6 2 ! 3 = \<lparr>lag = 1, correlation = Fin 5\<rparr>
   \<and> compute_lagged_correlations (\<lambda>x y. Fin (real (length y))) df6 2 ! 4 = \<lparr>lag = 2, correlation = NaN\<rparr>"
proof -
  have h: "(0::int) \<le> 2" by simp
  have a: "(1::int) \<in> {- 2..2}" and b: "(2::int) \<in> {- 2..2}" by simp_all
  note t = scanLags_table[OF h, of "\<lambda>x y. Fin (real (length y))" df6]
  note len = t[THEN conjunct1]
  note e1 = t[THEN conjunct2, THEN conjunct2, THEN conjunct2, THEN bspec, OF a, THEN conjunct1]
  note e2 = t[THEN conjunct2, THEN conjunct2, THEN conjunct2, THEN bspec, OF b, THEN conjunct1]
  have "length (compute_lagged_correlations (\<lambda>x y. Fin (real (length y))) df6 2) = 5"
    using len by simp
  moreover have "compute_lagged_correlations (\<lambda>x y. Fin (real (length y))) df6 2 ! 3 = \<lparr>lag = 1, correlation = Fin 5\<rparr>"
    using e1 by (simp add: spec_overlap_def df6_def spec_pairing_def)
  moreover have "compute_lagged_correlations (\<lambda>x y. Fin (real (length y))) df6 2 ! 4 = \<lparr>lag = 2, correlation = NaN\<rparr>"
    using e2 by (simp add: spec_overlap_def df6_def spec_pairing_def)
  ultimately show ?thesis by simp
qed

section \<open>Properties of the search for the strongest leading lag\<close>

lemma flt_less_trans: "flt_less a b \<Longrightarrow> flt_less b c \<Longrightarrow> flt_less a c"
  by (cases a; cases b; cases c) auto

lemma flt_le_less_trans: "flt_le a b \<Longrightarrow> flt_less b c \<Longrightarrow> flt_less a c"
  by (cases a; cases b; cases c) (auto simp: flt_le_def)

lemma flt_less_imp_le: "flt_less a b \<Longrightarrow> flt_le a b"
  by (cases a; cases b) (auto simp: flt_le_def)

lemma flt_le_trans: "flt_le a b \<Longrightarrow> flt_le b c \<Longrightarrow> flt_le a c"
  by (cases a; cases b; cases c) (auto simp: flt_le_def)

lemma flt_le_refl: "\<not> isnan a \<Longrightarrow> flt_le a a"
  by (cases a) (auto simp: flt_le_def)

lemma flt_less_not_nan: "flt_less a b \<Longrightarrow> \<not> isnan a \<and> \<not> isnan b"
  by (cases a; cases b) auto

lemma isnan_fabs: "isnan (fabs a) = isnan a"
  by (cases a) auto

lemma argmax_from_spec:
  assumes "length pre = i" "bi < i" "pre ! bi = bv" "\<not> isnan bv"
    "\<forall>x \<in> set xs. \<not> isnan x"
    "\<forall>j < i. flt_le (pre ! j) bv" "\<forall>j < bi. flt_less (pre ! j) bv"
  shows "argmax_from bi bv i xs < length (pre @ xs)
       \<and> (\<forall>j < length (pre @ xs). flt_le ((pre @ xs) ! j) ((pre @ xs) ! argmax_from bi bv i xs))
       \<and> (\<forall>j < argmax_from bi bv i xs. flt_less ((pre @ xs) ! j) ((pre @ xs) ! argmax_from bi bv i xs))"
  using assms
proof (induction xs arbitrary: pre i bi bv)
  case Nil
  then show ?case by simp
next
  case (Cons x xs)
  have nx: "\<not> isnan x" using Cons.prems(5) by simp
  have app: "pre @ x # xs = (pre @ [x]) @ xs" by simp
  show ?case
  proof (cases "flt_less bv x")
    case True
    have a: "argmax_from bi bv i (x # xs) = argmax_from i x (Suc i) xs" using True by simp
    have "\<forall>j < Suc i. flt_le ((pre @ [x]) ! j) x"
    proof (intro allI impI)
      fix j assume "j < Suc i"
      show "flt_le ((pre @ [x]) ! j) x"
      proof (cases "j < i")
        case True
        then have "flt_le (pre ! j) bv" using Cons.prems(6) by simp
        then have "flt_le (pre ! j) x" using \<open>flt_less bv x\<close> flt_le_less_trans flt_less_imp_le by blast
        then show ?thesis using True Cons.prems(1) by (simp add: nth_append)
      next
        case False
        then have "j = i" using \<open>j < Suc i\<close> by simp
        then show ?thesis using Cons.prems(1) nx by (simp add: nth_append flt_le_refl)
      qed
    qed
    moreover have "\<forall>j < i. flt_less ((pre @ [x]) ! j) x"
      using Cons.prems(1,6) True flt_le_less_trans by (auto simp: nth_append)
    ultimately have "argmax_from i x (Suc i) xs < length ((pre @ [x]) @ xs)
       \<and> (\<forall>j < length ((pre @ [x]) @ xs). flt_le (((pre @ [x]) @ xs) ! j) (((pre @ [x]) @ xs) ! argmax_from i x (Suc i) xs))
       \<and> (\<forall>j < argmax_from i x (Suc i) xs. flt_less (((pre @ [x]) @ xs) ! j) (((pre @ [x]) @ xs) ! argmax_from i x (Suc i) xs))"
      using Cons.prems(1,5) nx
      by (intro Cons.IH) (auto simp: nth_append)
    then show ?thesis unfolding a app .
  next
    case False
    have a: "argmax_from bi bv i (x # xs) = argmax_from bi bv (Suc i) xs" using False nx by simp
    have le: "flt_le x bv" using False nx Cons.prems(4) by (simp add: flt_le_def)
    have "\<forall>j < Suc i. flt_le ((pre @ [x]) ! j) bv"
      using Cons.prems(1,6) le by (auto simp: nth_append less_Suc_eq)
    moreover have "\<forall>j < bi. flt_less ((pre @ [x]) ! j) bv"
      using Cons.prems(1,2,7) by (auto simp: nth_append)
    moreover have "(pre @ [x]) ! bi = bv" using Cons.prems(1,2,3) by (simp add: nth_append)
    ultimately have "argmax_from bi bv (Suc i) xs < length ((pre @ [x]) @ xs)
       \<and> (\<forall>j < length ((pre @ [x]) @ xs). flt_le (((pre @ [x]) @ xs) ! j) (((pre @ [x]) @ xs) ! argmax_from bi bv (Suc i) xs))
       \<and> (\<forall>j < argmax_from bi bv (Suc i) xs. flt_less (((pre @ [x]) @ xs) ! j) (((pre @ [x]) @ xs) ! argmax_from bi bv (Suc i) xs))"
      using Cons.prems(1,2,4,5)
      by (intro Cons.IH) auto
    then show ?thesis unfolding a app .
  qed
qed

lemma np_argmax_spec:
  assumes "vs \<noteq> []" "\<forall>x \<in> set vs. \<not> isnan x"
  shows "\<exists>k. np_argmax vs = Inr k \<and> k < length vs
       \<and> (\<forall>j < length vs. flt_le (vs ! j) (vs ! k))
       \<and> (\<forall>j < k. flt_less (vs ! j) (vs ! k))"
proof -
  obtain x xs where vs: "vs = x # xs" using assms(1) by (cases vs) auto
  have "argmax_from 0 x 1 xs < length ([x] @ xs)
       \<and> (\<forall>j < length ([x] @ xs). flt_le (([x] @ xs) ! j) (([x] @ xs) ! argmax_from 0 x 1 xs))
       \<and> (\<forall>j < argmax_from 0 x 1 xs. flt_less (([x] @ xs) ! j) (([x] @ xs) ! argmax_from 0 x 1 xs))"
    using assms(2) vs by (intro argmax_from_spec) (auto simp: flt_le_refl)
  then show ?thesis using vs by simp
qed

lemma flt_less_irrefl: "\<not> flt_less a a"
  by (cases a) auto

lemma sorted_filter_lag: "sorted (map lag tbl) \<Longrightarrow> sorted (map lag (filter P tbl))"
  by (induction tbl) auto

text \<open>
  C2. The search never raises. It returns none exactly when no entry has a positive lag
  and a defined correlation. Otherwise it returns an entry of the table with a positive
  lag and a defined correlation whose absolute correlation is at least that of every
  qualifying entry; in a table ordered by lag, every qualifying entry that ties with it
  in absolute correlation has a lag at least as large, so the smallest lag wins a tie.
\<close>

theorem findBestLeadingLag_spec:
  "\<exists>res. find_best_leading_lag tbl = Inr res
     \<and> (res = None \<longleftrightarrow> \<not> (\<exists>r \<in> set tbl. qualifying r))
     \<and> (\<forall>b. res = Some b \<longrightarrow>
           b \<in> set tbl \<and> lag b > 0 \<and> \<not> isnan (correlation b)
         \<and> (\<forall>r \<in> set tbl. qualifying r \<longrightarrow>
                flt_le (fabs (correlation r)) (fabs (correlation b)))
         \<and> (sorted (map lag tbl) \<longrightarrow>
              (\<forall>r \<in> set tbl. qualifying r \<and> fabs (correlation r) = fabs (correlation b)
                 \<longrightarrow> lag b \<le> lag r)))"
proof -
  define leading where
    "leading = filter (\<lambda>r. \<not> isnan (correlation r)) (filter (\<lambda>r. lag r > 0) tbl)"
  have set_leading: "set leading = {r \<in> set tbl. qualifying r}"
    by (auto simp: leading_def qualifying_def)
  show ?thesis
  proof (cases "leading = []")
    case True
    then have "find_best_leading_lag tbl = Inr None"
      unfolding find_best_leading_lag_def leading_def[symmetric] Let_def by simp
    moreover have "\<not> (\<exists>r \<in> set tbl. qualifying r)" using True set_leading by auto
    ultimately show ?thesis by simp
  next
    case False
    let ?vs = "map (\<lambda>r. fabs (correlation r)) leading"
    have "?vs \<noteq> []" using False by simp
    moreover have "\<forall>x \<in> set ?vs. \<not> isnan x"
      using set_leading by (auto simp: isnan_fabs qualifying_def)
    ultimately obtain k where k: "np_argmax ?vs = Inr k" "k < length ?vs"
      "\<forall>j < length ?vs. flt_le (?vs ! j) (?vs ! k)"
      "\<forall>j < k. flt_less (?vs ! j) (?vs ! k)"
      using np_argmax_spec[of ?vs] by blast
    let ?b = "leading ! k"
    have kl: "k < length leading" using k(2) by simp
    have res: "find_best_leading_lag tbl = Inr (Some ?b)"
      unfolding find_best_leading_lag_def leading_def[symmetric] Let_def
      using False k(1) by simp
    have bin: "?b \<in> set leading" using kl by simp
    then have b1: "?b \<in> set tbl" "lag ?b > 0" "\<not> isnan (correlation ?b)"
      using set_leading by (auto simp: qualifying_def)
    have b2: "flt_le (fabs (correlation r)) (fabs (correlation ?b))"
      if "r \<in> set tbl" "qualifying r" for r
    proof -
      from that have "r \<in> set leading" using set_leading by simp
      then obtain j where j: "j < length leading" "leading ! j = r"
        by (auto simp: in_set_conv_nth)
      then show ?thesis using k(3) kl by auto
    qed
    have b3: "lag ?b \<le> lag r"
      if srt: "sorted (map lag tbl)" and r: "r \<in> set tbl" "qualifying r"
        and eq: "fabs (correlation r) = fabs (correlation ?b)" for r
    proof -
      from r have "r \<in> set leading" using set_leading by simp
      then obtain j where j: "j < length leading" "leading ! j = r"
        by (auto simp: in_set_conv_nth)
      have "\<not> j < k"
      proof
        assume "j < k"
        then have "flt_less (?vs ! j) (?vs ! k)" using k(4) by simp
        then show False using j kl eq flt_less_irrefl by simp
      qed
      then have "k \<le> j" by simp
      moreover have "sorted (map lag leading)"
        unfolding leading_def using srt by (intro sorted_filter_lag)
      ultimately have "map lag leading ! k \<le> map lag leading ! j"
        using j(1) by (intro sorted_nth_mono) auto
      then show ?thesis using j kl by simp
    qed
    have "\<exists>r \<in> set tbl. qualifying r" using bin set_leading by auto
    then show ?thesis using res b1 b2 b3 by auto
  qed
qed

theorem findBestLeadingLag_spec_witness:
  "sorted (map lag tbl5)
   \<and> find_best_leading_lag tbl5 = Inr (Some \<lparr>lag = 1, correlation = Fin (- 1/2)\<rparr>)
   \<and> (\<exists>r \<in> set tbl5. qualifying r \<and> lag r \<noteq> 1
          \<and> fabs (correlation r) = fabs (Fin (- 1/2)) \<and> 1 \<le> lag r)"
  using findBestLeadingLag_spec[of tbl5]
  by (simp add: tbl5_def find_best_leading_lag_def qualifying_def)

section \<open>Properties of the columns of the backtest\<close>

lemma length_pd_shift [simp]: "length (pd_shift k xs) = length xs"
  by (auto simp: pd_shift_def Let_def)

lemma length_pd_diff [simp]: "length (pd_diff xs) = length xs"
  by (simp add: pd_diff_def)

lemma length_rolling_mean [simp]: "length (rolling_mean w xs) = length xs"
  by (simp add: rolling_mean_def)

lemma length_rolling_std [simp]: "length (rolling_std w xs) = length xs"
  by (simp add: rolling_std_def)

lemma length_future_ret_L [simp]: "length (future_ret_L df L) = length df"
  by (simp add: future_ret_L_def)

lemma length_trend_z [simp]: "length (trend_z df w) = length df"
  by (simp add: trend_z_def)

lemma length_trend_slope [simp]: "length (trend_slope df) = length df"
  by (simp add: trend_slope_def)

lemma length_signal_col [simp]: "length (signal_col df z w) = length df"
  by (simp add: signal_col_def)

lemma pd_shift_zero [simp]: "pd_shift 0 xs = xs"
  by (simp add: pd_shift_def)

lemma pd_shift_nth_up:
  "0 \<le> k \<Longrightarrow> i < length xs \<Longrightarrow>
   pd_shift (- k) xs ! i = (if i + nat k < length xs then xs ! (i + nat k) else NaN)"
proof -
  assume k: "0 \<le> k" and i: "i < length xs"
  show ?thesis
  proof (cases "k = 0")
    case True then show ?thesis using i by simp
  next
    case False
    then have sh: "pd_shift (- k) xs = drop (nat k) xs @ replicate (min (nat k) (length xs)) NaN"
      using k by (simp add: pd_shift_def)
    show ?thesis
    proof (cases "i + nat k < length xs")
      case True
      then have "i < length (drop (nat k) xs)" by simp
      then have "(drop (nat k) xs @ replicate (min (nat k) (length xs)) NaN) ! i = drop (nat k) xs ! i"
        by (simp only: nth_append if_True)
      then show ?thesis unfolding sh using True by (simp add: add.commute)
    next
      case False
      then have a: "i - (length xs - nat k) < min (nat k) (length xs)" using i by auto
      have b: "\<not> i < length (drop (nat k) xs)" using False by simp
      have "(drop (nat k) xs @ replicate (min (nat k) (length xs)) NaN) ! i
            = replicate (min (nat k) (length xs)) NaN ! (i - length (drop (nat k) xs))"
        using b by (simp only: nth_append if_False)
      also have "\<dots> = NaN" using a by simp
      finally show ?thesis unfolding sh using False by simp
    qed
  qed
qed

lemma pd_shift_nth_down:
  "0 \<le> k \<Longrightarrow> i < length xs \<Longrightarrow>
   pd_shift k xs ! i = (if i < nat k then NaN else xs ! (i - nat k))"
  by (auto simp: pd_shift_def Let_def nth_append)

lemma future_ret_L_nth:
  "i < length df \<Longrightarrow>
   future_ret_L df L ! i = fsub (fdiv (pd_shift (- L) (map price df) ! i) (price (df ! i))) (Fin 1)"
  by (simp add: future_ret_L_def)

lemma self_ratio: "\<not> isnan (fsub (fdiv p p) (Fin 1)) \<Longrightarrow> fsub (fdiv p p) (Fin 1) = Fin 0"
  by (cases p) (auto simp: fsub_def inf_of_sign_def split: if_splits)

lemma future_ret_0: "f \<in> set (future_ret_L df 0) \<Longrightarrow> \<not> isnan f \<Longrightarrow> f = Fin 0"
  by (auto simp: future_ret_L_def in_set_conv_nth self_ratio)

lemma fsum_zeros: "\<forall>x \<in> set xs. x = Fin 0 \<Longrightarrow> foldl fadd (Fin 0) xs = Fin 0"
  by (induction xs) auto

lemma fstd_zeros:
  assumes "\<forall>x \<in> set xs. x = Fin 0" "1 < length xs"
  shows "fstd xs = Fin 0"
proof -
  have s: "fsum xs = Fin 0" using assms(1) by (simp add: fsum_def fsum_zeros)
  have m: "fmean xs = Fin 0" using assms(2) s by (auto simp add: fmean_def)
  have "\<forall>x \<in> set (map (\<lambda>x. fmul (fsub x (Fin 0)) (fsub x (Fin 0))) xs). x = Fin 0"
    using assms(1) by (auto simp: fsub_def)
  then have "fsum (map (\<lambda>x. fmul (fsub x (Fin 0)) (fsub x (Fin 0))) xs) = Fin 0"
    unfolding fsum_def by (rule fsum_zeros)
  then show ?thesis using assms(2) m by (simp add: fstd_def)
qed

lemma pd_std_zeros:
  assumes "\<forall>x \<in> set xs. x = Fin 0"
  shows "\<not> flt_less (Fin 0) (pd_std xs)"
proof -
  have o: "observed xs = xs" unfolding observed_def using assms by (intro filter_True) auto
  show ?thesis
    using fstd_zeros[OF assms] by (auto simp: pd_std_def o)
qed

lemma sharpe_of_ok: "L \<noteq> 0 \<or> \<not> flt_less (Fin 0) sd \<Longrightarrow> \<exists>v. sharpe_of avg sd L = Inr v"
  by (auto simp: sharpe_of_def)

lemma length_cumprod_from [simp]: "length (cumprod_from acc xs) = length xs"
  by (induction xs arbitrary: acc) auto

lemma length_pd_cumprod [simp]: "length (pd_cumprod xs) = length xs"
  by (simp add: pd_cumprod_def)

lemma iloc_last_ok: "xs \<noteq> [] \<Longrightarrow> iloc_last xs = Inr (last xs)"
  by (simp add: iloc_last_def)

lemma bt_kept_future:
  "(d, s, f) \<in> set (bt_kept df L z w) \<Longrightarrow> f \<in> set (future_ret_L df L) \<and> \<not> isnan f"
  by (auto simp: bt_kept_def dest!: set_zip_rightD)

lemma zip3_nth:
  "length bs = length as \<Longrightarrow> length cs = length as \<Longrightarrow>
   zip as (zip bs cs) = map (\<lambda>i. (as ! i, bs ! i, cs ! i)) [0..<length as]"
  by (intro nth_equalityI) auto

lemma bt_kept_set:
  "set (bt_kept df L z w) =
     {(ds (df ! i), signal_col df z w ! i, future_ret_L df L ! i) | i.
        i < length df \<and> \<not> isnan (future_ret_L df L ! i)}"
  unfolding bt_kept_def
  by (subst zip3_nth) auto

lemma bt_kept_Nil_iff:
  "bt_kept df L z w = [] \<longleftrightarrow> (\<forall>f \<in> set (future_ret_L df L). isnan f)"
proof -
  have "bt_kept df L z w = [] \<longleftrightarrow> set (bt_kept df L z w) = {}" by simp
  also have "\<dots> \<longleftrightarrow> (\<forall>i < length df. isnan (future_ret_L df L ! i))"
    unfolding bt_kept_set by auto
  also have "\<dots> \<longleftrightarrow> (\<forall>f \<in> set (future_ret_L df L). isnan f)"
    by (metis in_set_conv_nth length_future_ret_L)
  finally show ?thesis .
qed

lemma length_strategy_col [simp]: "length (strategy_col kept) = length kept"
  by (simp add: strategy_col_def)
lemma length_bh_col [simp]: "length (bh_col kept) = length kept"
  by (simp add: bh_col_def)
lemma length_equity_of [simp]: "length (equity_of xs) = length xs"
  by (simp add: equity_of_def)
lemma length_bt_rows [simp]: "length (bt_rows kept) = length kept"
  by (simp add: bt_rows_def)

lemma equity_of_Nil_iff [simp]: "equity_of xs = [] \<longleftrightarrow> xs = []"
  using length_equity_of[of xs] by (metis length_0_conv)
lemma strategy_col_Nil_iff [simp]: "strategy_col kept = [] \<longleftrightarrow> kept = []"
  by (simp add: strategy_col_def)
lemma bh_col_Nil_iff [simp]: "bh_col kept = [] \<longleftrightarrow> kept = []"
  by (simp add: bh_col_def)

lemma backtest_bad_window: "w < 0 \<Longrightarrow> backtest_trend_signal df L z w = Inl ValueError"
  by (simp add: backtest_trend_signal_def)

lemma backtest_empty:
  "0 \<le> w \<Longrightarrow> bt_kept df L z (nat w) = [] \<Longrightarrow> backtest_trend_signal df L z w = Inl IndexError"
  by (simp add: backtest_trend_signal_def iloc_last_def)

lemma backtest_sharpe_error:
  assumes "0 \<le> w" "bt_kept df L z (nat w) \<noteq> []"
    "sharpe_of (pd_mean (strategy_col (bt_kept df L z (nat w)))) (pd_std (strategy_col (bt_kept df L z (nat w)))) L = Inl e"
  shows "backtest_trend_signal df L z w = Inl e"
  using assms by (simp add: backtest_trend_signal_def iloc_last_def Let_def)

lemma backtest_result:
  assumes "0 \<le> w" "bt_kept df L z (nat w) \<noteq> []"
    "sharpe_of (pd_mean (strategy_col (bt_kept df L z (nat w)))) (pd_std (strategy_col (bt_kept df L z (nat w)))) L = Inr v"
  shows "backtest_trend_signal df L z w =
     Inr (bt_rows (bt_kept df L z (nat w)),
          \<lparr>total_return_strategy = fsub (last (equity_of (strategy_col (bt_kept df L z (nat w))))) (Fin 1),
           total_return_bh = fsub (last (equity_of (bh_col (bt_kept df L z (nat w))))) (Fin 1),
           sharpe_like = v,
           n_trades_periods = sum_list (map (\<lambda>(d, s, f). s) (bt_kept df L z (nat w))),
           lag_used = L\<rparr>)"
  using assms by (simp add: backtest_trend_signal_def iloc_last_def Let_def)

lemma backtest_InrD:
  assumes "backtest_trend_signal df L z w = Inr (rows, m)"
  shows "0 \<le> w \<and> bt_kept df L z (nat w) \<noteq> [] \<and> rows = bt_rows (bt_kept df L z (nat w))
       \<and> total_return_strategy m = fsub (last (equity_of (strategy_col (bt_kept df L z (nat w))))) (Fin 1)
       \<and> total_return_bh m = fsub (last (equity_of (bh_col (bt_kept df L z (nat w))))) (Fin 1)
       \<and> n_trades_periods m = sum_list (map (\<lambda>(d, s, f). s) (bt_kept df L z (nat w)))
       \<and> lag_used m = L"
  using assms
  by (auto simp add: backtest_trend_signal_def iloc_last_def Let_def split: if_splits sum.splits)

lemma strategy_col_zero_horizon:
  "x \<in> set (strategy_col (bt_kept df 0 z w)) \<Longrightarrow> x = Fin 0"
proof -
  assume "x \<in> set (strategy_col (bt_kept df 0 z w))"
  then obtain d s f where k: "(d, s, f) \<in> set (bt_kept df 0 z w)" and x: "x = fmul (Fin (real_of_int s)) f"
    by (auto simp: strategy_col_def)
  then have "f = Fin 0" using bt_kept_future future_ret_0 by blast
  then show ?thesis using x by simp
qed

text \<open>
  C3 (as the code has it). The backtest makes no check of the horizon. For a horizon
  \<open>L \<le> 0\<close> and a window that pandas accepts, it fails only when no row has a defined
  forward return, and then with the \<open>IndexError\<close> of reading the last equity value of an
  empty table; in every other case it returns a result, one row for each defined forward
  return, whose recorded horizon is \<open>L\<close>.
\<close>

theorem backtest_nonpositive_horizon:
  assumes "L \<le> 0" and "0 \<le> roll_window"
  shows "((\<forall>f \<in> set (future_ret_L df L). isnan f) \<longrightarrow>
            backtest_trend_signal df L z_threshold roll_window = Inl IndexError)
       \<and> (\<not> (\<forall>f \<in> set (future_ret_L df L). isnan f) \<longrightarrow>
            (\<exists>rows m. backtest_trend_signal df L z_threshold roll_window = Inr (rows, m)
                \<and> lag_used m = L
                \<and> length rows = length (filter (\<lambda>f. \<not> isnan f) (future_ret_L df L))))"
proof (intro conjI impI)
  assume "\<forall>f \<in> set (future_ret_L df L). isnan f"
  then have "bt_kept df L z_threshold (nat roll_window) = []" by (simp add: bt_kept_Nil_iff)
  then show "backtest_trend_signal df L z_threshold roll_window = Inl IndexError"
    using assms(2) by (rule backtest_empty[rotated])
next
  let ?kept = "bt_kept df L z_threshold (nat roll_window)"
  assume "\<not> (\<forall>f \<in> set (future_ret_L df L). isnan f)"
  then have ne: "?kept \<noteq> []" by (simp add: bt_kept_Nil_iff)
  have "L \<noteq> 0 \<or> \<not> flt_less (Fin 0) (pd_std (strategy_col ?kept))"
  proof (cases "L = 0")
    case True
    then have "\<forall>x \<in> set (strategy_col ?kept). x = Fin 0"
      using strategy_col_zero_horizon by blast
    then show ?thesis by (simp add: pd_std_zeros)
  qed simp
  then obtain v where v: "sharpe_of (pd_mean (strategy_col ?kept)) (pd_std (strategy_col ?kept)) L = Inr v"
    using sharpe_of_ok by blast
  have len: "length ?kept = length (filter (\<lambda>f. \<not> isnan f) (future_ret_L df L))"
  proof -
    have "map (\<lambda>(d, s, f). f) ?kept = filter (\<lambda>f. \<not> isnan f)
            (map (\<lambda>(d, s, f). f) (zip (map ds df) (zip (signal_col df z_threshold (nat roll_window)) (future_ret_L df L))))"
      unfolding bt_kept_def by (simp add: filter_map o_def case_prod_unfold)
    moreover have "map (\<lambda>(d, s, f). f) (zip (map ds df) (zip (signal_col df z_threshold (nat roll_window)) (future_ret_L df L)))
         = future_ret_L df L"
      by (subst zip3_nth) (auto intro: nth_equalityI)
    ultimately show ?thesis by (metis length_map)
  qed
  show "\<exists>rows m. backtest_trend_signal df L z_threshold roll_window = Inr (rows, m)
                \<and> lag_used m = L
                \<and> length rows = length (filter (\<lambda>f. \<not> isnan f) (future_ret_L df L))"
    using backtest_result[OF assms(2) ne v] len by simp
qed

lemma future_ret_df6_zero: "future_ret_L df6 0 = [Fin 0, Fin 0, Fin 0, Fin 0, Fin 0, Fin 0]"
  by (simp add: future_ret_L_def df6_def fsub_def)

lemma upt_six: "[0..<6] = [0,1,2,3,4,5]"
  by (simp add: upt_rec)

lemma signal_col_df6: "signal_col df6 (Fin (1/2)) 7 = [0,0,0,0,0,0]"
  by (simp add: signal_col_def trend_z_def trend_slope_def rolling_mean_def rolling_std_def
      rolling_window_def observed_def pd_diff_def pd_shift_def df6_def upt_six fsub_def)

lemma bt_kept_df6_zero: "bt_kept df6 0 (Fin (1/2)) 7 = [(0,0,Fin 0),(1,0,Fin 0),(2,0,Fin 0),(3,0,Fin 0),(4,0,Fin 0),(5,0,Fin 0)]"
  unfolding bt_kept_def future_ret_df6_zero signal_col_df6 by (simp add: df6_def)

text \<open>
  C3 (as stated) fails: on the six-day table with horizon 0 the backtest does not reject
  the call. It returns six rows of zero return and flat equity, and its metrics.
\<close>

theorem backtest_zero_horizon_counterexample:
  "(0::int) \<le> 0 \<and>
   backtest_trend_signal df6 0 (Fin (1/2)) 7 =
     Inr ([\<lparr>ds = 0, signal = 0, strategy_ret = Fin 0, bh_ret = Fin 0, equity_strategy = Fin 1, equity_bh = Fin 1\<rparr>,
           \<lparr>ds = 1, signal = 0, strategy_ret = Fin 0, bh_ret = Fin 0, equity_strategy = Fin 1, equity_bh = Fin 1\<rparr>,
           \<lparr>ds = 2, signal = 0, strategy_ret = Fin 0, bh_ret = Fin 0, equity_strategy = Fin 1, equity_bh = Fin 1\<rparr>,
           \<lparr>ds = 3, signal = 0, strategy_ret = Fin 0, bh_ret = Fin 0, equity_strategy = Fin 1, equity_bh = Fin 1\<rparr>,
           \<lparr>ds = 4, signal = 0, strategy_ret = Fin 0, bh_ret = Fin 0, equity_strategy = Fin 1, equity_bh = Fin 1\<rparr>,
           \<lparr>ds = 5, signal = 0, strategy_ret = Fin 0, bh_ret = Fin 0, equity_strategy = Fin 1, equity_bh = Fin 1\<rparr>],
          \<lparr>total_return_strategy = Fin 0, total_return_bh = Fin 0, sharpe_like = NaN,
           n_trades_periods = 0, lag_used = 0\<rparr>)"
proof -
  have n: "nat 7 = 7" by simp
  have s: "strategy_col (bt_kept df6 0 (Fin (1/2)) 7) = [Fin 0, Fin 0, Fin 0, Fin 0, Fin 0, Fin 0]"
    by (simp add: bt_kept_df6_zero strategy_col_def)
  have b: "bh_col (bt_kept df6 0 (Fin (1/2)) 7) = [Fin 0, Fin 0, Fin 0, Fin 0, Fin 0, Fin 0]"
    by (simp add: bt_kept_df6_zero bh_col_def)
  have e: "equity_of [Fin 0, Fin 0, Fin 0, Fin 0, Fin 0, Fin 0] = [Fin 1, Fin 1, Fin 1, Fin 1, Fin 1, Fin 1]"
    by (simp add: equity_of_def pd_cumprod_def)
  have sd: "pd_std [Fin 0, Fin 0, Fin 0, Fin 0, Fin 0, Fin 0] = Fin 0"
    by (simp add: pd_std_def observed_def fstd_def fmean_def fsum_def fsub_def)
  have r: "bt_rows (bt_kept df6 0 (Fin (1/2)) 7) =
          [\<lparr>ds = 0, signal = 0, strategy_ret = Fin 0, bh_ret = Fin 0, equity_strategy = Fin 1, equity_bh = Fin 1\<rparr>,
           \<lparr>ds = 1, signal = 0, strategy_ret = Fin 0, bh_ret = Fin 0, equity_strategy = Fin 1, equity_bh = Fin 1\<rparr>,
           \<lparr>ds = 2, signal = 0, strategy_ret = Fin 0, bh_ret = Fin 0, equity_strategy = Fin 1, equity_bh = Fin 1\<rparr>,
           \<lparr>ds = 3, signal = 0, strategy_ret = Fin 0, bh_ret = Fin 0, equity_strategy = Fin 1, equity_bh = Fin 1\<rparr>,
           \<lparr>ds = 4, signal = 0, strategy_ret = Fin 0, bh_ret = Fin 0, equity_strategy = Fin 1, equity_bh = Fin 1\<rparr>,
           \<lparr>ds = 5, signal = 0, strategy_ret = Fin 0, bh_ret = Fin 0, equity_strategy = Fin 1, equity_bh = Fin 1\<rparr>]"
    unfolding bt_rows_def s b e by (simp add: bt_kept_df6_zero)
  have t: "sum_list (map (\<lambda>(d, s, f). s) (bt_kept df6 0 (Fin (1/2)) 7)) = 0"
    by (simp add: bt_kept_df6_zero)
  show ?thesis
    unfolding backtest_trend_signal_def Let_def n s b e r sd t
    by (simp add: iloc_last_def sharpe_of_def fsub_def)
qed

theorem backtest_nonpositive_horizon_witness:
  "(0::int) \<le> 0 \<and> (0::int) \<le> 7
   \<and> (\<exists>f \<in> set (future_ret_L df6 0). \<not> isnan f)
   \<and> (\<exists>rows m. backtest_trend_signal df6 0 (Fin (1/2)) 7 = Inr (rows, m)
         \<and> lag_used m = 0 \<and> length rows = 6)"
proof -
  have a: "(0::int) \<le> 0" and b: "(0::int) \<le> 7" by simp_all
  have c: "\<exists>f \<in> set (future_ret_L df6 0). \<not> isnan f"
    by (simp add: future_ret_L_def df6_def fsub_def)
  then have c': "\<not> (\<forall>f \<in> set (future_ret_L df6 0). isnan f)" by blast
  have l: "length (filter (\<lambda>f. \<not> isnan f) (future_ret_L df6 0)) = 6"
    by (simp add: future_ret_L_def df6_def fsub_def)
  from backtest_nonpositive_horizon[OF a b, of df6 "Fin (1/2)", THEN conjunct2, rule_format, OF c']
  show ?thesis using c l by auto
qed

section \<open>Properties of the trading signal\<close>

lemma trend_z_nth:
  "i < length df \<Longrightarrow>
   trend_z df w ! i = fdiv (fsub (trend (df ! i)) (rolling_mean w (map trend df) ! i))
                           (rolling_std w (map trend df) ! i)"
  by (simp add: trend_z_def)

lemma signal_col_nth:
  "i < length df \<Longrightarrow>
   signal_col df z w ! i =
     (if flt_less z (trend_z df w ! i) \<and> flt_less (Fin 0) (trend_slope df ! i) then 1 else 0)"
  by (simp add: signal_col_def)

lemma rolling_mean_nth:
  "i < length xs \<Longrightarrow>
   rolling_mean w xs ! i =
     (let obs = observed (rolling_window w xs i)
      in if w \<le> length obs \<and> 0 < length obs then fmean obs else NaN)"
  by (simp add: rolling_mean_def)

lemma rolling_std_nth:
  "i < length xs \<Longrightarrow>
   rolling_std w xs ! i =
     (let obs = observed (rolling_window w xs i)
      in if w \<le> length obs \<and> 1 < length obs then fstd obs else NaN)"
  by (simp add: rolling_std_def)

lemma length_rolling_window:
  "i < length xs \<Longrightarrow> length (rolling_window w xs i) = min (Suc i) w"
  by (auto simp: rolling_window_def)

lemma length_observed_le: "length (observed xs) \<le> length xs"
  by (simp add: observed_def)

lemma observed_full: "length (observed xs) = length xs \<Longrightarrow> observed xs = xs"
  unfolding observed_def by (metis filter_True length_filter_less linorder_not_le order_refl)

lemma rolling_incomplete_mean:
  "i < length xs \<Longrightarrow> Suc i < w \<Longrightarrow> rolling_mean w xs ! i = NaN"
  using length_observed_le[of "rolling_window w xs i"]
  by (simp add: rolling_mean_nth length_rolling_window Let_def)

lemma rolling_incomplete_std:
  "i < length xs \<Longrightarrow> Suc i < w \<Longrightarrow> rolling_std w xs ! i = NaN"
  using length_observed_le[of "rolling_window w xs i"]
  by (simp add: rolling_std_nth length_rolling_window Let_def)

lemma fdiv_nan_right [simp]: "fdiv a NaN = NaN"
  by (cases a) auto
lemma fadd_nan_right [simp]: "fadd a NaN = NaN"
  by (cases a) auto
lemma fmul_nan_right [simp]: "fmul a NaN = NaN"
  by (cases a) auto
lemma fsub_nan [simp]: "fsub a NaN = NaN" "fsub NaN a = NaN"
  by (simp_all add: fsub_def)
lemma flt_less_nan_right [simp]: "\<not> flt_less a NaN"
  by (cases a) auto

lemma foldl_fadd_nan: "foldl fadd NaN ys = NaN"
  by (induction ys) auto

lemma foldl_fadd_pinf: "\<forall>y \<in> set ys. y \<noteq> NInf \<Longrightarrow> foldl fadd PInf ys = PInf \<or> foldl fadd PInf ys = NaN"
proof (induction ys)
  case (Cons y ys)
  then show ?case by (cases y) (auto simp: foldl_fadd_nan)
qed simp

lemma square_cases: "fmul d d = NaN \<or> fmul d d = PInf \<or> (\<exists>c\<ge>0. fmul d d = Fin c)"
  by (cases d) (auto simp: inf_of_sign_def)

lemma square_zero: "fmul d d = Fin 0 \<Longrightarrow> d = Fin 0"
  by (cases d) (auto simp: inf_of_sign_def)

lemma sum_squares_zero:
  assumes "foldl fadd (Fin a) ys = Fin 0" "0 \<le> a"
    "\<forall>y \<in> set ys. y = NaN \<or> y = PInf \<or> (\<exists>c\<ge>0. y = Fin c)"
  shows "a = 0 \<and> (\<forall>y \<in> set ys. y = Fin 0)"
  using assms
proof (induction ys arbitrary: a)
  case Nil
  then show ?case by simp
next
  case (Cons y ys)
  from Cons.prems(3) consider "y = NaN" | "y = PInf" | c where "0 \<le> c" "y = Fin c" by auto
  then show ?case
  proof cases
    case 1
    then show ?thesis using Cons.prems(1) by (simp add: foldl_fadd_nan)
  next
    case 2
    have "\<forall>y \<in> set ys. y \<noteq> NInf" using Cons.prems(3) by auto
    then have "foldl fadd PInf ys = PInf \<or> foldl fadd PInf ys = NaN" by (rule foldl_fadd_pinf)
    moreover have "foldl fadd PInf ys = Fin 0" using Cons.prems(1) 2 by simp
    ultimately show ?thesis by simp
  next
    case 3
    then have "foldl fadd (Fin (a + c)) ys = Fin 0" using Cons.prems(1) by simp
    moreover have "0 \<le> a + c" using 3 Cons.prems(2) by simp
    ultimately have "a + c = 0 \<and> (\<forall>y \<in> set ys. y = Fin 0)"
      using Cons.prems(3) by (intro Cons.IH) auto
    moreover have "a = 0 \<and> c = 0" if "a + c = 0" using that 3(1) Cons.prems(2) by linarith
    ultimately show ?thesis using 3 by simp
  qed
qed

lemma fsqrt_zero: "fsqrt v = Fin 0 \<Longrightarrow> v = Fin 0"
  by (cases v) (auto split: if_splits)

lemma fdiv_pos_zero: "fdiv s (Fin c) = Fin 0 \<Longrightarrow> 0 < c \<Longrightarrow> s = Fin 0"
  by (cases s) (auto simp: inf_of_sign_def split: if_splits)

lemma fstd_zero_deviation:
  assumes "fstd obs = Fin 0" "1 < length obs" "x \<in> set obs"
  shows "fsub x (fmean obs) = Fin 0"
proof -
  define m where "m = fmean obs"
  define sq where "sq = map (\<lambda>x. fmul (fsub x m) (fsub x m)) obs"
  have "fsqrt (fdiv (fsum sq) (Fin (real (length obs) - 1))) = Fin 0"
    using assms(1) unfolding fstd_def Let_def sq_def m_def .
  then have "fdiv (fsum sq) (Fin (real (length obs) - 1)) = Fin 0" by (rule fsqrt_zero)
  moreover have "0 < real (length obs) - 1" using assms(2) by simp
  ultimately have "fsum sq = Fin 0" by (rule fdiv_pos_zero)
  then have f: "foldl fadd (Fin 0) sq = Fin 0" by (simp only: fsum_def)
  have c: "\<forall>y \<in> set sq. y = NaN \<or> y = PInf \<or> (\<exists>c\<ge>0. y = Fin c)"
  proof
    fix y assume "y \<in> set sq"
    then obtain d where "y = fmul d d" unfolding sq_def by auto
    then show "y = NaN \<or> y = PInf \<or> (\<exists>c\<ge>0. y = Fin c)" using square_cases[of d] by simp
  qed
  have "(0::real) = 0 \<and> (\<forall>y \<in> set sq. y = Fin 0)"
    using f _ c by (rule sum_squares_zero) simp
  moreover have "fmul (fsub x m) (fsub x m) \<in> set sq" unfolding sq_def using assms(3) by simp
  ultimately have "fmul (fsub x m) (fsub x m) = Fin 0" by blast
  then show ?thesis unfolding m_def by (rule square_zero)
qed

lemma current_in_window:
  "i < length xs \<Longrightarrow> 0 < w \<Longrightarrow> xs ! i \<in> set (rolling_window w xs i)"
proof -
  assume i: "i < length xs" and w: "0 < w"
  have "rolling_window w xs i \<noteq> []" using i w length_rolling_window[of i xs w] by auto
  moreover have "last (rolling_window w xs i) = xs ! i"
  proof -
    have t: "take (Suc i) xs = take i xs @ [xs ! i]" using i by (rule take_Suc_conv_app_nth)
    have "Suc i - w < length (take (Suc i) xs)" using i w by simp
    then have "last (drop (Suc i - w) (take (Suc i) xs)) = last (take (Suc i) xs)"
      by (rule last_drop)
    then show ?thesis unfolding rolling_window_def t by simp
  qed
  ultimately show ?thesis using last_in_set by metis
qed

lemma zero_std_undefined_z:
  assumes "i < length xs" "rolling_std w xs ! i = Fin 0"
  shows "fdiv (fsub (xs ! i) (rolling_mean w xs ! i)) (rolling_std w xs ! i) = NaN"
proof -
  let ?win = "rolling_window w xs i"
  let ?obs = "observed ?win"
  have c: "w \<le> length ?obs" "1 < length ?obs" and sd: "fstd ?obs = Fin 0"
    using assms by (auto simp: rolling_std_nth Let_def split: if_splits)
  have "length ?win \<le> w" using assms(1) by (simp add: length_rolling_window)
  then have "length ?obs = length ?win" using c(1) length_observed_le[of ?win] by linarith
  then have o: "?obs = ?win" by (rule observed_full)
  have "0 < w" using c \<open>length ?win \<le> w\<close> o by auto
  then have "xs ! i \<in> set ?obs" using assms(1) o current_in_window by simp
  then have "fsub (xs ! i) (fmean ?obs) = Fin 0" using sd c(2) by (intro fstd_zero_deviation)
  moreover have "rolling_mean w xs ! i = fmean ?obs"
    using assms(1) c by (auto simp add: rolling_mean_nth Let_def)
  ultimately show ?thesis using assms(2) by (simp add: inf_of_sign_def)
qed

lemma bt_rows_nth:
  "i < length kept \<Longrightarrow>
   bt_rows kept ! i =
     \<lparr>ds = fst (kept ! i), signal = fst (snd (kept ! i)),
      strategy_ret = strategy_col kept ! i, bh_ret = bh_col kept ! i,
      equity_strategy = equity_of (strategy_col kept) ! i,
      equity_bh = equity_of (bh_col kept) ! i\<rparr>"
  by (simp add: bt_rows_def case_prod_unfold)

lemma map_strategy_ret_bt_rows: "map strategy_ret (bt_rows kept) = strategy_col kept"
  by (rule nth_equalityI) (simp_all add: bt_rows_nth)

lemma map_bh_ret_bt_rows: "map bh_ret (bt_rows kept) = bh_col kept"
  by (rule nth_equalityI) (simp_all add: bt_rows_nth)

lemma map_equity_strategy_bt_rows:
  "map equity_strategy (bt_rows kept) = equity_of (strategy_col kept)"
  by (rule nth_equalityI) (simp_all add: bt_rows_nth)

lemma map_equity_bh_bt_rows: "map equity_bh (bt_rows kept) = equity_of (bh_col kept)"
  by (rule nth_equalityI) (simp_all add: bt_rows_nth)

lemma bt_rows_origin:
  assumes "r \<in> set (bt_rows (bt_kept df L z w))"
  shows "\<exists>i < length df. ds r = ds (df ! i) \<and> signal r = signal_col df z w ! i
           \<and> bh_ret r = future_ret_L df L ! i \<and> \<not> isnan (future_ret_L df L ! i)"
proof -
  let ?kept = "bt_kept df L z w"
  from assms obtain j where j: "j < length ?kept" "r = bt_rows ?kept ! j"
    by (auto simp: in_set_conv_nth)
  have "?kept ! j \<in> set ?kept" using j(1) by simp
  then obtain i where i: "i < length df" "\<not> isnan (future_ret_L df L ! i)"
    "?kept ! j = (ds (df ! i), signal_col df z w ! i, future_ret_L df L ! i)"
    unfolding bt_kept_set by auto
  have "bh_col ?kept ! j = future_ret_L df L ! i" using j(1) i(3) by (simp add: bh_col_def)
  then show ?thesis using i j by (auto simp: bt_rows_nth)
qed

lemma trend_slope_first: "0 < length df \<Longrightarrow> isnan (trend_slope df ! 0)"
  by (simp add: trend_slope_def pd_diff_def pd_shift_nth_down)

lemma signal_zero_if_nan_z:
  "i < length df \<Longrightarrow> isnan (trend_z df w ! i) \<Longrightarrow> signal_col df z w ! i = 0"
  by (cases "trend_z df w ! i") (auto simp: signal_col_nth)

lemma signal_zero_if_nan_slope:
  "i < length df \<Longrightarrow> isnan (trend_slope df ! i) \<Longrightarrow> signal_col df z w ! i = 0"
  by (cases "trend_slope df ! i") (auto simp: signal_col_nth)

lemma trend_z_incomplete: "i < length df \<Longrightarrow> Suc i < w \<Longrightarrow> isnan (trend_z df w ! i)"
  by (simp add: trend_z_nth rolling_incomplete_std)

lemma trend_z_zero_std:
  "i < length df \<Longrightarrow> rolling_std w (map trend df) ! i = Fin 0 \<Longrightarrow> isnan (trend_z df w ! i)"
  using zero_std_undefined_z[of i "map trend df" w] by (simp add: trend_z_nth)

text \<open>
  C4. The position of a row is 1 exactly when the rolling z-score of the indicator
  exceeds the threshold and the first difference of the indicator is positive, and 0
  otherwise; so it is 0 or 1. It is 0 where the rolling window is incomplete, where the
  rolling standard deviation is 0 (the z-score is then 0/0, not-a-number), where the
  z-score or the first difference is undefined, and on the first row. Every row of a
  backtest result carries the position of the row of the table it comes from.
\<close>

theorem signal_position_rule:
  "length (signal_col df z_threshold w) = length df
   \<and> (\<forall>i < length df.
        signal_col df z_threshold w ! i =
          (if flt_less z_threshold (trend_z df w ! i) \<and> flt_less (Fin 0) (trend_slope df ! i)
           then 1 else 0)
      \<and> (signal_col df z_threshold w ! i = 0 \<or> signal_col df z_threshold w ! i = 1)
      \<and> (Suc i < w \<longrightarrow> signal_col df z_threshold w ! i = 0)
      \<and> (rolling_std w (map trend df) ! i = Fin 0 \<longrightarrow> signal_col df z_threshold w ! i = 0)
      \<and> (isnan (trend_z df w ! i) \<longrightarrow> signal_col df z_threshold w ! i = 0)
      \<and> (isnan (trend_slope df ! i) \<longrightarrow> signal_col df z_threshold w ! i = 0)
      \<and> (i = 0 \<longrightarrow> signal_col df z_threshold w ! i = 0))
   \<and> (\<forall>rows m. backtest_trend_signal df L z_threshold roll_window = Inr (rows, m) \<longrightarrow>
        (\<forall>r \<in> set rows.
           (signal r = 0 \<or> signal r = 1)
         \<and> (\<exists>i < length df. ds r = ds (df ! i)
                \<and> signal r = signal_col df z_threshold (nat roll_window) ! i)))"
proof (intro conjI allI impI ballI)
  show "length (signal_col df z_threshold w) = length df" by simp
next
  fix i assume i: "i < length df"
  show "signal_col df z_threshold w ! i =
          (if flt_less z_threshold (trend_z df w ! i) \<and> flt_less (Fin 0) (trend_slope df ! i)
           then 1 else 0)"
    using i by (rule signal_col_nth)
  then show "signal_col df z_threshold w ! i = 0 \<or> signal_col df z_threshold w ! i = 1" by simp
  show "signal_col df z_threshold w ! i = 0" if "Suc i < w"
    using i that by (intro signal_zero_if_nan_z trend_z_incomplete)
  show "signal_col df z_threshold w ! i = 0" if "rolling_std w (map trend df) ! i = Fin 0"
    using i that by (intro signal_zero_if_nan_z trend_z_zero_std)
  show "signal_col df z_threshold w ! i = 0" if "isnan (trend_z df w ! i)"
    using i that by (rule signal_zero_if_nan_z)
  show "signal_col df z_threshold w ! i = 0" if "isnan (trend_slope df ! i)"
    using i that by (rule signal_zero_if_nan_slope)
  show "signal_col df z_threshold w ! i = 0" if "i = 0"
    using i that trend_slope_first[of df] by (intro signal_zero_if_nan_slope) auto
next
  fix rows m r
  assume bt: "backtest_trend_signal df L z_threshold roll_window = Inr (rows, m)"
    and r: "r \<in> set rows"
  from backtest_InrD[OF bt] have rows: "rows = bt_rows (bt_kept df L z_threshold (nat roll_window))"
    by simp
  from bt_rows_origin[OF r[unfolded rows]]
  obtain i where i: "i < length df" "ds r = ds (df ! i)"
    "signal r = signal_col df z_threshold (nat roll_window) ! i" by blast
  show "\<exists>i < length df. ds r = ds (df ! i) \<and> signal r = signal_col df z_threshold (nat roll_window) ! i"
    using i by blast
  show "signal r = 0 \<or> signal r = 1" using i by (simp add: signal_col_nth)
qed

lemma sqrt_nine: "sqrt 9 = 3"
  by (rule real_sqrt_unique) simp_all

lemma rolling_std_step:
  "rolling_std 3 (map trend df_step) = [NaN, NaN, Fin 3, Fin (sqrt 3), Fin 0, Fin 0]"
  by (simp add: rolling_std_def rolling_window_def observed_def df_step_def upt_six
      fstd_def fmean_def fsum_def fsub_def sqrt_nine)

lemma rolling_mean_step:
  "rolling_mean 3 (map trend df_step) = [NaN, NaN, Fin 3, Fin 5, Fin 6, Fin 6]"
  by (simp add: rolling_mean_def rolling_window_def observed_def df_step_def upt_six
      fmean_def fsum_def)

lemma trend_slope_step:
  "trend_slope df_step = [NaN, Fin 3, Fin 3, Fin 0, Fin 0, Fin 0]"
  by (simp add: trend_slope_def pd_diff_def pd_shift_def df_step_def fsub_def)

lemma signal_col_step: "signal_col df_step (Fin (1/2)) 3 = [0, 0, 1, 0, 0, 0]"
  unfolding signal_col_def trend_z_def rolling_mean_step rolling_std_step trend_slope_step
  by (simp add: df_step_def fsub_def inf_of_sign_def)

lemma future_ret_step:
  "future_ret_L df_step 1 = [Fin (1/10), Fin (1/10), Fin 0, Fin 0, Fin 0, NaN]"
  by (simp add: future_ret_L_def pd_shift_def df_step_def fsub_def)

lemma bt_kept_step:
  "bt_kept df_step 1 (Fin (1/2)) 3 =
     [(0, 0, Fin (1/10)), (1, 0, Fin (1/10)), (2, 1, Fin 0), (3, 0, Fin 0), (4, 0, Fin 0)]"
  unfolding bt_kept_def signal_col_step future_ret_step by (simp add: df_step_def)

lemma backtest_step_runs:
  "\<exists>rows m. backtest_trend_signal df_step 1 (Fin (1/2)) 3 = Inr (rows, m)"
proof -
  have n: "nat 3 = 3" by simp
  have ne: "bt_kept df_step 1 (Fin (1/2)) (nat 3) \<noteq> []" unfolding n bt_kept_step by simp
  obtain v where "sharpe_of (pd_mean (strategy_col (bt_kept df_step 1 (Fin (1/2)) (nat 3))))
           (pd_std (strategy_col (bt_kept df_step 1 (Fin (1/2)) (nat 3)))) 1 = Inr v"
    using sharpe_of_ok[of 1] by (metis one_neq_zero)
  from backtest_result[OF _ ne this] show ?thesis by simp
qed

theorem signal_position_rule_witness:
  "signal_col df_step (Fin (1/2)) 3 ! 2 = 1
   \<and> flt_less (Fin (1/2)) (trend_z df_step 3 ! 2) \<and> flt_less (Fin 0) (trend_slope df_step ! 2)
   \<and> Suc 1 < (3::nat) \<and> signal_col df_step (Fin (1/2)) 3 ! 1 = 0
   \<and> rolling_std 3 (map trend df_step) ! 5 = Fin 0 \<and> isnan (trend_z df_step 3 ! 5)
   \<and> signal_col df_step (Fin (1/2)) 3 ! 5 = 0
   \<and> isnan (trend_slope df_step ! 0) \<and> signal_col df_step (Fin (1/2)) 3 ! 0 = 0
   \<and> (\<exists>rows m. backtest_trend_signal df_step 1 (Fin (1/2)) 3 = Inr (rows, m)
         \<and> list_all (\<lambda>r. signal r = 0 \<or> signal r = 1) rows)"
proof -
  note t = signal_position_rule[of df_step "Fin (1/2)" 3 1 3]
  have len: "length df_step = 6" by (simp add: df_step_def)
  note rule = t[THEN conjunct2, THEN conjunct1, rule_format]
  have i2: "(2::nat) < length df_step" and i1: "(1::nat) < length df_step"
    and i5: "(5::nat) < length df_step" and i0: "(0::nat) < length df_step"
    by (simp_all add: len)
  have s2: "signal_col df_step (Fin (1/2)) 3 ! 2 = 1" by (simp add: signal_col_step)
  have c2: "flt_less (Fin (1/2)) (trend_z df_step 3 ! 2) \<and> flt_less (Fin 0) (trend_slope df_step ! 2)"
    using rule[OF i2, THEN conjunct1] s2 by (simp split: if_splits)
  have w1: "Suc 1 < (3::nat)" by simp
  have s1: "signal_col df_step (Fin (1/2)) 3 ! 1 = 0"
    using rule[OF i1, THEN conjunct2, THEN conjunct2, THEN conjunct1] w1 by simp
  have sd5: "rolling_std 3 (map trend df_step) ! 5 = Fin 0" by (simp add: rolling_std_step)
  have s5: "signal_col df_step (Fin (1/2)) 3 ! 5 = 0"
    using rule[OF i5, THEN conjunct2, THEN conjunct2, THEN conjunct2, THEN conjunct1] sd5 by simp
  have z5: "isnan (trend_z df_step 3 ! 5)" using i5 sd5 by (rule trend_z_zero_std)
  have n0: "isnan (trend_slope df_step ! 0)" by (simp add: trend_slope_step)
  have s0: "signal_col df_step (Fin (1/2)) 3 ! 0 = 0"
    using rule[OF i0] n0 by simp
  obtain rows m where bt: "backtest_trend_signal df_step 1 (Fin (1/2)) 3 = Inr (rows, m)"
    using backtest_step_runs by blast
  have "\<forall>r \<in> set rows. signal r = 0 \<or> signal r = 1"
    using t[THEN conjunct2, THEN conjunct2, rule_format, OF bt] by blast
  then have "list_all (\<lambda>r. signal r = 0 \<or> signal r = 1) rows" by (simp add: list_all_iff)
  with bt s2 c2 w1 s1 sd5 z5 s5 n0 s0 show ?thesis by blast
qed

section \<open>Properties of the equity curves\<close>

lemma fmul_one_left [simp]: "fmul (Fin 1) x = x"
  by (cases x) (auto simp: inf_of_sign_def)

lemma isnan_fadd_one [simp]: "isnan (fadd (Fin 1) x) = isnan x"
  by (cases x) auto

lemma cumprod_from_nth:
  "\<forall>x \<in> set xs. \<not> isnan x \<Longrightarrow> i < length xs \<Longrightarrow>
   cumprod_from acc xs ! i = foldl fmul acc (take (Suc i) xs)"
proof (induction xs arbitrary: acc i)
  case Nil
  then show ?case by simp
next
  case (Cons x xs)
  then show ?case by (cases i) auto
qed

lemma cumprod_from_hd: "xs \<noteq> [] \<Longrightarrow> hd (cumprod_from (Fin 1) xs) = hd xs"
  by (cases xs) (auto, metis isnan.elims(2))

lemma pos_shift: "flt_less (Fin (- 1)) r \<Longrightarrow> flt_less (Fin 0) (fadd (Fin 1) r)"
  by (cases r) auto

lemma pos_fmul: "flt_less (Fin 0) a \<Longrightarrow> flt_less (Fin 0) x \<Longrightarrow> flt_less (Fin 0) (fmul a x)"
  by (cases a; cases x) (auto simp: inf_of_sign_def)

lemma cumprod_from_pos:
  "flt_less (Fin 0) acc \<Longrightarrow> \<forall>x \<in> set xs. flt_less (Fin 0) x \<Longrightarrow>
   \<forall>e \<in> set (cumprod_from acc xs). flt_less (Fin 0) e"
proof (induction xs arbitrary: acc)
  case Nil
  then show ?case by simp
next
  case (Cons x xs)
  have x: "flt_less (Fin 0) x" using Cons.prems(2) by simp
  then have nn: "\<not> isnan x" using flt_less_not_nan by blast
  have p: "flt_less (Fin 0) (fmul acc x)" using Cons.prems(1) x by (rule pos_fmul)
  have "\<forall>e \<in> set (cumprod_from (fmul acc x) xs). flt_less (Fin 0) e"
    using p Cons.prems(2) by (intro Cons.IH) auto
  then show ?case using nn p by simp
qed

lemma equity_of_nonneg:
  assumes "\<forall>r \<in> set rets. flt_less (Fin (- 1)) r"
  shows "\<forall>e \<in> set (equity_of rets). flt_le (Fin 0) e"
proof -
  have "\<forall>x \<in> set (map (fadd (Fin 1)) rets). flt_less (Fin 0) x"
    using assms pos_shift by auto
  then have "\<forall>e \<in> set (cumprod_from (Fin 1) (map (fadd (Fin 1)) rets)). flt_less (Fin 0) e"
    by (intro cumprod_from_pos) auto
  then show ?thesis unfolding equity_of_def pd_cumprod_def using flt_less_imp_le by blast
qed

lemma equity_of_nth:
  assumes "\<forall>r \<in> set rets. \<not> isnan r" "i < length rets"
  shows "equity_of rets ! i = foldl fmul (Fin 1) (map (fadd (Fin 1)) (take (Suc i) rets))"
proof -
  have "\<forall>x \<in> set (map (fadd (Fin 1)) rets). \<not> isnan x" using assms(1) by simp
  then show ?thesis unfolding equity_of_def pd_cumprod_def
    using assms(2) by (simp add: cumprod_from_nth take_map)
qed

lemma equity_of_hd: "rets \<noteq> [] \<Longrightarrow> hd (equity_of rets) = fadd (Fin 1) (hd rets)"
  unfolding equity_of_def pd_cumprod_def by (simp add: cumprod_from_hd hd_map)

lemma bh_col_defined: "f \<in> set (bh_col (bt_kept df L z w)) \<Longrightarrow> \<not> isnan f"
  using bt_kept_future by (fastforce simp: bh_col_def)

lemma filter_prefix:
  "\<forall>i < length xs. P (xs ! i) \<longleftrightarrow> i < k \<Longrightarrow> filter P xs = take k xs"
proof (induction xs arbitrary: k)
  case Nil
  then show ?case by simp
next
  case (Cons x xs)
  show ?case
  proof (cases k)
    case 0
    have "\<not> P y" if "y \<in> set (x # xs)" for y
    proof -
      from that obtain i where "i < length (x # xs)" "(x # xs) ! i = y"
        by (metis in_set_conv_nth)
      then show ?thesis using Cons.prems 0 by auto
    qed
    then show ?thesis using 0 by simp
  next
    case (Suc k')
    have "P x" using Cons.prems[rule_format, of 0] Suc by simp
    moreover have "\<forall>i < length xs. P (xs ! i) \<longleftrightarrow> i < k'"
      using Cons.prems Suc by fastforce
    ultimately show ?thesis using Cons.IH Suc by simp
  qed
qed

lemma future_ret_defined_iff:
  assumes "0 < L" "\<forall>r \<in> set df. \<exists>a. price r = Fin a \<and> a \<noteq> 0" "i < length df"
  shows "\<not> isnan (future_ret_L df L ! i) \<longleftrightarrow> i < length df - nat L"
proof -
  obtain a where a: "price (df ! i) = Fin a" "a \<noteq> 0" using assms(2,3) by fastforce
  have sh: "pd_shift (- L) (map price df) ! i =
        (if i + nat L < length df then price (df ! (i + nat L)) else NaN)"
    using assms(1,3) by (simp add: pd_shift_nth_up)
  show ?thesis
  proof (cases "i + nat L < length df")
    case True
    then obtain b where "price (df ! (i + nat L)) = Fin b" using assms(2) by fastforce
    then show ?thesis using True a sh assms(3) by (simp add: future_ret_L_nth fsub_def)
  next
    case False
    then show ?thesis using a sh assms(3) by (simp add: future_ret_L_nth)
  qed
qed

lemma bt_kept_prefix:
  assumes "0 < L" "\<forall>r \<in> set df. \<exists>a. price r = Fin a \<and> a \<noteq> 0"
  shows "map fst (bt_kept df L z w) = map ds (take (length df - nat L) df)"
proof -
  let ?zs = "zip (map ds df) (zip (signal_col df z w) (future_ret_L df L))"
  have "\<forall>i < length ?zs. (\<lambda>(d, s, f). \<not> isnan f) (?zs ! i) \<longleftrightarrow> i < length df - nat L"
    using future_ret_defined_iff[OF assms] by simp
  then have "bt_kept df L z w = take (length df - nat L) ?zs"
    unfolding bt_kept_def by (rule filter_prefix)
  then show ?thesis by (simp add: take_map[symmetric] take_zip[symmetric] del: take_zip)
qed

text \<open>
  C5. In every backtest result the rows are those with a defined forward return (for a
  positive horizon and finite non-zero prices: all rows but the trailing \<open>L\<close>), and the
  result is not empty. Each equity curve is the pandas cumulative product of
  \<open>1 + period return\<close>, which starts from 1: its first value is 1 plus the first period
  return, and where no period return is missing its value at row \<open>i\<close> is the product of
  \<open>1 + return\<close> over the rows up to \<open>i\<close> (the benchmark returns are never missing). Every
  equity value is non-negative whenever all period returns of the curve exceed -1.
\<close>

theorem equity_curves:
  assumes "backtest_trend_signal df L z_threshold roll_window = Inr (rows, m)"
  shows "rows \<noteq> []
     \<and> (\<forall>r \<in> set rows. \<not> isnan (bh_ret r))
     \<and> (0 < L \<and> (\<forall>r \<in> set df. \<exists>a. price r = Fin a \<and> a \<noteq> 0) \<longrightarrow>
          map ds rows = map ds (take (length df - nat L) df))
     \<and> map equity_strategy rows = pd_cumprod (map (\<lambda>r. fadd (Fin 1) (strategy_ret r)) rows)
     \<and> map equity_bh rows = pd_cumprod (map (\<lambda>r. fadd (Fin 1) (bh_ret r)) rows)
     \<and> equity_strategy (hd rows) = fadd (Fin 1) (strategy_ret (hd rows))
     \<and> equity_bh (hd rows) = fadd (Fin 1) (bh_ret (hd rows))
     \<and> (\<forall>i < length rows.
           equity_bh (rows ! i) =
             foldl fmul (Fin 1) (map (\<lambda>r. fadd (Fin 1) (bh_ret r)) (take (Suc i) rows)))
     \<and> ((\<forall>r \<in> set rows. \<not> isnan (strategy_ret r)) \<longrightarrow>
          (\<forall>i < length rows.
             equity_strategy (rows ! i) =
               foldl fmul (Fin 1) (map (\<lambda>r. fadd (Fin 1) (strategy_ret r)) (take (Suc i) rows))))
     \<and> ((\<forall>r \<in> set rows. flt_less (Fin (- 1)) (strategy_ret r)) \<longrightarrow>
          (\<forall>r \<in> set rows. flt_le (Fin 0) (equity_strategy r)))
     \<and> ((\<forall>r \<in> set rows. flt_less (Fin (- 1)) (bh_ret r)) \<longrightarrow>
          (\<forall>r \<in> set rows. flt_le (Fin 0) (equity_bh r)))"
proof -
  define kept where "kept = bt_kept df L z_threshold (nat roll_window)"
  from backtest_InrD[OF assms] have ne: "kept \<noteq> []" and rows: "rows = bt_rows kept"
    by (simp_all add: kept_def)
  have ms: "map strategy_ret rows = strategy_col kept" and mb: "map bh_ret rows = bh_col kept"
    and es: "map equity_strategy rows = equity_of (strategy_col kept)"
    and eb: "map equity_bh rows = equity_of (bh_col kept)"
    unfolding rows
    by (rule map_strategy_ret_bt_rows map_bh_ret_bt_rows map_equity_strategy_bt_rows
        map_equity_bh_bt_rows)+
  have len: "length rows = length kept" by (simp add: rows)
  have set_s: "set (strategy_col kept) = strategy_ret ` set rows" using ms by (metis set_map)
  have set_b: "set (bh_col kept) = bh_ret ` set rows" using mb by (metis set_map)
  have set_es: "set (equity_of (strategy_col kept)) = equity_strategy ` set rows"
    using es by (metis set_map)
  have set_eb: "set (equity_of (bh_col kept)) = equity_bh ` set rows"
    using eb by (metis set_map)
  have 1: "rows \<noteq> []" using ne len by auto
  have 2: "\<forall>r \<in> set rows. \<not> isnan (bh_ret r)"
    using bh_col_defined[of _ df L z_threshold "nat roll_window"] set_b
    unfolding kept_def[symmetric] by blast
  have 3: "map ds rows = map ds (take (length df - nat L) df)"
    if "0 < L \<and> (\<forall>r \<in> set df. \<exists>a. price r = Fin a \<and> a \<noteq> 0)"
  proof -
    have "map ds rows = map fst kept"
      unfolding rows by (rule nth_equalityI) (simp_all add: bt_rows_nth)
    then show ?thesis using that bt_kept_prefix unfolding kept_def by simp
  qed
  have 4: "map equity_strategy rows = pd_cumprod (map (\<lambda>r. fadd (Fin 1) (strategy_ret r)) rows)"
    unfolding es equity_of_def ms[symmetric] by (simp add: o_def)
  have 5: "map equity_bh rows = pd_cumprod (map (\<lambda>r. fadd (Fin 1) (bh_ret r)) rows)"
    unfolding eb equity_of_def mb[symmetric] by (simp add: o_def)
  have h: "hd rows = rows ! 0" using 1 by (simp add: hd_conv_nth)
  have k0: "0 < length kept" using ne by simp
  have r0: "rows ! 0 =
     \<lparr>ds = fst (kept ! 0), signal = fst (snd (kept ! 0)),
      strategy_ret = strategy_col kept ! 0, bh_ret = bh_col kept ! 0,
      equity_strategy = equity_of (strategy_col kept) ! 0,
      equity_bh = equity_of (bh_col kept) ! 0\<rparr>"
    unfolding rows using k0 by (rule bt_rows_nth)
  have 6: "equity_strategy (hd rows) = fadd (Fin 1) (strategy_ret (hd rows))"
    using equity_of_hd[of "strategy_col kept"] ne
    unfolding h r0 by (simp add: hd_conv_nth)
  have 7: "equity_bh (hd rows) = fadd (Fin 1) (bh_ret (hd rows))"
    using equity_of_hd[of "bh_col kept"] ne
    unfolding h r0 by (simp add: hd_conv_nth)
  have nth_s: "equity_strategy (rows ! i) =
               foldl fmul (Fin 1) (map (\<lambda>r. fadd (Fin 1) (strategy_ret r)) (take (Suc i) rows))"
    if "\<forall>r \<in> set rows. \<not> isnan (strategy_ret r)" "i < length rows" for i
  proof -
    have "\<forall>x \<in> set (strategy_col kept). \<not> isnan x" using that(1) set_s by auto
    then have "equity_of (strategy_col kept) ! i =
       foldl fmul (Fin 1) (map (fadd (Fin 1)) (take (Suc i) (strategy_col kept)))"
      using that(2) len by (intro equity_of_nth) auto
    moreover have "equity_of (strategy_col kept) ! i = equity_strategy (rows ! i)"
      using that(2) es by (metis nth_map)
    ultimately show ?thesis unfolding ms[symmetric] by (simp add: take_map o_def)
  qed
  have nth_b: "equity_bh (rows ! i) =
               foldl fmul (Fin 1) (map (\<lambda>r. fadd (Fin 1) (bh_ret r)) (take (Suc i) rows))"
    if "i < length rows" for i
  proof -
    have "\<forall>x \<in> set (bh_col kept). \<not> isnan x" using 2 set_b by auto
    then have "equity_of (bh_col kept) ! i =
       foldl fmul (Fin 1) (map (fadd (Fin 1)) (take (Suc i) (bh_col kept)))"
      using that len by (intro equity_of_nth) auto
    moreover have "equity_of (bh_col kept) ! i = equity_bh (rows ! i)"
      using that eb by (metis nth_map)
    ultimately show ?thesis unfolding mb[symmetric] by (simp add: take_map o_def)
  qed
  have 10: "\<forall>r \<in> set rows. flt_le (Fin 0) (equity_strategy r)"
    if "\<forall>r \<in> set rows. flt_less (Fin (- 1)) (strategy_ret r)"
  proof -
    have "\<forall>x \<in> set (strategy_col kept). flt_less (Fin (- 1)) x" using that set_s by auto
    then have "\<forall>e \<in> set (equity_of (strategy_col kept)). flt_le (Fin 0) e"
      by (rule equity_of_nonneg)
    then show ?thesis using set_es by auto
  qed
  have 11: "\<forall>r \<in> set rows. flt_le (Fin 0) (equity_bh r)"
    if "\<forall>r \<in> set rows. flt_less (Fin (- 1)) (bh_ret r)"
  proof -
    have "\<forall>x \<in> set (bh_col kept). flt_less (Fin (- 1)) x" using that set_b by auto
    then have "\<forall>e \<in> set (equity_of (bh_col kept)). flt_le (Fin 0) e"
      by (rule equity_of_nonneg)
    then show ?thesis using set_eb by auto
  qed
  show ?thesis
  proof (intro conjI)
    show "rows \<noteq> []" by (rule 1)
    show "\<forall>r \<in> set rows. \<not> isnan (bh_ret r)" by (rule 2)
    show "0 < L \<and> (\<forall>r \<in> set df. \<exists>a. price r = Fin a \<and> a \<noteq> 0) \<longrightarrow>
          map ds rows = map ds (take (length df - nat L) df)"
      using 3 by (rule impI)
    show "map equity_strategy rows = pd_cumprod (map (\<lambda>r. fadd (Fin 1) (strategy_ret r)) rows)"
      by (rule 4)
    show "map equity_bh rows = pd_cumprod (map (\<lambda>r. fadd (Fin 1) (bh_ret r)) rows)"
      by (rule 5)
    show "equity_strategy (hd rows) = fadd (Fin 1) (strategy_ret (hd rows))" by (rule 6)
    show "equity_bh (hd rows) = fadd (Fin 1) (bh_ret (hd rows))" by (rule 7)
    show "\<forall>i < length rows.
           equity_bh (rows ! i) =
             foldl fmul (Fin 1) (map (\<lambda>r. fadd (Fin 1) (bh_ret r)) (take (Suc i) rows))"
      using nth_b by (intro allI impI)
    show "(\<forall>r \<in> set rows. \<not> isnan (strategy_ret r)) \<longrightarrow>
          (\<forall>i < length rows.
             equity_strategy (rows ! i) =
               foldl fmul (Fin 1) (map (\<lambda>r. fadd (Fin 1) (strategy_ret r)) (take (Suc i) rows)))"
      using nth_s by (intro allI impI)
    show "(\<forall>r \<in> set rows. flt_less (Fin (- 1)) (strategy_ret r)) \<longrightarrow>
          (\<forall>r \<in> set rows. flt_le (Fin 0) (equity_strategy r))"
      using 10 by (rule impI)
    show "(\<forall>r \<in> set rows. flt_less (Fin (- 1)) (bh_ret r)) \<longrightarrow>
          (\<forall>r \<in> set rows. flt_le (Fin 0) (equity_bh r))"
      using 11 by (rule impI)
  qed
qed

theorem equity_curves_witness:
  "\<exists>rows m. backtest_trend_signal df_step 1 (Fin (1/2)) 3 = Inr (rows, m)
     \<and> (0::int) < 1 \<and> list_all (\<lambda>r. \<exists>a. price r = Fin a \<and> a \<noteq> 0) df_step
     \<and> map ds rows = [0, 1, 2, 3, 4]
     \<and> map bh_ret rows = [Fin (1/10), Fin (1/10), Fin 0, Fin 0, Fin 0]
     \<and> map equity_bh rows = [Fin (11/10), Fin (121/100), Fin (121/100), Fin (121/100), Fin (121/100)]
     \<and> equity_bh (hd rows) = Fin (11/10)
     \<and> list_all (\<lambda>r. flt_less (Fin (- 1)) (strategy_ret r)) rows
     \<and> list_all (\<lambda>r. flt_le (Fin 0) (equity_strategy r)) rows"
proof -
  obtain rows m where bt: "backtest_trend_signal df_step 1 (Fin (1/2)) 3 = Inr (rows, m)"
    using backtest_step_runs by blast
  note t = equity_curves[OF bt]
  have rows: "rows = bt_rows (bt_kept df_step 1 (Fin (1/2)) 3)"
    using backtest_InrD[OF bt] by simp
  have ms: "map strategy_ret rows = [Fin 0, Fin 0, Fin 0, Fin 0, Fin 0]"
    unfolding rows map_strategy_ret_bt_rows bt_kept_step by (simp add: strategy_col_def)
  have mb: "map bh_ret rows = [Fin (1/10), Fin (1/10), Fin 0, Fin 0, Fin 0]"
    unfolding rows map_bh_ret_bt_rows bt_kept_step by (simp add: bh_col_def)
  have L: "(0::int) < 1" by simp
  have P: "\<forall>r \<in> set df_step. \<exists>a. price r = Fin a \<and> a \<noteq> 0" by (simp add: df_step_def)
  then have P': "list_all (\<lambda>r. \<exists>a. price r = Fin a \<and> a \<noteq> 0) df_step" by (simp add: list_all_iff)
  have d: "map ds rows = [0, 1, 2, 3, 4]"
    using t[THEN conjunct2, THEN conjunct2, THEN conjunct1] L P by (simp add: df_step_def)
  have "map equity_bh rows = pd_cumprod (map (fadd (Fin 1)) (map bh_ret rows))"
    using t[THEN conjunct2, THEN conjunct2, THEN conjunct2, THEN conjunct2, THEN conjunct1]
    by (simp add: o_def)
  then have eb: "map equity_bh rows =
      [Fin (11/10), Fin (121/100), Fin (121/100), Fin (121/100), Fin (121/100)]"
    unfolding mb by (simp add: pd_cumprod_def)
  have ne: "rows \<noteq> []" using t by blast
  have h: "equity_bh (hd rows) = Fin (11/10)"
    using t[THEN conjunct2, THEN conjunct2, THEN conjunct2, THEN conjunct2, THEN conjunct2,
            THEN conjunct2, THEN conjunct1] mb ne
    by (cases rows) auto
  have "\<forall>x \<in> set (map strategy_ret rows). flt_less (Fin (- 1)) x" unfolding ms by simp
  then have gt: "\<forall>r \<in> set rows. flt_less (Fin (- 1)) (strategy_ret r)" by simp
  have "\<forall>r \<in> set rows. flt_le (Fin 0) (equity_strategy r)"
    using t[THEN conjunct2, THEN conjunct2, THEN conjunct2, THEN conjunct2, THEN conjunct2,
            THEN conjunct2, THEN conjunct2, THEN conjunct2, THEN conjunct2, THEN conjunct1] gt
    by blast
  then have nn: "list_all (\<lambda>r. flt_le (Fin 0) (equity_strategy r)) rows"
    by (simp add: list_all_iff)
  have gt': "list_all (\<lambda>r. flt_less (Fin (- 1)) (strategy_ret r)) rows"
    using gt by (simp add: list_all_iff)
  show ?thesis
    by (rule exI[of _ rows], rule exI[of _ m]) (intro conjI bt L P' d mb eb h gt' nn)
qed

section \<open>The benchmark does not depend on the signal parameters\<close>

lemma bh_col_bt_kept:
  "bh_col (bt_kept df L z w) = filter (\<lambda>f. \<not> isnan f) (future_ret_L df L)"
proof -
  have "map (\<lambda>(d, s, f). f) (bt_kept df L z w) = filter (\<lambda>f. \<not> isnan f)
          (map (\<lambda>(d, s, f). f) (zip (map ds df) (zip (signal_col df z w) (future_ret_L df L))))"
    unfolding bt_kept_def by (simp add: filter_map o_def case_prod_unfold)
  moreover have "map (\<lambda>(d, s, f). f) (zip (map ds df) (zip (signal_col df z w) (future_ret_L df L)))
       = future_ret_L df L"
    by (subst zip3_nth) (auto intro: nth_equalityI)
  ultimately show ?thesis by (simp add: bh_col_def)
qed

lemma dates_bt_kept:
  "map fst (bt_kept df L z w) =
     map fst (filter (\<lambda>(d, f). \<not> isnan f) (zip (map ds df) (future_ret_L df L)))"
proof -
  have "map (\<lambda>(d, s, f). (d, f)) (bt_kept df L z w) = filter (\<lambda>(d, f). \<not> isnan f)
          (map (\<lambda>(d, s, f). (d, f)) (zip (map ds df) (zip (signal_col df z w) (future_ret_L df L))))"
    unfolding bt_kept_def by (simp add: filter_map o_def case_prod_unfold)
  moreover have "map (\<lambda>(d, s, f). (d, f)) (zip (map ds df) (zip (signal_col df z w) (future_ret_L df L)))
       = zip (map ds df) (future_ret_L df L)"
    by (subst zip3_nth) (auto intro: nth_equalityI)
  ultimately have "map (\<lambda>(d, s, f). (d, f)) (bt_kept df L z w)
       = filter (\<lambda>(d, f). \<not> isnan f) (zip (map ds df) (future_ret_L df L))" by simp
  then have "map fst (map (\<lambda>(d, s, f). (d, f)) (bt_kept df L z w))
       = map fst (filter (\<lambda>(d, f). \<not> isnan f) (zip (map ds df) (future_ret_L df L)))" by simp
  then show ?thesis by (simp add: o_def case_prod_unfold)
qed

lemma sharpe_never_divides_by_zero:
  "\<exists>v. sharpe_of (pd_mean (strategy_col (bt_kept df L z w)))
                  (pd_std (strategy_col (bt_kept df L z w))) L = Inr v"
proof -
  have "L \<noteq> 0 \<or> \<not> flt_less (Fin 0) (pd_std (strategy_col (bt_kept df L z w)))"
  proof (cases "L = 0")
    case True
    then have "\<forall>x \<in> set (strategy_col (bt_kept df L z w)). x = Fin 0"
      using strategy_col_zero_horizon by blast
    then show ?thesis by (simp add: pd_std_zeros)
  qed simp
  then show ?thesis by (rule sharpe_of_ok)
qed

lemma backtest_outcome:
  assumes "0 \<le> w"
  shows "((\<forall>f \<in> set (future_ret_L df L). isnan f) \<longrightarrow>
            backtest_trend_signal df L z w = Inl IndexError)
       \<and> (\<not> (\<forall>f \<in> set (future_ret_L df L). isnan f) \<longrightarrow>
            (\<exists>rows m. backtest_trend_signal df L z w = Inr (rows, m)))"
proof (intro conjI impI)
  assume "\<forall>f \<in> set (future_ret_L df L). isnan f"
  then have "bt_kept df L z (nat w) = []" by (simp add: bt_kept_Nil_iff)
  then show "backtest_trend_signal df L z w = Inl IndexError"
    using assms by (rule backtest_empty[rotated])
next
  assume "\<not> (\<forall>f \<in> set (future_ret_L df L). isnan f)"
  then have ne: "bt_kept df L z (nat w) \<noteq> []" by (simp add: bt_kept_Nil_iff)
  obtain v where "sharpe_of (pd_mean (strategy_col (bt_kept df L z (nat w))))
                    (pd_std (strategy_col (bt_kept df L z (nat w)))) L = Inr v"
    using sharpe_never_divides_by_zero by blast
  from backtest_result[OF assms ne this]
  show "\<exists>rows m. backtest_trend_signal df L z w = Inr (rows, m)" by blast
qed

text \<open>
  C6. Two backtests of the same table at the same horizon, with any two thresholds and
  rolling windows, return the same dates, the same benchmark return column, the same
  benchmark equity column and the same total benchmark return; only the strategy side
  can differ. With windows that pandas accepts, the two runs also fail together, with
  the same error.
\<close>

theorem benchmark_invariant:
  "(\<forall>rows1 m1 rows2 m2.
       backtest_trend_signal df L z1 w1 = Inr (rows1, m1)
     \<and> backtest_trend_signal df L z2 w2 = Inr (rows2, m2) \<longrightarrow>
         map ds rows1 = map ds rows2
       \<and> map bh_ret rows1 = map bh_ret rows2
       \<and> map equity_bh rows1 = map equity_bh rows2
       \<and> total_return_bh m1 = total_return_bh m2
       \<and> lag_used m1 = lag_used m2)
   \<and> (0 \<le> w1 \<and> 0 \<le> w2 \<longrightarrow>
        (\<forall>e. backtest_trend_signal df L z1 w1 = Inl e
              \<longleftrightarrow> backtest_trend_signal df L z2 w2 = Inl e))"
proof (intro conjI allI impI)
  fix rows1 m1 rows2 m2
  assume a: "backtest_trend_signal df L z1 w1 = Inr (rows1, m1)
     \<and> backtest_trend_signal df L z2 w2 = Inr (rows2, m2)"
  note d1 = backtest_InrD[OF a[THEN conjunct1]] and d2 = backtest_InrD[OF a[THEN conjunct2]]
  have bh: "bh_col (bt_kept df L z1 (nat w1)) = bh_col (bt_kept df L z2 (nat w2))"
    by (simp add: bh_col_bt_kept)
  have r1: "rows1 = bt_rows (bt_kept df L z1 (nat w1))" using d1 by simp
  have r2: "rows2 = bt_rows (bt_kept df L z2 (nat w2))" using d2 by simp
  have ds_rows: "map ds (bt_rows kept) = map fst kept" for kept
    by (rule nth_equalityI) (simp_all add: bt_rows_nth)
  show "map ds rows1 = map ds rows2"
    unfolding r1 r2 ds_rows by (simp add: dates_bt_kept)
  show "map bh_ret rows1 = map bh_ret rows2"
    unfolding r1 r2 map_bh_ret_bt_rows by (rule bh)
  show "map equity_bh rows1 = map equity_bh rows2"
    unfolding r1 r2 map_equity_bh_bt_rows bh ..
  show "total_return_bh m1 = total_return_bh m2" using d1 d2 bh by simp
  show "lag_used m1 = lag_used m2" using d1 d2 by simp
next
  fix e
  assume w: "0 \<le> w1 \<and> 0 \<le> w2"
  note o1 = backtest_outcome[of w1 df L z1] and o2 = backtest_outcome[of w2 df L z2]
  show "backtest_trend_signal df L z1 w1 = Inl e \<longleftrightarrow> backtest_trend_signal df L z2 w2 = Inl e"
  proof (cases "\<forall>f \<in> set (future_ret_L df L). isnan f")
    case True
    then show ?thesis using o1 o2 w by simp
  next
    case False
    then obtain rows1 m1 rows2 m2 where
      "backtest_trend_signal df L z1 w1 = Inr (rows1, m1)"
      "backtest_trend_signal df L z2 w2 = Inr (rows2, m2)"
      using o1 o2 w by blast
    then show ?thesis by simp
  qed
qed

lemma signal_col_step_wide: "signal_col df_step (Fin 2) 5 = [0, 0, 0, 0, 0, 0]"
proof -
  have len: "length df_step = 6" by (simp add: df_step_def)
  have "signal_col df_step (Fin 2) 5 ! i = 0" if "i < 6" for i
  proof (cases "Suc i < 5")
    case True
    then show ?thesis using that len by (intro signal_zero_if_nan_z trend_z_incomplete) auto
  next
    case False
    then have "i = 4 \<or> i = 5" using that by auto
    then have "trend_slope df_step ! i = Fin 0" by (auto simp: trend_slope_step)
    then show ?thesis using that len by (simp add: signal_col_nth)
  qed
  moreover have "[0, 0, 0, 0, 0, 0::int] ! i = 0" if "i < 6" for i
    using that by (auto simp: nth_Cons' )
  ultimately show ?thesis
    by (intro nth_equalityI) (auto simp: len)
qed

lemma bt_kept_step_wide:
  "bt_kept df_step 1 (Fin 2) 5 =
     [(0, 0, Fin (1/10)), (1, 0, Fin (1/10)), (2, 0, Fin 0), (3, 0, Fin 0), (4, 0, Fin 0)]"
  unfolding bt_kept_def signal_col_step_wide future_ret_step by (simp add: df_step_def)

theorem benchmark_invariant_witness:
  "\<exists>rows1 m1 rows2 m2.
       backtest_trend_signal df_step 1 (Fin (1/2)) 3 = Inr (rows1, m1)
     \<and> backtest_trend_signal df_step 1 (Fin 2) 5 = Inr (rows2, m2)
     \<and> (0::int) \<le> 3 \<and> (0::int) \<le> 5
     \<and> map signal rows1 = [0, 0, 1, 0, 0]
     \<and> map signal rows2 = [0, 0, 0, 0, 0]
     \<and> map bh_ret rows1 = map bh_ret rows2
     \<and> map equity_bh rows1 = map equity_bh rows2
     \<and> total_return_bh m1 = total_return_bh m2"
proof -
  obtain rows1 m1 where b1: "backtest_trend_signal df_step 1 (Fin (1/2)) 3 = Inr (rows1, m1)"
    using backtest_step_runs by blast
  have "\<not> (\<forall>f \<in> set (future_ret_L df_step 1). isnan f)" by (simp add: future_ret_step)
  then obtain rows2 m2 where b2: "backtest_trend_signal df_step 1 (Fin 2) 5 = Inr (rows2, m2)"
    using backtest_outcome[of 5 df_step 1 "Fin 2"] by auto
  note t = benchmark_invariant[of df_step 1 "Fin (1/2)" 3 "Fin 2" 5, THEN conjunct1, rule_format,
      OF conjI, OF b1 b2]
  have sig: "map signal (bt_rows kept) = map (\<lambda>(d, s, f). s) kept" for kept
    by (rule nth_equalityI) (simp_all add: bt_rows_nth case_prod_unfold)
  have s1: "map signal rows1 = [0, 0, 1, 0, 0]"
    using backtest_InrD[OF b1] by (simp add: sig bt_kept_step)
  have s2: "map signal rows2 = [0, 0, 0, 0, 0]"
    using backtest_InrD[OF b2] by (simp add: sig bt_kept_step_wide)
  have w1: "(0::int) \<le> 3" and w2: "(0::int) \<le> 5" by simp_all
  show ?thesis
    by (rule exI[of _ rows1], rule exI[of _ m1], rule exI[of _ rows2], rule exI[of _ m2])
       (intro conjI b1 b2 w1 w2 s1 s2 t[THEN conjunct2, THEN conjunct1]
          t[THEN conjunct2, THEN conjunct2, THEN conjunct1]
          t[THEN conjunct2, THEN conjunct2, THEN conjunct2, THEN conjunct1])
qed

section \<open>The naive forecast without valid rows\<close>

lemma length_realized_vol_next_col [simp]:
  "length (realized_vol_next_col df h) = length df"
  by (simp add: realized_vol_next_col_def)

lemma naive_valid_set:
  "set (naive_valid df h) =
     {(ds (df ! i), realized_vol_next_col df h ! i, vol_long_ann (df ! i)) | i.
        i < length df \<and> \<not> isnan (realized_vol_next_col df h ! i)
        \<and> \<not> isnan (vol_long_ann (df ! i))}"
  unfolding naive_valid_def
  by (subst zip3_nth) auto

text \<open>
  C10. When no row has both a defined realized target and a defined long-window
  forecast, the naive evaluation raises nothing: it returns the empty table of
  predictions and a metrics record whose mean absolute error and root-mean-squared error
  are both not-a-number.
\<close>

theorem naive_no_valid_rows:
  assumes "\<forall>i < length df. isnan (realized_vol_next_col df horizon ! i)
                          \<or> isnan (vol_long_ann (df ! i))"
  shows "naive_vol_forecast df horizon = Inr ([], \<lparr>MAE = NaN, RMSE = NaN\<rparr>)"
proof -
  have "set (naive_valid df horizon) = {}"
    unfolding naive_valid_set using assms by auto
  then have "naive_valid df horizon = []" by simp
  then show ?thesis by (simp add: naive_vol_forecast_def)
qed

theorem naive_no_valid_rows_witness:
  "realized_vol_next_col feat2 1 = [Fin 0, NaN]
   \<and> map vol_long_ann feat2 = [Fin 0, NaN]
   \<and> realized_vol_next_col feat2 2 = [NaN, NaN]
   \<and> naive_vol_forecast feat2 2 = Inr ([], \<lparr>MAE = NaN, RMSE = NaN\<rparr>)
   \<and> naive_vol_forecast feat2 1 = Inr ([(1, Fin 0, Fin 0)], \<lparr>MAE = Fin 0, RMSE = Fin 0\<rparr>)"
proof -
  have c1: "realized_vol_next_col feat2 1 = [Fin 0, NaN]"
    by (simp add: realized_vol_next_col_def pd_shift_def feat2_def)
  have c2: "realized_vol_next_col feat2 2 = [NaN, NaN]"
    by (simp add: realized_vol_next_col_def pd_shift_def feat2_def)
  have v: "map vol_long_ann feat2 = [Fin 0, NaN]" by (simp add: feat2_def)
  have len: "length feat2 = 2" by (simp add: feat2_def)
  have "\<forall>i < length feat2. isnan (realized_vol_next_col feat2 2 ! i) \<or> isnan (vol_long_ann (feat2 ! i))"
    unfolding c2 len by (auto simp: less_Suc_eq numeral_2_eq_2)
  from naive_no_valid_rows[OF this]
  have r2: "naive_vol_forecast feat2 2 = Inr ([], \<lparr>MAE = NaN, RMSE = NaN\<rparr>)" .
  have nv: "naive_valid feat2 1 = [(1, Fin 0, Fin 0)]"
    unfolding naive_valid_def c1 by (simp add: feat2_def)
  have r1: "naive_vol_forecast feat2 1 = Inr ([(1, Fin 0, Fin 0)], \<lparr>MAE = Fin 0, RMSE = Fin 0\<rparr>)"
    unfolding naive_vol_forecast_def nv
    by (simp add: error_metrics_def mean_absolute_error_def mean_squared_error_def sk_accepts_def
        fmean_def fsum_def fsub_def)
  show ?thesis using c1 c2 v r1 r2 by simp
qed

section \<open>Properties of the volatility features\<close>

lemma length_log_returns [simp]: "length (log_returns ys) = length ys"
  by (simp add: log_returns_def)

lemma log_returns_nth:
  "t < length ys \<Longrightarrow>
   log_returns ys ! t = fillna_zero (flog (fdiv (ys ! t) (pd_shift 1 ys ! t)))"
  by (simp add: log_returns_def)

lemma log_returns_first: "0 < length ys \<Longrightarrow> log_returns ys ! 0 = Fin 0"
  by (simp add: log_returns_nth pd_shift_nth_down fillna_zero_def)

lemma log_returns_later:
  assumes "0 < t" "t < length ys" "ys ! t = Fin a" "ys ! (t - 1) = Fin b" "0 < a" "0 < b"
  shows "log_returns ys ! t = Fin (ln (a / b))"
proof -
  have "pd_shift 1 ys ! t = Fin b" using assms(1,2,4) by (simp add: pd_shift_nth_down)
  then have "fdiv (ys ! t) (pd_shift 1 ys ! t) = Fin (a / b)" using assms(3,6) by simp
  moreover have pos: "0 < a / b" using assms(5,6) by simp
  then have "\<not> a / b < 0" and "\<not> a / b = 0" by linarith+
  then have "flog (Fin (a / b)) = Fin (ln (a / b))" by (simp only: flog.simps if_False)
  ultimately show ?thesis using assms(2) by (simp only: log_returns_nth fillna_zero_def isnan.simps if_False)
qed

lemma log_returns_finite:
  assumes "\<forall>x \<in> set ys. \<exists>a. x = Fin a \<and> 0 < a" "t < length ys"
  shows "is_finite (log_returns ys ! t)"
proof (cases t)
  case 0
  then show ?thesis using assms(2) by (simp add: log_returns_first)
next
  case (Suc t')
  obtain a where a: "ys ! t = Fin a" "0 < a" using assms by (metis nth_mem)
  obtain b where b: "ys ! (t - 1) = Fin b" "0 < b"
    using assms Suc by (metis diff_Suc_1 Suc_lessD nth_mem)
  show ?thesis using log_returns_later[OF _ assms(2) a(1) b(1) a(2) b(2)] Suc by simp
qed

lemma is_finite_iff: "is_finite x \<longleftrightarrow> (\<exists>a. x = Fin a)"
  by (cases x) auto

lemma is_finite_not_nan: "is_finite x \<Longrightarrow> \<not> isnan x"
  by (cases x) auto

lemma foldl_fadd_finite:
  "\<forall>x \<in> set xs. is_finite x \<Longrightarrow> is_finite (foldl fadd (Fin a) xs)"
proof (induction xs arbitrary: a)
  case Nil
  then show ?case by simp
next
  case (Cons x xs)
  then obtain b where "x = Fin b" by (auto simp: is_finite_iff)
  then show ?case using Cons by simp
qed

lemma fmean_finite:
  assumes "\<forall>x \<in> set xs. is_finite x" "xs \<noteq> []"
  shows "is_finite (fmean xs)"
proof -
  obtain s where "fsum xs = Fin s"
    using foldl_fadd_finite[OF assms(1), of 0] by (auto simp: fsum_def is_finite_iff)
  then show ?thesis using assms(2) by (simp add: fmean_def)
qed

lemma foldl_fadd_nonneg:
  "\<forall>x \<in> set xs. \<exists>c\<ge>0. x = Fin c \<Longrightarrow> 0 \<le> a \<Longrightarrow> \<exists>s\<ge>0. foldl fadd (Fin a) xs = Fin s"
proof (induction xs arbitrary: a)
  case Nil
  then show ?case by simp
next
  case (Cons x xs)
  then obtain c where c: "x = Fin c" "0 \<le> c" by auto
  have "\<exists>s\<ge>0. foldl fadd (Fin (a + c)) xs = Fin s"
    using Cons.prems c by (intro Cons.IH) auto
  then show ?case using c by simp
qed

lemma fstd_finite:
  assumes "\<forall>x \<in> set xs. is_finite x" "1 < length xs"
  shows "is_finite (fstd xs)"
proof -
  have ne: "xs \<noteq> []" using assms(2) by auto
  obtain m where m: "fmean xs = Fin m"
    using fmean_finite[OF assms(1) ne] by (auto simp: is_finite_iff)
  define sq where "sq = map (\<lambda>x. fmul (fsub x (Fin m)) (fsub x (Fin m))) xs"
  have "\<forall>q \<in> set sq. \<exists>c\<ge>0. q = Fin c"
  proof
    fix q assume "q \<in> set sq"
    then obtain x where x: "x \<in> set xs" "q = fmul (fsub x (Fin m)) (fsub x (Fin m))"
      unfolding sq_def by auto
    then obtain a where "x = Fin a" using assms(1) by (auto simp: is_finite_iff)
    then have "q = Fin ((a - m) * (a - m))" using x(2) by (simp add: fsub_def)
    then show "\<exists>c\<ge>0. q = Fin c" by simp
  qed
  then obtain s where s: "0 \<le> s" "foldl fadd (Fin 0) sq = Fin s"
    using foldl_fadd_nonneg[of sq 0] by auto
  have "fstd xs = fsqrt (fdiv (Fin s) (Fin (real (length xs) - 1)))"
    using s(2) by (simp add: fstd_def m sq_def fsum_def)
  moreover have "0 < real (length xs) - 1" using assms(2) by simp
  ultimately show ?thesis using s(1) by (auto simp: not_less)
qed

lemma rolling_window_set: "set (rolling_window w xs i) \<subseteq> set xs"
  unfolding rolling_window_def by (meson set_drop_subset set_take_subset subset_trans)

lemma rolling_std_finite_iff:
  assumes "\<forall>x \<in> set xs. is_finite x" "2 \<le> w" "i < length xs"
  shows "isnan (rolling_std w xs ! i) \<longleftrightarrow> Suc i < w"
proof (cases "Suc i < w")
  case True
  then show ?thesis using assms(3) by (simp add: rolling_incomplete_std)
next
  case False
  let ?win = "rolling_window w xs i"
  have fin: "\<forall>x \<in> set ?win. is_finite x" using assms(1) rolling_window_set by blast
  then have "observed ?win = ?win"
    unfolding observed_def by (intro filter_True) (auto simp: is_finite_not_nan)
  moreover have "length ?win = w" using False assms(3) by (simp add: length_rolling_window)
  ultimately have "rolling_std w xs ! i = fstd ?win"
    using assms(2,3) by (simp add: rolling_std_nth)
  moreover have "is_finite (fstd ?win)"
    using fin \<open>length ?win = w\<close> assms(2) by (intro fstd_finite) auto
  ultimately show ?thesis using False by (simp add: is_finite_not_nan)
qed

lemma filter_suffix:
  "\<forall>i < length xs. P (xs ! i) \<longleftrightarrow> k \<le> i \<Longrightarrow> filter P xs = drop k xs"
proof (induction xs arbitrary: k)
  case Nil
  then show ?case by simp
next
  case (Cons x xs)
  show ?case
  proof (cases k)
    case 0
    have "P z" if "z \<in> set (x # xs)" for z
    proof -
      from that obtain i where "i < length (x # xs)" "(x # xs) ! i = z"
        by (metis in_set_conv_nth)
      then show ?thesis using Cons.prems 0 by auto
    qed
    then show ?thesis using 0 by simp
  next
    case (Suc k')
    have "\<not> P x" using Cons.prems[rule_format, of 0] Suc by simp
    moreover have "\<forall>i < length xs. P (xs ! i) \<longleftrightarrow> k' \<le> i"
      using Cons.prems Suc by fastforce
    ultimately show ?thesis using Cons.IH Suc by simp
  qed
qed

lemma length_vol_rows [simp]: "length (vol_rows df ws wl) = length df"
  by (simp add: vol_rows_def Let_def)

lemma vol_rows_nth:
  "i < length df \<Longrightarrow>
   vol_rows df ws wl ! i =
     \<lparr>ds = ds (df ! i), y = y (df ! i), ret = log_returns (map y df) ! i,
      vol_short = rolling_std ws (log_returns (map y df)) ! i,
      vol_long = rolling_std wl (log_returns (map y df)) ! i,
      vol_short_ann = fmul (rolling_std ws (log_returns (map y df)) ! i) ann_factor,
      vol_long_ann = fmul (rolling_std wl (log_returns (map y df)) ! i) ann_factor\<rparr>"
  by (simp add: vol_rows_def Let_def)

lemma isnan_fmul_ann [simp]: "isnan (fmul x ann_factor) \<longleftrightarrow> isnan x"
  by (cases x) (auto simp: ann_factor_def inf_of_sign_def)

lemma vol_row_has_nan_iff:
  assumes "\<forall>r \<in> set df. \<exists>a. y r = Fin a \<and> 0 < a" "2 \<le> ws" "2 \<le> wl" "i < length df"
  shows "\<not> vol_row_has_nan (vol_rows df ws wl ! i) \<longleftrightarrow> max ws wl - 1 \<le> i"
proof -
  let ?rets = "log_returns (map y df)"
  have ys: "\<forall>x \<in> set (map y df). \<exists>a. x = Fin a \<and> 0 < a" using assms(1) by auto
  have fin: "\<forall>x \<in> set ?rets. is_finite x"
  proof
    fix x assume "x \<in> set ?rets"
    then obtain t where "t < length ?rets" "?rets ! t = x" by (metis in_set_conv_nth)
    then show "is_finite x" using log_returns_finite[OF ys, of t] by auto
  qed
  have i: "i < length ?rets" using assms(4) by simp
  have s: "isnan (rolling_std ws ?rets ! i) \<longleftrightarrow> Suc i < ws"
    using fin assms(2) i by (rule rolling_std_finite_iff)
  have l: "isnan (rolling_std wl ?rets ! i) \<longleftrightarrow> Suc i < wl"
    using fin assms(3) i by (rule rolling_std_finite_iff)
  have r: "\<not> isnan (?rets ! i)" using fin i is_finite_not_nan by (metis nth_mem)
  obtain a where "y (df ! i) = Fin a" using assms(1,4) by (metis nth_mem)
  then have yy: "\<not> isnan (y (df ! i))" by simp
  show ?thesis
    using s l r yy assms(4) by (auto simp: vol_row_has_nan_def vol_rows_nth)
qed

lemma rolling_std_one:
  "i < length xs \<Longrightarrow> rolling_std 1 xs ! i = NaN"
  using length_observed_le[of "rolling_window 1 xs i"]
  by (simp add: rolling_std_nth length_rolling_window Let_def)

lemma vol_rows_window_one:
  assumes "ws = 1 \<or> wl = 1"
  shows "filter (\<lambda>r. \<not> vol_row_has_nan r) (vol_rows df ws wl) = []"
proof -
  have "vol_row_has_nan r" if "r \<in> set (vol_rows df ws wl)" for r
  proof -
    from that obtain i where i: "i < length df" "vol_rows df ws wl ! i = r"
      by (metis in_set_conv_nth length_vol_rows)
    have "isnan (vol_short r) \<or> isnan (vol_long r)"
      using assms i rolling_std_one[of i "log_returns (map y df)"]
      by (auto simp: vol_rows_nth)
    then show ?thesis by (auto simp: vol_row_has_nan_def)
  qed
  then show ?thesis by (simp add: filter_empty_conv)
qed

lemma features_window_one:
  assumes "0 \<le> window_short" "0 \<le> window_long" "window_short = 1 \<or> window_long = 1"
  shows "compute_volatility_features df window_short window_long = Inr []"
proof -
  have "nat window_short = 1 \<or> nat window_long = 1" using assms(3) by auto
  then show ?thesis
    using assms(1,2) vol_rows_window_one by (simp add: compute_volatility_features_def)
qed

text \<open>
  The output for two windows of at least 2 rows.
\<close>

lemma features_full_windows:
  assumes "\<forall>r \<in> set df. \<exists>a. y r = Fin a \<and> 0 < a"
    and "2 \<le> window_short" and "2 \<le> window_long"
  shows "\<exists>out. compute_volatility_features df window_short window_long = Inr out
     \<and> out = drop (nat (max window_short window_long) - 1)
                (vol_rows df (nat window_short) (nat window_long))
     \<and> int (length out) = max 0 (int (length df) - (max window_short window_long - 1))
     \<and> (\<forall>j < length out.
           ds (out ! j) = ds (df ! (j + (nat (max window_short window_long) - 1)))
         \<and> ret (out ! j) = log_returns (map y df) ! (j + (nat (max window_short window_long) - 1)))
     \<and> (0 < length df \<longrightarrow> log_returns (map y df) ! 0 = Fin 0)
     \<and> (\<forall>t a b. 0 < t \<and> t < length df \<and> y (df ! t) = Fin a \<and> y (df ! (t - 1)) = Fin b
           \<longrightarrow> log_returns (map y df) ! t = Fin (ln (a / b)))"
proof -
  define ws where "ws = nat window_short"
  define wl where "wl = nat window_long"
  define k where "k = max ws wl - 1"
  have w: "2 \<le> ws" "2 \<le> wl" using assms(2,3) by (simp_all add: ws_def wl_def)
  have kk: "nat (max window_short window_long) - 1 = k"
    using assms(2,3) by (simp add: k_def ws_def wl_def max_def)
  let ?rows = "vol_rows df ws wl"
  have "\<forall>i < length ?rows. \<not> vol_row_has_nan (?rows ! i) \<longleftrightarrow> k \<le> i"
    using vol_row_has_nan_iff[OF assms(1) w] by (simp add: k_def)
  then have f: "filter (\<lambda>r. \<not> vol_row_has_nan r) ?rows = drop k ?rows"
    by (rule filter_suffix)
  have res: "compute_volatility_features df window_short window_long = Inr (drop k ?rows)"
    using assms(2,3) f by (simp add: compute_volatility_features_def ws_def wl_def)
  have ik: "int k = max window_short window_long - 1"
    using assms(2,3) unfolding k_def ws_def wl_def by linarith
  have "length (drop k ?rows) = length df - k" by simp
  then have len: "int (length (drop k ?rows)) = max 0 (int (length df) - (max window_short window_long - 1))"
    unfolding ik[symmetric] by linarith
  have nth: "ds (drop k ?rows ! j) = ds (df ! (j + k))
           \<and> ret (drop k ?rows ! j) = log_returns (map y df) ! (j + k)"
    if "j < length (drop k ?rows)" for j
  proof -
    have "j + k < length df" using that by simp
    then show ?thesis by (simp add: vol_rows_nth add.commute)
  qed
  have first: "0 < length df \<longrightarrow> log_returns (map y df) ! 0 = Fin 0"
    by (simp add: log_returns_first)
  have later: "log_returns (map y df) ! t = Fin (ln (a / b))"
    if "0 < t \<and> t < length df \<and> y (df ! t) = Fin a \<and> y (df ! (t - 1)) = Fin b" for t a b
  proof -
    have "0 < a" using that assms(1) by (metis flt.inject nth_mem)
    moreover have "0 < b" using that assms(1)
      by (metis flt.inject nth_mem less_imp_diff_less)
    ultimately show ?thesis using that by (intro log_returns_later) auto
  qed
  show ?thesis
    unfolding kk
    by (rule exI[of _ "drop k ?rows"])
       (use res len nth first later in \<open>simp add: ws_def[symmetric] wl_def[symmetric]\<close>)
qed

text \<open>
  C7 (as the code has it). For a table of finite positive prices and two windows of at
  least 2 rows, the features are computed without error and the output is the table
  without its first \<open>max window_short window_long - 1\<close> rows, so its length is the input
  length minus that number, or 0 when the table is shorter. Each output row carries the
  date and the log return of the row it comes from; the log return of the first input row
  is 0, and that of row \<open>t > 0\<close> is the logarithm of the ratio of the prices at \<open>t\<close> and
  \<open>t - 1\<close>. When one of the two windows is 1 (and the other is not negative), the sample
  standard deviation over that window is undefined on every row, and the output is empty
  for every input table.
\<close>

theorem computeFeatures_rows:
  "((\<forall>r \<in> set df. \<exists>a. y r = Fin a \<and> 0 < a) \<and> 2 \<le> window_short \<and> 2 \<le> window_long \<longrightarrow>
      (\<exists>out. compute_volatility_features df window_short window_long = Inr out
         \<and> out = drop (nat (max window_short window_long) - 1)
                    (vol_rows df (nat window_short) (nat window_long))
         \<and> int (length out) = max 0 (int (length df) - (max window_short window_long - 1))
         \<and> (\<forall>j < length out.
               ds (out ! j) = ds (df ! (j + (nat (max window_short window_long) - 1)))
             \<and> ret (out ! j) =
                 log_returns (map y df) ! (j + (nat (max window_short window_long) - 1)))
         \<and> (0 < length df \<longrightarrow> log_returns (map y df) ! 0 = Fin 0)
         \<and> (\<forall>t a b. 0 < t \<and> t < length df \<and> y (df ! t) = Fin a \<and> y (df ! (t - 1)) = Fin b
               \<longrightarrow> log_returns (map y df) ! t = Fin (ln (a / b)))))
   \<and> (0 \<le> window_short \<and> 0 \<le> window_long \<and> (window_short = 1 \<or> window_long = 1) \<longrightarrow>
        compute_volatility_features df window_short window_long = Inr [])"
proof (rule conjI)
  show "(\<forall>r \<in> set df. \<exists>a. y r = Fin a \<and> 0 < a) \<and> 2 \<le> window_short \<and> 2 \<le> window_long \<longrightarrow>
      (\<exists>out. compute_volatility_features df window_short window_long = Inr out
         \<and> out = drop (nat (max window_short window_long) - 1)
                    (vol_rows df (nat window_short) (nat window_long))
         \<and> int (length out) = max 0 (int (length df) - (max window_short window_long - 1))
         \<and> (\<forall>j < length out.
               ds (out ! j) = ds (df ! (j + (nat (max window_short window_long) - 1)))
             \<and> ret (out ! j) =
                 log_returns (map y df) ! (j + (nat (max window_short window_long) - 1)))
         \<and> (0 < length df \<longrightarrow> log_returns (map y df) ! 0 = Fin 0)
         \<and> (\<forall>t a b. 0 < t \<and> t < length df \<and> y (df ! t) = Fin a \<and> y (df ! (t - 1)) = Fin b
               \<longrightarrow> log_returns (map y df) ! t = Fin (ln (a / b))))"
  proof
    assume h: "(\<forall>r \<in> set df. \<exists>a. y r = Fin a \<and> 0 < a) \<and> 2 \<le> window_short \<and> 2 \<le> window_long"
    show "\<exists>out. compute_volatility_features df window_short window_long = Inr out
         \<and> out = drop (nat (max window_short window_long) - 1)
                    (vol_rows df (nat window_short) (nat window_long))
         \<and> int (length out) = max 0 (int (length df) - (max window_short window_long - 1))
         \<and> (\<forall>j < length out.
               ds (out ! j) = ds (df ! (j + (nat (max window_short window_long) - 1)))
             \<and> ret (out ! j) =
                 log_returns (map y df) ! (j + (nat (max window_short window_long) - 1)))
         \<and> (0 < length df \<longrightarrow> log_returns (map y df) ! 0 = Fin 0)
         \<and> (\<forall>t a b. 0 < t \<and> t < length df \<and> y (df ! t) = Fin a \<and> y (df ! (t - 1)) = Fin b
               \<longrightarrow> log_returns (map y df) ! t = Fin (ln (a / b)))"
      by (rule features_full_windows) (use h in simp_all)
  qed
next
  show "0 \<le> window_short \<and> 0 \<le> window_long \<and> (window_short = 1 \<or> window_long = 1) \<longrightarrow>
        compute_volatility_features df window_short window_long = Inr []"
    using features_window_one by blast
qed

text \<open>
  C7 (as stated) fails for a window of one row: the sample standard deviation of a single
  observation is undefined, so every row is dropped. Three flat prices with windows 1 and
  2 give an empty output, where the claimed length is 2.
\<close>

theorem computeFeatures_length_counterexample:
  "compute_volatility_features flat3 1 2 = Inr []
   \<and> int (length flat3) - (max (1::int) 2 - 1) = 2"
proof -
  have lr: "log_returns (map y flat3) = [Fin 0, Fin 0, Fin 0]"
    by (simp add: log_returns_def pd_shift_def flat3_def fillna_zero_def)
  have u: "[0..<3] = [0, 1, 2]" by (simp add: upt_rec)
  have s1: "rolling_std 1 [Fin 0, Fin 0, Fin 0] = [NaN, NaN, NaN]"
    by (simp add: rolling_std_def rolling_window_def observed_def u)
  have "filter (\<lambda>r. \<not> vol_row_has_nan r) (vol_rows flat3 1 2) = []"
    unfolding vol_rows_def Let_def lr s1
    by (simp add: flat3_def vol_row_has_nan_def rolling_std_def)
  then show ?thesis by (simp add: compute_volatility_features_def flat3_def)
qed

theorem computeFeatures_rows_witness:
  "list_all (\<lambda>r. \<exists>a. y r = Fin a \<and> 0 < a) flat3 \<and> (2::int) \<le> 2
   \<and> compute_volatility_features flat3 2 2 =
       Inr [\<lparr>ds = 1, y = Fin 100, ret = Fin 0, vol_short = Fin 0, vol_long = Fin 0,
             vol_short_ann = Fin 0, vol_long_ann = Fin 0\<rparr>,
            \<lparr>ds = 2, y = Fin 100, ret = Fin 0, vol_short = Fin 0, vol_long = Fin 0,
             vol_short_ann = Fin 0, vol_long_ann = Fin 0\<rparr>]
   \<and> int (length flat3) - (max (2::int) 2 - 1) = 2
   \<and> compute_volatility_features flat3 2 1 = Inr []"
proof -
  have a: "\<forall>r \<in> set flat3. \<exists>a. y r = Fin a \<and> 0 < a" by (simp add: flat3_def)
  have b: "(2::int) \<le> 2" by simp
  obtain out where out: "compute_volatility_features flat3 2 2 = Inr out"
    "out = drop (nat (max 2 2) - 1) (vol_rows flat3 (nat 2) (nat 2))"
    using computeFeatures_rows[of flat3 2 2, THEN conjunct1, rule_format, OF conjI[OF a conjI[OF b b]]]
    by blast
  have one: "compute_volatility_features flat3 2 1 = Inr []"
    using computeFeatures_rows[of flat3 2 1, THEN conjunct2] by simp
  have lr: "log_returns (map y flat3) = [Fin 0, Fin 0, Fin 0]"
    by (simp add: log_returns_def pd_shift_def flat3_def fillna_zero_def)
  have u: "[0..<3] = [0, 1, 2]" by (simp add: upt_rec)
  have s2: "rolling_std 2 [Fin 0, Fin 0, Fin 0] = [NaN, Fin 0, Fin 0]"
    by (simp add: rolling_std_def rolling_window_def observed_def u fstd_def fmean_def fsum_def fsub_def)
  have n2: "nat 2 = 2" by simp
  have "vol_rows flat3 2 2 =
      [\<lparr>ds = 0, y = Fin 100, ret = Fin 0, vol_short = NaN, vol_long = NaN,
             vol_short_ann = NaN, vol_long_ann = NaN\<rparr>,
       \<lparr>ds = 1, y = Fin 100, ret = Fin 0, vol_short = Fin 0, vol_long = Fin 0,
             vol_short_ann = Fin 0, vol_long_ann = Fin 0\<rparr>,
       \<lparr>ds = 2, y = Fin 100, ret = Fin 0, vol_short = Fin 0, vol_long = Fin 0,
             vol_short_ann = Fin 0, vol_long_ann = Fin 0\<rparr>]"
    unfolding vol_rows_def Let_def lr s2 by (simp add: flat3_def ann_factor_def)
  then have "out = [\<lparr>ds = 1, y = Fin 100, ret = Fin 0, vol_short = Fin 0, vol_long = Fin 0,
             vol_short_ann = Fin 0, vol_long_ann = Fin 0\<rparr>,
            \<lparr>ds = 2, y = Fin 100, ret = Fin 0, vol_short = Fin 0, vol_long = Fin 0,
             vol_short_ann = Fin 0, vol_long_ann = Fin 0\<rparr>]"
    using out(2) by (simp add: n2)
  then show ?thesis using out(1) a b one by (simp add: list_all_iff flat3_def)
qed

section \<open>Properties of the learned forecast\<close>

lemma length_xgb_rows [simp]: "length (xgb_rows df h) = length df"
  by (simp add: xgb_rows_def)

lemma xgb_rows_nth:
  "i < length df \<Longrightarrow>
   xgb_rows df h ! i =
     \<lparr>ds = ds (df ! i), y = y (df ! i), ret = ret (df ! i), vol_short = vol_short (df ! i),
      vol_long = vol_long (df ! i), vol_short_ann = vol_short_ann (df ! i),
      vol_long_ann = vol_long_ann (df ! i),
      realized_vol_next = realized_vol_next_col df h ! i,
      lag_ret = pd_shift 1 (map ret df) ! i,
      lag2_ret = pd_shift 2 (map ret df) ! i,
      lag_vol_short = pd_shift 1 (map vol_short_ann df) ! i,
      lag_vol_long = pd_shift 1 (map vol_long_ann df) ! i\<rparr>"
  by (simp add: xgb_rows_def)

lemma xgb_frame_mem:
  assumes "(t, r) \<in> set (xgb_frame df h)"
  shows "t < length df \<and> r = xgb_rows df h ! t \<and> \<not> xgb_row_has_nan r"
proof -
  from assms have m: "(t, r) \<in> set (zip [0..<length df] (xgb_rows df h))" and n: "\<not> xgb_row_has_nan r"
    by (auto simp: xgb_frame_def)
  from m obtain i where i: "i < length df" "[0..<length df] ! i = t" "xgb_rows df h ! i = r"
    by (auto simp: in_set_zip)
  then show ?thesis using n by simp
qed

lemma xgb_frame_sorted: "sorted_wrt (<) (map fst (xgb_frame df h))"
proof -
  have "map fst (zip [0..<length df] (xgb_rows df h)) = [0..<length df]" by simp
  then have "sorted_wrt (<) (map fst (zip [0..<length df] (xgb_rows df h)))" by simp
  then have "sorted_wrt (\<lambda>a b. fst a < fst b) (zip [0..<length df] (xgb_rows df h))"
    by (simp only: sorted_wrt_map)
  then have "sorted_wrt (\<lambda>a b. fst a < fst b) (xgb_frame df h)"
    unfolding xgb_frame_def by (rule sorted_wrt_filter)
  then show ?thesis by (simp only: sorted_wrt_map)
qed

lemma shift_down_defined:
  assumes "0 \<le> k" "t < length xs" "\<not> isnan (pd_shift k xs ! t)"
  shows "nat k \<le> t \<and> pd_shift k xs ! t = xs ! (t - nat k)"
  using assms by (auto simp: pd_shift_nth_down split: if_splits)

lemma shift_up_defined:
  assumes "0 \<le> k" "t < length xs" "\<not> isnan (pd_shift (- k) xs ! t)"
  shows "t + nat k < length xs \<and> pd_shift (- k) xs ! t = xs ! (t + nat k)"
  using assms by (auto simp: pd_shift_nth_up split: if_splits)

lemma xgb_frame_features:
  assumes "(t, r) \<in> set (xgb_frame df h)"
  shows "2 \<le> t \<and> t < length df \<and> ds r = ds (df ! t)
       \<and> lag_ret r = ret (df ! (t - 1)) \<and> lag2_ret r = ret (df ! (t - 2))
       \<and> lag_vol_short r = vol_short_ann (df ! (t - 1))
       \<and> lag_vol_long r = vol_long_ann (df ! (t - 1))
       \<and> (0 \<le> h \<longrightarrow> t + nat h < length df
                    \<and> realized_vol_next r = fabs (ret (df ! (t + nat h))))"
proof -
  from xgb_frame_mem[OF assms] have t: "t < length df" and r: "r = xgb_rows df h ! t"
    and n: "\<not> xgb_row_has_nan r" by blast+
  note rn = xgb_rows_nth[OF t, of h]
  have n2: "\<not> isnan (pd_shift 2 (map ret df) ! t)"
    and n1: "\<not> isnan (pd_shift 1 (map ret df) ! t)"
    and ns: "\<not> isnan (pd_shift 1 (map vol_short_ann df) ! t)"
    and nl: "\<not> isnan (pd_shift 1 (map vol_long_ann df) ! t)"
    and nt: "\<not> isnan (realized_vol_next_col df h ! t)"
    using n unfolding r rn xgb_row_has_nan_def by simp_all
  have a2: "2 \<le> t \<and> pd_shift 2 (map ret df) ! t = map ret df ! (t - 2)"
    using shift_down_defined[of 2 t "map ret df"] t n2 by simp
  have a1: "pd_shift 1 (map ret df) ! t = map ret df ! (t - 1)"
    using shift_down_defined[of 1 t "map ret df"] t n1 by simp
  have as: "pd_shift 1 (map vol_short_ann df) ! t = map vol_short_ann df ! (t - 1)"
    using shift_down_defined[of 1 t "map vol_short_ann df"] t ns by simp
  have al: "pd_shift 1 (map vol_long_ann df) ! t = map vol_long_ann df ! (t - 1)"
    using shift_down_defined[of 1 t "map vol_long_ann df"] t nl by simp
  have tgt: "t + nat h < length df
             \<and> realized_vol_next_col df h ! t = fabs (ret (df ! (t + nat h)))"
    if "0 \<le> h"
  proof -
    have "t + nat h < length (map (\<lambda>r. fabs (ret r)) df)
        \<and> pd_shift (- h) (map (\<lambda>r. fabs (ret r)) df) ! t = map (\<lambda>r. fabs (ret r)) df ! (t + nat h)"
      using that t nt unfolding realized_vol_next_col_def by (intro shift_up_defined) auto
    then show ?thesis by (simp add: realized_vol_next_col_def)
  qed
  have t1: "t - 1 < length df" and t2: "t - 2 < length df" using t by simp_all
  show ?thesis
    unfolding r rn using a2 a1 as al t t1 t2 tgt by simp
qed

lemma error_metrics_InrD:
  "error_metrics a b = Inr m \<Longrightarrow> length a = length b \<and> a \<noteq> []"
  by (auto simp: error_metrics_def mean_absolute_error_def sk_accepts_def split: if_splits sum.splits)

lemma py_slice_index:
  "py_slice xs None (Some s) = take (py_index (length xs) s) xs"
  "py_slice xs (Some s) None = drop (py_index (length xs) s) xs"
  by (simp_all add: py_slice_def)

lemma with_forecast_fields [simp]:
  "forecast_vol_xgb (with_forecast r p) = p" "ds (with_forecast r p) = ds r"
  "realized_vol_next (with_forecast r p) = realized_vol_next r"
  by (simp_all add: with_forecast_def)

text \<open>
  Rounding to binary64. A number of magnitude between \<open>2 powi k\<close> and \<open>2 powi (k + 1)\<close>,
  in the normal range, is rounded to a multiple of \<open>2 powi (k - 52)\<close>, and is left as it
  is when it is such a multiple already.
\<close>

lemma floor_log2:
  assumes "2 powi k \<le> x" "x < 2 powi (k + 1)"
  shows "\<lfloor>log 2 x\<rfloor> = k"
proof -
  have "(0::real) < 2 powi k" by simp
  then have pos: "0 < x" using assms(1) by linarith
  have a: "(2::real) powr real_of_int k = 2 powi k" by (rule powr_real_of_int') auto
  have b: "(2::real) powr real_of_int (k + 1) = 2 powi (k + 1)" by (rule powr_real_of_int') auto
  have "(\<lfloor>log 2 x\<rfloor> = k) = (2 powr real_of_int k \<le> x \<and> x < 2 powr real_of_int (k + 1))"
    by (rule floor_log_eq_powr_iff[OF pos]) simp
  then show ?thesis unfolding a b using assms by blast
qed

lemma ulp_exponent_normal:
  assumes "2 powi k \<le> \<bar>x\<bar>" "\<bar>x\<bar> < 2 powi (k + 1)" "- 1022 \<le> k"
  shows "ulp_exponent x = k - 52"
  using floor_log2[OF assms(1,2)] assms(3) by (simp add: ulp_exponent_def)

lemma round_half_even_int [simp]: "round_half_even (of_int m) = m"
  by (simp add: round_half_even_def)

lemma round_half_even_near: "\<bar>real_of_int (round_half_even m) - m\<bar> \<le> 1"
  unfolding round_half_even_def Let_def by (auto; linarith)

lemma power_int_1024: "(2::real) powi 1024 = 2 ^ 1024"
  by simp

lemma to_binary64_round:
  assumes "2 powi k \<le> \<bar>x\<bar>" "\<bar>x\<bar> < 2 powi (k + 1)" "- 1022 \<le> k" "k < 1023"
  shows "to_binary64 x = Fin (of_int (round_half_even (x / 2 powi (k - 52))) * 2 powi (k - 52))"
proof -
  define u :: real where "u = 2 powi (k - 52)"
  define r where "r = real_of_int (round_half_even (x / u)) * u"
  have u: "0 < u" by (simp add: u_def)
  have "(0::real) < 2 powi k" by simp
  then have x0: "x \<noteq> 0" using assms(1) by linarith
  have ue: "ulp_exponent x = k - 52" using assms(1-3) by (rule ulp_exponent_normal)
  have "r - x = (real_of_int (round_half_even (x / u)) - x / u) * u"
    using u by (simp add: r_def field_simps)
  then have "\<bar>r - x\<bar> = \<bar>real_of_int (round_half_even (x / u)) - x / u\<bar> * u"
    using u by (simp add: abs_mult)
  also have "\<dots> \<le> 1 * u"
    using round_half_even_near[of "x / u"] u by (intro mult_right_mono) auto
  finally have near: "\<bar>r - x\<bar> \<le> u" by simp
  have "u \<le> 2 powi 1023" unfolding u_def using assms(4) by (intro power_int_increasing) auto
  moreover have "\<bar>x\<bar> < 2 powi 1023"
  proof -
    have "(2::real) powi (k + 1) \<le> 2 powi 1023"
      using assms(4) by (intro power_int_increasing) auto
    then show ?thesis using assms(2) by linarith
  qed
  moreover have "(2::real) powi 1023 + 2 powi 1023 = 2 powi 1024" by simp
  ultimately have "\<bar>r\<bar> < 2 powi 1024" using near by linarith
  then have "\<not> 2 ^ 1024 \<le> \<bar>r\<bar>" unfolding power_int_1024 by linarith
  then show ?thesis
    using x0 unfolding to_binary64_def ue Let_def u_def[symmetric] r_def[symmetric] by simp
qed

lemma to_binary64_exact:
  assumes "2 powi k \<le> \<bar>x\<bar>" "\<bar>x\<bar> < 2 powi (k + 1)" "- 1022 \<le> k" "k < 1023"
    "x / 2 powi (k - 52) = of_int m"
  shows "to_binary64 x = Fin x"
proof -
  have "(2::real) powi (k - 52) \<noteq> 0" by simp
  then have "x = of_int m * 2 powi (k - 52)" using assms(5) by (simp add: field_simps)
  then show ?thesis using to_binary64_round[OF assms(1-4)] assms(5) by simp
qed

text \<open>
  When the test fraction, its complement, the number of rows and their product are
  binary64 numbers, nothing is rounded and the split index is the floor of the product.
\<close>

lemma split_index_exact:
  assumes "0 \<le> ts" "ts \<le> 1" "to_binary64 ts = Fin ts" "to_binary64 (1 - ts) = Fin (1 - ts)"
    "to_binary64 (real n) = Fin (real n)"
    "to_binary64 (real n * (1 - ts)) = Fin (real n * (1 - ts))"
  shows "split_index n (Fin ts) = Inr \<lfloor>real n * (1 - ts)\<rfloor>"
    and "py_index n \<lfloor>real n * (1 - ts)\<rfloor> = nat \<lfloor>real n * (1 - ts)\<rfloor>"
proof -
  have p: "0 \<le> real n * (1 - ts)" using assms(1,2) by simp
  show "split_index n (Fin ts) = Inr \<lfloor>real n * (1 - ts)\<rfloor>"
    using p by (simp add: split_index_def fsub_def assms(3-6))
  have "real n * (1 - ts) \<le> real n * 1" using assms(1) by (intro mult_left_mono) auto
  then have "\<lfloor>real n * (1 - ts)\<rfloor> \<le> int n" by (simp add: floor_le_iff)
  moreover have "0 \<le> \<lfloor>real n * (1 - ts)\<rfloor>" using p by simp
  ultimately show "py_index n \<lfloor>real n * (1 - ts)\<rfloor> = nat \<lfloor>real n * (1 - ts)\<rfloor>"
    by (simp add: py_index_def)
qed

lemma round_half_even_nonneg: "0 \<le> m \<Longrightarrow> 0 \<le> round_half_even m"
  unfolding round_half_even_def Let_def by (auto simp: not_less)

lemma round_half_even_le_int:
  assumes "m \<le> of_int N"
  shows "round_half_even m \<le> N"
proof -
  have f: "\<lfloor>m\<rfloor> \<le> N" using assms by (simp add: floor_le_iff)
  have "\<lfloor>m\<rfloor> + 1 \<le> N" if "0 < m - of_int \<lfloor>m\<rfloor>"
  proof -
    have "m \<noteq> of_int N" using that by auto
    then have "m < of_int N" using assms by simp
    then have "\<lfloor>m\<rfloor> < N" by (simp add: floor_less_iff)
    then show ?thesis by simp
  qed
  then show ?thesis using f unfolding round_half_even_def Let_def by auto
qed

lemma to_binary64_bounded:
  assumes "0 \<le> x" "x \<le> of_int a" "a < 2 ^ 53"
  shows "\<exists>r. to_binary64 x = Fin r \<and> 0 \<le> r \<and> r \<le> of_int a"
proof (cases "x = 0")
  case True
  then show ?thesis using assms by (simp add: to_binary64_def)
next
  case False
  then have pos: "0 < x" using assms(1) by simp
  define e where "e = ulp_exponent x"
  define u :: real where "u = 2 powi e"
  define r where "r = real_of_int (round_half_even (x / u)) * u"
  have u: "0 < u" by (simp add: u_def)
  have "x < 2 ^ 53"
  proof -
    have "real_of_int a < 2 ^ 53" using assms(3) by (metis of_int_less_numeral_power_cancel_iff)
    then show ?thesis using assms(2) by linarith
  qed
  then have "log 2 x < 53" using pos by (simp add: log_less_iff powr_numeral)
  then have "\<lfloor>log 2 x\<rfloor> \<le> 52" by (simp add: floor_le_iff)
  then have e0: "e \<le> 0" using pos by (simp add: e_def ulp_exponent_def)
  then obtain j where j: "e = - int j" by (metis neg_int_cases nonpos_int_cases)
  have uj: "u = 1 / 2 ^ j" unfolding u_def j by (simp add: power_int_minus field_simps)
  have "x / u \<le> of_int (a * 2 ^ j)" using assms(2) by (simp add: uj)
  then have "round_half_even (x / u) \<le> a * 2 ^ j" by (rule round_half_even_le_int)
  then have "real_of_int (round_half_even (x / u)) \<le> real_of_int (a * 2 ^ j)" by linarith
  then have "r \<le> real_of_int (a * 2 ^ j) * u" unfolding r_def using u by (intro mult_right_mono) auto
  then have ra: "r \<le> of_int a" by (simp add: uj)
  have "0 \<le> x / u" using pos u by simp
  then have "0 \<le> round_half_even (x / u)" by (rule round_half_even_nonneg)
  then have r0: "0 \<le> r" unfolding r_def using u by simp
  have "real_of_int a < 2 ^ 1024"
  proof -
    have "real_of_int a < 2 ^ 53" using assms(3) by (metis of_int_less_numeral_power_cancel_iff)
    moreover have "(2::real) ^ 53 \<le> 2 ^ 1024" by (intro power_increasing) auto
    ultimately show ?thesis by linarith
  qed
  then have "\<not> 2 ^ 1024 \<le> \<bar>r\<bar>" using ra r0 by linarith
  then have "to_binary64 x = Fin r"
    using False unfolding to_binary64_def Let_def e_def[symmetric] u_def[symmetric] r_def[symmetric]
    by simp
  then show ?thesis using r0 ra by blast
qed

text \<open>
  A rounded number does not pass an integer below \<open>2 ^ 53\<close> that bounds the exact one,
  so for a test fraction between 0 and 1 the split index lies between 0 and the number of
  rows, and denotes itself as a slice bound.
\<close>

lemma split_index_bounded:
  assumes "0 \<le> ts" "ts \<le> 1" "n < 2 ^ 53"
  shows "\<exists>s. split_index n (Fin ts) = Inr s \<and> 0 \<le> s \<and> s \<le> int n \<and> py_index n s = nat s"
proof -
  obtain t where t: "to_binary64 ts = Fin t" "0 \<le> t" "t \<le> 1"
    using to_binary64_bounded[of ts 1] assms(1,2) by auto
  obtain d where d: "to_binary64 (1 - t) = Fin d" "0 \<le> d" "d \<le> 1"
    using to_binary64_bounded[of "1 - t" 1] t(2,3) by auto
  have n53: "int n < 2 ^ 53" using assms(3) by (metis of_nat_less_numeral_power_cancel_iff)
  obtain m where m: "to_binary64 (real n) = Fin m" "0 \<le> m" "m \<le> real n"
    using to_binary64_bounded[of "real n" "int n"] n53 by auto
  have "m * d \<le> real n * 1" using m(2,3) d(2,3) by (intro mult_mono) auto
  moreover have "0 \<le> m * d" using m(2) d(2) by simp
  ultimately obtain p where p: "to_binary64 (m * d) = Fin p" "0 \<le> p" "p \<le> real n"
    using to_binary64_bounded[of "m * d" "int n"] n53 by auto
  have si: "split_index n (Fin ts) = Inr \<lfloor>p\<rfloor>"
    using p(2) by (simp add: split_index_def fsub_def t(1) d(1) m(1) p(1))
  have "0 \<le> \<lfloor>p\<rfloor>" using p(2) by simp
  moreover have "\<lfloor>p\<rfloor> \<le> int n" using p(3) by (simp add: floor_le_iff)
  ultimately show ?thesis using si by (auto simp: py_index_def)
qed

lemma xgboost_unfold:
  assumes "split_index (length (xgb_frame df horizon)) test_size = Inr s"
  shows "xgboost_vol_forecast fit predict df horizon test_size =
      (let frame = map snd (xgb_frame df horizon);
           k = py_index (length frame) s;
           m = fit (map features (take k frame)) (map realized_vol_next (take k frame));
           preds = predict m (map features (drop k frame))
       in case error_metrics (map realized_vol_next (drop k frame)) preds of
            Inl e \<Rightarrow> Inl e
          | Inr mt \<Rightarrow>
              Inr (map (\<lambda>(r, p). with_forecast r p) (zip (drop k frame) preds), mt, m))"
proof -
  define frame where "frame = map snd (xgb_frame df horizon)"
  define k where "k = py_index (length frame) s"
  let ?X = "map features frame"
  let ?y = "map realized_vol_next frame"
  have pi: "split_index (length ?X) test_size = Inr s"
    using assms by (simp add: frame_def)
  have sl: "py_slice ?X None (Some s) = map features (take k frame)"
    "py_slice ?X (Some s) None = map features (drop k frame)"
    "py_slice ?y None (Some s) = map realized_vol_next (take k frame)"
    "py_slice ?y (Some s) None = map realized_vol_next (drop k frame)"
    "py_slice frame (Some s) None = drop k frame"
    by (simp_all add: py_slice_index k_def take_map drop_map)
  show ?thesis
    unfolding xgboost_vol_forecast_def frame_def[symmetric] Let_def
    by (simp only: pi sl sum.case k_def[symmetric])
qed

lemma xgboost_split_result:
  assumes "xgboost_vol_forecast fit predict df horizon test_size = Inr (tbl, metrics, model)"
  shows "\<exists>split. split_index (length (xgb_frame df horizon)) test_size = Inr split
       \<and> (let frame = map snd (xgb_frame df horizon);
              k = py_index (length frame) split;
              train = take k frame;
              test = drop k frame
          in model = fit (map features train) (map realized_vol_next train)
           \<and> map forecast_vol_xgb tbl = predict model (map features test)
           \<and> map ds tbl = map ds test
           \<and> map realized_vol_next tbl = map realized_vol_next test
           \<and> error_metrics (map realized_vol_next test) (predict model (map features test))
               = Inr metrics)"
proof (cases "split_index (length (xgb_frame df horizon)) test_size")
  case (Inl e)
  then have "xgboost_vol_forecast fit predict df horizon test_size = Inl e"
    by (simp add: xgboost_vol_forecast_def Let_def)
  then show ?thesis using assms by simp
next
  case (Inr s)
  define frame where "frame = map snd (xgb_frame df horizon)"
  define k where "k = py_index (length frame) s"
  define m where "m = fit (map features (take k frame)) (map realized_vol_next (take k frame))"
  define preds where "preds = predict m (map features (drop k frame))"
  have unf: "xgboost_vol_forecast fit predict df horizon test_size =
      (case error_metrics (map realized_vol_next (drop k frame)) preds of
         Inl e \<Rightarrow> Inl e
       | Inr mt \<Rightarrow> Inr (map (\<lambda>(r, p). with_forecast r p) (zip (drop k frame) preds), mt, m))"
    unfolding preds_def m_def k_def frame_def
    using xgboost_unfold[OF Inr, of fit predict] by (simp only: Let_def)
  from assms[unfolded unf]
  have em: "error_metrics (map realized_vol_next (drop k frame)) preds = Inr metrics"
    and tbl: "tbl = map (\<lambda>(r, p). with_forecast r p) (zip (drop k frame) preds)"
    and mm: "model = m"
    by (auto split: sum.splits)
  have len: "length (drop k frame) = length preds"
    using error_metrics_InrD[OF em] by simp
  have f: "map forecast_vol_xgb tbl = preds"
    unfolding tbl using len by (intro nth_equalityI) auto
  have d: "map ds tbl = map ds (drop k frame)"
    unfolding tbl using len by (intro nth_equalityI) auto
  have r: "map realized_vol_next tbl = map realized_vol_next (drop k frame)"
    unfolding tbl using len by (intro nth_equalityI) auto
  have body: "model = fit (map features (take k frame)) (map realized_vol_next (take k frame))
      \<and> map forecast_vol_xgb tbl = predict model (map features (drop k frame))
      \<and> map ds tbl = map ds (drop k frame)
      \<and> map realized_vol_next tbl = map realized_vol_next (drop k frame)
      \<and> error_metrics (map realized_vol_next (drop k frame))
                      (predict model (map features (drop k frame))) = Inr metrics"
    using em f d r mm unfolding m_def preds_def by simp
  show ?thesis
    unfolding Let_def
    by (rule exI[of _ s], rule conjI, rule Inr) (rule body[unfolded k_def frame_def])
qed

text \<open>
  C8 (as the code has it). Every row that the learned evaluation keeps comes from a row
  \<open>t \<ge> 2\<close> of the input, and its four features are the returns at \<open>t - 1\<close> and \<open>t - 2\<close>
  and the annualized short and long volatilities at \<open>t - 1\<close>: rows strictly before \<open>t\<close>.
  Its target is the absolute return at \<open>t + horizon\<close>. The kept rows stay in the order
  of the input. Whenever the evaluation returns a result, the split index that Python
  computes in binary64 arithmetic exists, and with \<open>k\<close> the position it denotes as a slice
  bound, the regressor is fitted on the first \<open>k\<close> kept rows only, and the predictions are
  made for, attached to and scored on the remaining rows only. The split index is
  \<open>\<lfloor>n * (1 - fraction)\<rfloor>\<close>, and \<open>k\<close> is that number, when the fraction lies between 0 and
  1 and the fraction, its complement, the number \<open>n\<close> of rows and the product are binary64
  numbers, so that nothing is rounded. For every fraction between 0 and 1 and fewer than
  \<open>2 ^ 53\<close> rows the split index exists, lies between 0 and \<open>n\<close>, and \<open>k\<close> is the
  split index itself.
\<close>

theorem evaluateLearned_lags_and_split:
  "(\<forall>(t, r) \<in> set (xgb_frame df horizon).
        2 \<le> t \<and> t < length df \<and> ds r = ds (df ! t)
      \<and> features r = [ret (df ! (t - 1)), ret (df ! (t - 2)),
                       vol_short_ann (df ! (t - 1)), vol_long_ann (df ! (t - 1))]
      \<and> (0 \<le> horizon \<longrightarrow> t + nat horizon < length df
            \<and> realized_vol_next r = fabs (ret (df ! (t + nat horizon)))))
   \<and> sorted_wrt (<) (map fst (xgb_frame df horizon))
   \<and> (\<forall>test_size tbl metrics model.
         xgboost_vol_forecast fit predict df horizon test_size = Inr (tbl, metrics, model) \<longrightarrow>
         (\<exists>split. split_index (length (xgb_frame df horizon)) test_size = Inr split
           \<and> (let frame = map snd (xgb_frame df horizon);
                  k = py_index (length frame) split;
                  train = take k frame;
                  test = drop k frame
              in model = fit (map features train) (map realized_vol_next train)
               \<and> map forecast_vol_xgb tbl = predict model (map features test)
               \<and> map ds tbl = map ds test
               \<and> map realized_vol_next tbl = map realized_vol_next test
               \<and> error_metrics (map realized_vol_next test) (predict model (map features test))
                   = Inr metrics)))
   \<and> (\<forall>n ts. 0 \<le> ts \<and> ts \<le> 1 \<and> to_binary64 ts = Fin ts
         \<and> to_binary64 (1 - ts) = Fin (1 - ts) \<and> to_binary64 (real n) = Fin (real n)
         \<and> to_binary64 (real n * (1 - ts)) = Fin (real n * (1 - ts)) \<longrightarrow>
           split_index n (Fin ts) = Inr \<lfloor>real n * (1 - ts)\<rfloor>
         \<and> py_index n \<lfloor>real n * (1 - ts)\<rfloor> = nat \<lfloor>real n * (1 - ts)\<rfloor>)
   \<and> (\<forall>n ts. 0 \<le> ts \<and> ts \<le> 1 \<and> n < 2 ^ 53 \<longrightarrow>
         (\<exists>s. split_index n (Fin ts) = Inr s \<and> 0 \<le> s \<and> s \<le> int n \<and> py_index n s = nat s))"
proof -
  have 1: "\<forall>(t, r) \<in> set (xgb_frame df horizon).
        2 \<le> t \<and> t < length df \<and> ds r = ds (df ! t)
      \<and> features r = [ret (df ! (t - 1)), ret (df ! (t - 2)),
                       vol_short_ann (df ! (t - 1)), vol_long_ann (df ! (t - 1))]
      \<and> (0 \<le> horizon \<longrightarrow> t + nat horizon < length df
            \<and> realized_vol_next r = fabs (ret (df ! (t + nat horizon))))"
  proof (intro ballI, clarify)
    fix t r assume "(t, r) \<in> set (xgb_frame df horizon)"
    from xgb_frame_features[OF this]
    show "2 \<le> t \<and> t < length df \<and> ds r = ds (df ! t)
      \<and> features r = [ret (df ! (t - 1)), ret (df ! (t - 2)),
                       vol_short_ann (df ! (t - 1)), vol_long_ann (df ! (t - 1))]
      \<and> (0 \<le> horizon \<longrightarrow> t + nat horizon < length df
            \<and> realized_vol_next r = fabs (ret (df ! (t + nat horizon))))"
      by (simp add: features_def)
  qed
  have 2: "sorted_wrt (<) (map fst (xgb_frame df horizon))" by (rule xgb_frame_sorted)
  have 3: "\<forall>test_size tbl metrics model.
         xgboost_vol_forecast fit predict df horizon test_size = Inr (tbl, metrics, model) \<longrightarrow>
         (\<exists>split. split_index (length (xgb_frame df horizon)) test_size = Inr split
           \<and> (let frame = map snd (xgb_frame df horizon);
                  k = py_index (length frame) split;
                  train = take k frame;
                  test = drop k frame
              in model = fit (map features train) (map realized_vol_next train)
               \<and> map forecast_vol_xgb tbl = predict model (map features test)
               \<and> map ds tbl = map ds test
               \<and> map realized_vol_next tbl = map realized_vol_next test
               \<and> error_metrics (map realized_vol_next test) (predict model (map features test))
                   = Inr metrics))"
  proof (intro allI impI)
    fix test_size tbl metrics model
    assume "xgboost_vol_forecast fit predict df horizon test_size = Inr (tbl, metrics, model)"
    then show "\<exists>split. split_index (length (xgb_frame df horizon)) test_size = Inr split
           \<and> (let frame = map snd (xgb_frame df horizon);
                  k = py_index (length frame) split;
                  train = take k frame;
                  test = drop k frame
              in model = fit (map features train) (map realized_vol_next train)
               \<and> map forecast_vol_xgb tbl = predict model (map features test)
               \<and> map ds tbl = map ds test
               \<and> map realized_vol_next tbl = map realized_vol_next test
               \<and> error_metrics (map realized_vol_next test) (predict model (map features test))
                   = Inr metrics)"
      by (rule xgboost_split_result)
  qed
  have 4: "\<forall>n ts. 0 \<le> ts \<and> ts \<le> 1 \<and> to_binary64 ts = Fin ts
         \<and> to_binary64 (1 - ts) = Fin (1 - ts) \<and> to_binary64 (real n) = Fin (real n)
         \<and> to_binary64 (real n * (1 - ts)) = Fin (real n * (1 - ts)) \<longrightarrow>
           split_index n (Fin ts) = Inr \<lfloor>real n * (1 - ts)\<rfloor>
         \<and> py_index n \<lfloor>real n * (1 - ts)\<rfloor> = nat \<lfloor>real n * (1 - ts)\<rfloor>"
    using split_index_exact by blast
  have 5: "\<forall>n ts. 0 \<le> ts \<and> ts \<le> 1 \<and> n < 2 ^ 53 \<longrightarrow>
         (\<exists>s. split_index n (Fin ts) = Inr s \<and> 0 \<le> s \<and> s \<le> int n \<and> py_index n s = nat s)"
    using split_index_bounded by blast
  show ?thesis by (intro conjI 1 2 3 4 5)
qed

lemma xgb_frame_feat6:
  "xgb_frame feat6 1 =
     [(2, \<lparr>ds = 2, y = Fin 100, ret = Fin (- 1/10), vol_short = Fin (1/100), vol_long = Fin (1/100),
           vol_short_ann = Fin (1/10), vol_long_ann = Fin (1/10),
           realized_vol_next = Fin (1/5), lag_ret = Fin (1/10), lag2_ret = Fin 0,
           lag_vol_short = Fin (1/10), lag_vol_long = Fin (1/10)\<rparr>),
      (3, \<lparr>ds = 3, y = Fin 100, ret = Fin (1/5), vol_short = Fin (1/100), vol_long = Fin (1/100),
           vol_short_ann = Fin (1/10), vol_long_ann = Fin (1/10),
           realized_vol_next = Fin 0, lag_ret = Fin (- 1/10), lag2_ret = Fin (1/10),
           lag_vol_short = Fin (1/10), lag_vol_long = Fin (1/10)\<rparr>),
      (4, \<lparr>ds = 4, y = Fin 100, ret = Fin 0, vol_short = Fin (1/100), vol_long = Fin (1/100),
           vol_short_ann = Fin (1/10), vol_long_ann = Fin (1/10),
           realized_vol_next = Fin (1/10), lag_ret = Fin (1/5), lag2_ret = Fin (- 1/10),
           lag_vol_short = Fin (1/10), lag_vol_long = Fin (1/10)\<rparr>)]"
  by (simp add: xgb_frame_def xgb_rows_def realized_vol_next_col_def pd_shift_def feat6_def
      feat_row_def upt_six xgb_row_has_nan_def)

text \<open>The binary64 numbers of the two sample runs.\<close>

lemma binary64_half: "to_binary64 (1/2) = Fin (1/2)"
  using to_binary64_exact[of "- 1" "1/2" "2 ^ 52"] by simp

lemma binary64_three: "to_binary64 3 = Fin 3"
  using to_binary64_exact[of 1 3 "3 * 2 ^ 51"] by simp

lemma binary64_three_halves: "to_binary64 (3/2) = Fin (3/2)"
  using to_binary64_exact[of 0 "3/2" "3 * 2 ^ 51"] by simp

lemma binary64_four_fifths: "to_binary64 (4/5) = Fin (7205759403792794 / 2 ^ 53)"
  using to_binary64_round[of "- 1" "4/5"] by (simp add: round_half_even_def)

lemma binary64_one_fifth:
  "to_binary64 (1 - 7205759403792794 / 2 ^ 53) = Fin (1801439850948198 / 2 ^ 53)"
  using to_binary64_exact[of "- 3" "1 - 7205759403792794 / 2 ^ 53" 7205759403792792] by simp

lemma binary64_five: "to_binary64 5 = Fin 5"
  using to_binary64_exact[of 2 5 "5 * 2 ^ 50"] by simp

lemma binary64_five_fifths:
  "to_binary64 (5 * (1801439850948198 / 2 ^ 53)) = Fin (9007199254740990 / 2 ^ 53)"
  using to_binary64_exact[of "- 1" "5 * (1801439850948198 / 2 ^ 53)" 9007199254740990] by simp

lemma split_index_five: "split_index 5 (Fin (4/5)) = Inr 0"
proof -
  have a: "as_double (Fin (4/5)) = Fin (7205759403792794 / 2 ^ 53)"
    using binary64_four_fifths by simp
  have b: "as_double (fsub (Fin 1) (Fin (7205759403792794 / 2 ^ 53)))
           = Fin (1801439850948198 / 2 ^ 53)"
    using binary64_one_fifth by (simp add: fsub_def)
  have c: "as_double (Fin (real (5::nat))) = Fin 5"
    using binary64_five by simp
  have d: "as_double (fmul (Fin 5) (Fin (1801439850948198 / 2 ^ 53)))
           = Fin (9007199254740990 / 2 ^ 53)"
    using binary64_five_fifths by simp
  show ?thesis unfolding split_index_def a b c d by simp
qed

lemma upt_eight: "[0..<8] = [0,1,2,3,4,5,6,7]"
  by (simp add: upt_rec)

lemma xgb_frame_feat8:
  "map (\<lambda>(t, r). (t, ds r, features r, realized_vol_next r)) (xgb_frame feat8 1) =
     [(2, 2, [Fin (1/10), Fin 0, Fin (1/10), Fin (1/10)], Fin (1/5)),
      (3, 3, [Fin (- 1/10), Fin (1/10), Fin (1/10), Fin (1/10)], Fin 0),
      (4, 4, [Fin (1/5), Fin (- 1/10), Fin (1/10), Fin (1/10)], Fin (1/10)),
      (5, 5, [Fin 0, Fin (1/5), Fin (1/10), Fin (1/10)], Fin (1/5)),
      (6, 6, [Fin (1/10), Fin 0, Fin (1/10), Fin (1/10)], Fin (1/10))]"
  by (simp add: xgb_frame_def xgb_rows_def realized_vol_next_col_def pd_shift_def feat8_def
      feat_row_def upt_eight xgb_row_has_nan_def features_def)

text \<open>
  C8 (as stated) fails where the product is rounded. Of eight feature rows the evaluation
  keeps five. For the test fraction 0.8 the claimed training prefix has
  \<open>\<lfloor>5 * (1 - 0.8)\<rfloor> = 1\<close> row. Python holds 0.8 as the binary64 number
  \<open>7205759403792794 / 2 ^ 53\<close>, a little more than 0.8, so the product is
  \<open>9007199254740990 / 2 ^ 53\<close>, a little less than 1, and the split index is 0: the
  regressor is fitted on no row, and all five rows are predicted and scored.
\<close>

theorem evaluateLearned_split_counterexample:
  "\<exists>tbl metrics model.
      xgboost_vol_forecast count_fit count_predict feat8 1 (Fin (4/5)) = Inr (tbl, metrics, model)
    \<and> length (xgb_frame feat8 1) = 5
    \<and> \<lfloor>real 5 * (1 - 4/5)\<rfloor> = (1::int)
    \<and> split_index 5 (Fin (4/5)) = Inr 0
    \<and> model = 0
    \<and> count_fit (map features (take 1 (map snd (xgb_frame feat8 1))))
                 (map realized_vol_next (take 1 (map snd (xgb_frame feat8 1)))) = 1
    \<and> map ds tbl = [2, 3, 4, 5, 6]
    \<and> map ds (drop 1 (map snd (xgb_frame feat8 1))) = [3, 4, 5, 6]"
proof -
  define frame where "frame = map snd (xgb_frame feat8 1)"
  have cols: "map ds frame = [2, 3, 4, 5, 6]"
    "map realized_vol_next frame = [Fin (1/5), Fin 0, Fin (1/10), Fin (1/5), Fin (1/10)]"
    using arg_cong[OF xgb_frame_feat8, of "map (\<lambda>(t, d, f, v). d)"]
      arg_cong[OF xgb_frame_feat8, of "map (\<lambda>(t, d, f, v). v)"]
    by (simp_all add: frame_def comp_def case_prod_unfold)
  have len: "length frame = 5" using arg_cong[OF cols(1), of length] by simp
  have n: "length (xgb_frame feat8 1) = 5" using len by (simp add: frame_def)
  have si: "split_index (length (xgb_frame feat8 1)) (Fin (4/5)) = Inr 0"
    unfolding n by (rule split_index_five)
  have em: "\<exists>mt. error_metrics [Fin (1/5), Fin 0, Fin (1/10), Fin (1/5), Fin (1/10)]
                   [Fin 0, Fin 0, Fin 0, Fin 0, Fin 0] = Inr mt"
    by (simp add: error_metrics_def mean_absolute_error_def mean_squared_error_def
        sk_accepts_def fmean_def fsum_def fsub_def)
  have preds: "count_predict m (map features frame) = [Fin 0, Fin 0, Fin 0, Fin 0, Fin 0]" for m
  proof -
    have "count_predict m (map features frame) = map (\<lambda>d. Fin 0) (map ds frame)"
      by (simp add: count_predict_def comp_def)
    then show ?thesis unfolding cols(1) by simp
  qed
  have k0: "py_index (length frame) 0 = 0" by (simp add: py_index_def)
  obtain mt where mt: "error_metrics [Fin (1/5), Fin 0, Fin (1/10), Fin (1/5), Fin (1/10)]
                   [Fin 0, Fin 0, Fin 0, Fin 0, Fin 0] = Inr mt"
    using em by blast
  have "xgboost_vol_forecast count_fit count_predict feat8 1 (Fin (4/5)) =
      Inr (map (\<lambda>(r, p). with_forecast r p) (zip frame [Fin 0, Fin 0, Fin 0, Fin 0, Fin 0]),
           mt, count_fit [] [])"
    unfolding xgboost_unfold[OF si] Let_def frame_def[symmetric] k0
    by (simp add: cols preds mt)
  then obtain tbl metrics model where run:
    "xgboost_vol_forecast count_fit count_predict feat8 1 (Fin (4/5)) = Inr (tbl, metrics, model)"
    by blast
  from xgboost_split_result[OF run] si
  have res: "model = count_fit (map features (take 0 frame)) (map realized_vol_next (take 0 frame))"
    "map ds tbl = map ds (drop 0 frame)"
    unfolding Let_def frame_def[symmetric] by (simp_all add: k0)
  have m: "model = 0" using res(1) by (simp add: count_fit_def)
  have d: "map ds tbl = [2, 3, 4, 5, 6]" using res(2) cols(1) by simp
  have f: "\<lfloor>real 5 * (1 - 4/5)\<rfloor> = (1::int)" by simp
  have c1: "count_fit (map features (take 1 frame)) (map realized_vol_next (take 1 frame)) = 1"
    by (simp add: count_fit_def len)
  have d1: "map ds (drop 1 frame) = [3, 4, 5, 6]"
    unfolding drop_map[symmetric] cols(1) by simp
  show ?thesis
    unfolding frame_def[symmetric]
    by (rule exI[of _ tbl], rule exI[of _ metrics], rule exI[of _ model])
       (intro conjI run n f split_index_five m c1 d d1)
qed

theorem evaluateLearned_lags_and_split_witness:
  "\<exists>tbl metrics model.
      xgboost_vol_forecast mean_fit mean_predict feat6 1 (Fin (1/2)) = Inr (tbl, metrics, model)
    \<and> (0::real) \<le> 1/2 \<and> (1/2::real) \<le> 1
    \<and> to_binary64 (1/2) = Fin (1/2) \<and> to_binary64 (real 3) = Fin (real 3)
    \<and> to_binary64 (real 3 * (1 - 1/2)) = Fin (real 3 * (1 - 1/2))
    \<and> split_index 3 (Fin (1/2)) = Inr 1
    \<and> (3::nat) < 2 ^ 53
    \<and> (\<exists>s. split_index 3 (Fin (1/2)) = Inr s \<and> 0 \<le> s \<and> s \<le> 3 \<and> py_index 3 s = nat s)
    \<and> map fst (xgb_frame feat6 1) = [2, 3, 4]
    \<and> model = Fin (1/5)
    \<and> map forecast_vol_xgb tbl = [Fin (1/5), Fin (1/5)]
    \<and> map ds tbl = [3, 4]
    \<and> map realized_vol_next tbl = [Fin 0, Fin (1/10)]
    \<and> MAE metrics = Fin (3/20)"
proof -
  have a: "(0::real) \<le> 1/2" and b: "(1/2::real) \<le> 1" by simp_all
  have e1: "to_binary64 (1/2) = Fin (1/2)" by (rule binary64_half)
  have e2: "to_binary64 (1 - 1/2) = Fin (1 - 1/2)" using binary64_half by simp
  have e3: "to_binary64 (real 3) = Fin (real 3)" using binary64_three by simp
  have e4: "to_binary64 (real 3 * (1 - 1/2)) = Fin (real 3 * (1 - 1/2))"
    using binary64_three_halves by simp
  have fr: "map fst (xgb_frame feat6 1) = [2, 3, 4]" by (simp add: xgb_frame_feat6)
  have n: "length (xgb_frame feat6 1) = 3" by (simp add: xgb_frame_feat6)
  have "split_index 3 (Fin (1/2)) = Inr \<lfloor>real 3 * (1 - 1/2)\<rfloor>"
    using evaluateLearned_lags_and_split[of feat6 1 mean_fit mean_predict,
      THEN conjunct2, THEN conjunct2, THEN conjunct2, THEN conjunct1, rule_format, of "1/2" 3,
      OF conjI[OF a conjI[OF b conjI[OF e1 conjI[OF e2 conjI[OF e3 e4]]]]]]
    by (rule conjunct1)
  then have si: "split_index 3 (Fin (1/2)) = Inr 1" by simp
  have c: "(3::nat) < 2 ^ 53" by simp
  have bd: "\<exists>s. split_index 3 (Fin (1/2)) = Inr s \<and> 0 \<le> s \<and> s \<le> 3 \<and> py_index 3 s = nat s"
    using evaluateLearned_lags_and_split[of feat6 1 mean_fit mean_predict,
      THEN conjunct2, THEN conjunct2, THEN conjunct2, THEN conjunct2, rule_format, of "1/2" 3,
      OF conjI[OF a conjI[OF b c]]]
    by simp
  have em: "error_metrics [Fin 0, Fin (1/10)] [Fin (1/5), Fin (1/5)]
            = Inr \<lparr>MAE = Fin (3/20), RMSE = fsqrt (Fin (1/40))\<rparr>"
    by (simp add: error_metrics_def mean_absolute_error_def mean_squared_error_def sk_accepts_def
        fmean_def fsum_def fsub_def)
  have k: "py_index (length (map snd (xgb_frame feat6 1))) 1 = 1"
    by (simp add: xgb_frame_feat6 py_index_def)
  obtain tbl metrics model where run:
    "xgboost_vol_forecast mean_fit mean_predict feat6 1 (Fin (1/2)) = Inr (tbl, metrics, model)"
    unfolding xgboost_unfold[OF si[folded n]] Let_def k
    by (simp add: xgb_frame_feat6 mean_fit_def mean_predict_def fmean_def fsum_def em)
  from evaluateLearned_lags_and_split[of feat6 1 mean_fit mean_predict,
      THEN conjunct2, THEN conjunct2, THEN conjunct1, rule_format, OF run]
  obtain split where sp: "split_index (length (xgb_frame feat6 1)) (Fin (1/2)) = Inr split"
    and t0: "let frame = map snd (xgb_frame feat6 1);
                 k = py_index (length frame) split;
                 train = take k frame;
                 test = drop k frame
             in model = mean_fit (map features train) (map realized_vol_next train)
              \<and> map forecast_vol_xgb tbl = mean_predict model (map features test)
              \<and> map ds tbl = map ds test
              \<and> map realized_vol_next tbl = map realized_vol_next test
              \<and> error_metrics (map realized_vol_next test) (mean_predict model (map features test))
                  = Inr metrics"
    by blast
  have "split = 1" using sp si unfolding n by simp
  note t = t0[unfolded Let_def \<open>split = 1\<close> k]
  have m: "model = Fin (1/5)"
    using t[THEN conjunct1] by (simp add: xgb_frame_feat6 mean_fit_def fmean_def fsum_def)
  have p: "map forecast_vol_xgb tbl = [Fin (1/5), Fin (1/5)]"
    using t[THEN conjunct2, THEN conjunct1] unfolding m
    by (simp add: xgb_frame_feat6 mean_predict_def)
  have d: "map ds tbl = [3, 4]"
    using t[THEN conjunct2, THEN conjunct2, THEN conjunct1] by (simp add: xgb_frame_feat6)
  have r: "map realized_vol_next tbl = [Fin 0, Fin (1/10)]"
    using t[THEN conjunct2, THEN conjunct2, THEN conjunct2, THEN conjunct1]
    by (simp add: xgb_frame_feat6)
  have "error_metrics [Fin 0, Fin (1/10)] [Fin (1/5), Fin (1/5)] = Inr metrics"
    using t[THEN conjunct2, THEN conjunct2, THEN conjunct2, THEN conjunct2] unfolding m
    by (simp add: xgb_frame_feat6 mean_predict_def)
  then have e: "MAE metrics = Fin (3/20)" unfolding em by auto
  show ?thesis
    by (rule exI[of _ tbl], rule exI[of _ metrics], rule exI[of _ model])
       (intro conjI run a b e1 e3 e4 si c bd fr m p d r e)
qed

section \<open>The operations leave their argument unchanged\<close>

lemma preserves_refl [simp]: "preserves s s"
  by (simp add: preserves_def)

lemma preserves_new: "preserves s0 s \<Longrightarrow> preserves s0 (fst (df_new s f))"
  by (auto simp: preserves_def df_new_def)

lemma preserves_copy: "preserves s0 s \<Longrightarrow> preserves s0 (fst (df_copy s a))"
  by (simp add: df_copy_def preserves_new)

lemma snd_df_new [simp]: "snd (df_new s f) = length s"
  by (simp add: df_new_def)

lemma snd_df_copy [simp]: "snd (df_copy s a) = length s"
  by (simp add: df_copy_def)

lemma length_df_new [simp]: "length (fst (df_new s f)) = Suc (length s)"
  by (simp add: df_new_def)

lemma length_df_copy [simp]: "length (fst (df_copy s a)) = Suc (length s)"
  by (simp add: df_copy_def)

lemma length_df_assign [simp]: "length (df_assign s a n c) = length s"
  by (simp add: df_assign_def)

lemma preserves_assign:
  "preserves s0 s \<Longrightarrow> length s0 \<le> c \<Longrightarrow> preserves s0 (df_assign s c n col)"
  by (auto simp: preserves_def df_assign_def)

lemma preserves_length: "preserves s0 s \<Longrightarrow> length s0 \<le> length s"
  by (simp add: preserves_def)

lemma preserves_nth: "preserves s s' \<Longrightarrow> a < length s \<Longrightarrow> s' ! a = s ! a"
  by (metis preserves_def nth_take)

lemma df_new_read [simp]: "fst (df_new s f) ! length s = f"
  by (simp add: df_new_def)

lemma scan_lags_obj_frame:
  "scan_lags_obj cc s a m = (s', r) \<Longrightarrow>
   preserves s s' \<and> (\<forall>out. r = Inr out \<longrightarrow> fresh_in s s' out)"
  by (auto simp: scan_lags_obj_def df_new_def preserves_def fresh_in_def Let_def
      split: sum.splits)

lemma backtest_obj_frame:
  "backtest_obj s a L z w = (s', r) \<Longrightarrow>
   preserves s s' \<and> (\<forall>out m. r = Inr (out, m) \<longrightarrow> fresh_in s s' out)"
  by (auto simp: backtest_obj_def df_new_def df_copy_def df_assign_def preserves_def
      fresh_in_def Let_def split: sum.splits if_splits)

lemma compute_features_obj_frame:
  "compute_features_obj s a ws wl = (s', r) \<Longrightarrow>
   preserves s s' \<and> (\<forall>out. r = Inr out \<longrightarrow> fresh_in s s' out)"
  by (auto simp: compute_features_obj_def df_new_def df_copy_def df_assign_def preserves_def
      fresh_in_def Let_def split: sum.splits if_splits)

lemma naive_obj_frame:
  "naive_obj s a h = (s', r) \<Longrightarrow>
   preserves s s' \<and> (\<forall>out m. r = Inr (out, m) \<longrightarrow> fresh_in s s' out)"
  by (auto simp: naive_obj_def df_new_def df_copy_def df_assign_def preserves_def
      fresh_in_def Let_def split: sum.splits if_splits)

lemma xgboost_obj_frame:
  "xgboost_obj fit predict s a h ts = (s', r) \<Longrightarrow>
   preserves s s' \<and> (\<forall>out m model. r = Inr (out, m, model) \<longrightarrow> fresh_in s s' out)"
  by (auto simp: xgboost_obj_def df_new_def df_copy_def df_assign_def preserves_def
      fresh_in_def Let_def split: sum.splits if_splits)

text \<open>
  The object a call returns holds the table that the function of the earlier sections
  computes from the argument, and the call raises what that function raises.
\<close>

lemma backtest_obj_result:
  assumes "aligned_view (s ! a) = Inr rows" "backtest_obj s a L z w = (s', r)"
  shows "(\<forall>e. r = Inl e \<longrightarrow> backtest_trend_signal rows L z w = Inl e)
       \<and> (\<forall>out m. r = Inr (out, m) \<longrightarrow>
             (\<exists>rs. backtest_trend_signal rows L z w = Inr (rs, m) \<and> s' ! out = frame_of_bt rs))"
proof (cases "w < 0")
  case True
  then show ?thesis using assms
    by (auto simp: backtest_obj_def df_new_def df_copy_def Let_def backtest_bad_window)
next
  case False
  then show ?thesis using assms
    by (auto simp: backtest_obj_def df_new_def df_copy_def df_assign_def Let_def nth_append
        split: sum.splits)
qed

lemma compute_features_obj_result:
  assumes "price_view (s ! a) = Inr rows" "compute_features_obj s a ws wl = (s', r)"
  shows "(\<forall>e. r = Inl e \<longrightarrow> compute_volatility_features rows ws wl = Inl e)
       \<and> (\<forall>out. r = Inr out \<longrightarrow>
             (\<exists>rs. compute_volatility_features rows ws wl = Inr rs \<and> s' ! out = frame_of_vol rs))"
  using assms
  by (auto simp: compute_features_obj_def compute_volatility_features_def df_new_def df_copy_def
      df_assign_def Let_def nth_append split: sum.splits if_splits)

lemma naive_obj_result:
  assumes "vol_view (s ! a) = Inr rows" "naive_obj s a h = (s', r)"
  shows "(\<forall>e. r = Inl e \<longrightarrow> naive_vol_forecast rows h = Inl e)
       \<and> (\<forall>out m. r = Inr (out, m) \<longrightarrow>
             (\<exists>rs. naive_vol_forecast rows h = Inr (rs, m)
                 \<and> (rs \<noteq> [] \<longrightarrow> s' ! out = frame_of_naive rs)))"
  using assms
  by (auto simp: naive_obj_def naive_vol_forecast_def df_new_def df_copy_def
      df_assign_def Let_def nth_append split: sum.splits if_splits)

lemma set_col_new: "name \<notin> set (map fst f) \<Longrightarrow> set_col f name c = f @ [(name, c)]"
  by (simp add: set_col_def)

lemma forecast_col_new:
  "set_col (frame_of_xgb rs) ''forecast_vol_xgb'' c = frame_of_xgb rs @ [(''forecast_vol_xgb'', c)]"
  by (rule set_col_new) (simp add: frame_of_xgb_def frame_of_vol_def)

lemma xgboost_obj_result:
  assumes "vol_view (s ! a) = Inr rows" "xgboost_obj fit predict s a h ts = (s', r)"
  shows "(\<forall>e. r = Inl e \<longrightarrow> xgboost_vol_forecast fit predict rows h ts = Inl e)
       \<and> (\<forall>out m model. r = Inr (out, m, model) \<longrightarrow>
             (\<exists>rs. xgboost_vol_forecast fit predict rows h ts = Inr (rs, m, model)
                 \<and> s' ! out = frame_of_pred rs))"
  using assms
  by (auto simp: xgboost_obj_def df_new_def df_copy_def nth_append
      df_assign_def Let_def frame_of_pred_def forecast_col_new split: sum.splits)

lemma scan_lags_obj_result:
  assumes "float_col (s ! a) ''price'' = Inr prices" "float_col (s ! a) ''trend'' = Inr trends"
    and "scan_lags_obj cc s a m = (s', r)"
  shows "\<exists>out. r = Inr out
       \<and> s' ! out = frame_of_corr (map (lag_entry cc prices trends) [- m..m])"
  using assms by (auto simp: scan_lags_obj_def df_new_def Let_def)

text \<open>
  C9. Each of the five operations, called on the address of a table in the store,
  leaves every table that was in the store before the call as it was, the argument
  among them, also when it raises; and the table it returns was created during the call.
\<close>

theorem operations_leave_input_unchanged:
  assumes "a < length s"
  shows "(\<forall>s' r. scan_lags_obj corrcoef s a max_lag = (s', r) \<longrightarrow>
            preserves s s' \<and> s' ! a = s ! a \<and> (\<forall>out. r = Inr out \<longrightarrow> fresh_in s s' out))
       \<and> (\<forall>s' r. backtest_obj s a L z_threshold roll_window = (s', r) \<longrightarrow>
            preserves s s' \<and> s' ! a = s ! a
          \<and> (\<forall>out m. r = Inr (out, m) \<longrightarrow> fresh_in s s' out))
       \<and> (\<forall>s' r. compute_features_obj s a window_short window_long = (s', r) \<longrightarrow>
            preserves s s' \<and> s' ! a = s ! a \<and> (\<forall>out. r = Inr out \<longrightarrow> fresh_in s s' out))
       \<and> (\<forall>s' r. naive_obj s a horizon = (s', r) \<longrightarrow>
            preserves s s' \<and> s' ! a = s ! a
          \<and> (\<forall>out m. r = Inr (out, m) \<longrightarrow> fresh_in s s' out))
       \<and> (\<forall>s' r. xgboost_obj fit predict s a horizon test_size = (s', r) \<longrightarrow>
            preserves s s' \<and> s' ! a = s ! a
          \<and> (\<forall>out m model. r = Inr (out, m, model) \<longrightarrow> fresh_in s s' out))"
proof -
  have 1: "\<forall>s' r. scan_lags_obj corrcoef s a max_lag = (s', r) \<longrightarrow>
            preserves s s' \<and> s' ! a = s ! a \<and> (\<forall>out. r = Inr out \<longrightarrow> fresh_in s s' out)"
    using scan_lags_obj_frame assms preserves_nth by blast
  have 2: "\<forall>s' r. backtest_obj s a L z_threshold roll_window = (s', r) \<longrightarrow>
            preserves s s' \<and> s' ! a = s ! a
          \<and> (\<forall>out m. r = Inr (out, m) \<longrightarrow> fresh_in s s' out)"
    using backtest_obj_frame assms preserves_nth by blast
  have 3: "\<forall>s' r. compute_features_obj s a window_short window_long = (s', r) \<longrightarrow>
            preserves s s' \<and> s' ! a = s ! a \<and> (\<forall>out. r = Inr out \<longrightarrow> fresh_in s s' out)"
    using compute_features_obj_frame assms preserves_nth by blast
  have 4: "\<forall>s' r. naive_obj s a horizon = (s', r) \<longrightarrow>
            preserves s s' \<and> s' ! a = s ! a
          \<and> (\<forall>out m. r = Inr (out, m) \<longrightarrow> fresh_in s s' out)"
    using naive_obj_frame assms preserves_nth by blast
  have 5: "\<forall>s' r. xgboost_obj fit predict s a horizon test_size = (s', r) \<longrightarrow>
            preserves s s' \<and> s' ! a = s ! a
          \<and> (\<forall>out m model. r = Inr (out, m, model) \<longrightarrow> fresh_in s s' out)"
    using xgboost_obj_frame assms preserves_nth by blast
  show ?thesis by (intro conjI 1 2 3 4 5)
qed

lemma aligned_view_store3: "aligned_view (store3 ! 0) = Inr df_step"
  by (simp add: store3_def aligned_view_def int_col_def float_col_def df_step_def)

theorem operations_leave_input_unchanged_witness:
  "(0::nat) < length store3
   \<and> (\<exists>s' out m. backtest_obj store3 0 1 (Fin (1/2)) 3 = (s', Inr (out, m))
         \<and> s' ! 0 = store3 ! 0 \<and> take 3 s' = store3 \<and> 3 \<le> out \<and> out < length s')"
proof -
  have len: "length store3 = 3" by (simp add: store3_def)
  then have a: "(0::nat) < length store3" by simp
  obtain s' r where run: "backtest_obj store3 0 1 (Fin (1/2)) 3 = (s', r)"
    by (metis surj_pair)
  note res = backtest_obj_result[OF aligned_view_store3 run]
  obtain out m where r: "r = Inr (out, m)"
  proof (cases r)
    case (Inl e)
    then have "backtest_trend_signal df_step 1 (Fin (1/2)) 3 = Inl e" using res by blast
    then show ?thesis using backtest_step_runs by simp
  next
    case (Inr p)
    then show ?thesis using that by (cases p) auto
  qed
  note t = operations_leave_input_unchanged[OF a, of "\<lambda>x y. NaN" 0 1 "Fin (1/2)" 3 2 2 1
      mean_fit mean_predict "Fin (1/2)", THEN conjunct2, THEN conjunct1, rule_format, OF run]
  have p: "preserves store3 s'" and n: "s' ! 0 = store3 ! 0" and f: "fresh_in store3 s' out"
    using t r by blast+
  have tk: "take 3 s' = store3" using p len by (simp add: preserves_def)
  have o: "3 \<le> out" "out < length s'" using f len by (simp_all add: fresh_in_def)
  show ?thesis
    using a run[unfolded r] n tk o by blast
qed

end
